(* ===== verification/Sim_Prelude.thy ===== *)
theory Sim_Prelude
  imports Complex_Main "HOL-Library.Stream" "HOL-Library.State_Monad" "HOL-Library.Multiset"
begin

text \<open>
  Shared vocabulary of the model of \<^verbatim>\<open>src/scipt.js\<close>.

  \<^item> JavaScript numbers are modelled as \<^typ>\<open>real\<close>: rounding, \<^verbatim>\<open>NaN\<close> and the
    infinities of IEEE-754 doubles are outside the model.
  \<^item> A two-element array \<^verbatim>\<open>[fx, fy]\<close> is a pair; pairs are made an additive group so
    that the accumulation \<^verbatim>\<open>forces[i][0] += fx; forces[i][1] += fy\<close> is one \<open>+\<close> and
    sums over lists of forces are \<^const>\<open>sum_list\<close>.
  \<^item> \<^verbatim>\<open>Math.random()\<close> reads the head of an infinite stream of draws, threaded through
    the callers with the state monad.
  \<^item> The browser calls the handlers one event at a time: \<open>runs step s es\<close> is the state
    after the events \<open>es\<close> of a machine with step function \<open>step\<close>.
  \<^item> The fact collections \<open>sim_defs\<close> (definitions that evaluate a closed model term)
    and \<open>wf_simps\<close> (well-formedness facts used as rewrite rules) are filled by the
    component theories.
\<close>

named_theorems sim_defs "defining equations unfolded to evaluate closed terms of the model"
named_theorems wf_simps "well-formedness facts of the components, used as rewrite rules"

type_synonym vec2 = "real \<times> real"
type_synonym rng = "real stream"

instantiation prod :: (ab_group_add, ab_group_add) ab_group_add
begin

definition zero_prod :: "'a \<times> 'b" where
  "zero_prod = (0, 0)"

definition plus_prod :: "'a \<times> 'b \<Rightarrow> 'a \<times> 'b \<Rightarrow> 'a \<times> 'b" where
  "plus_prod p q = (fst p + fst q, snd p + snd q)"

definition minus_prod :: "'a \<times> 'b \<Rightarrow> 'a \<times> 'b \<Rightarrow> 'a \<times> 'b" where
  "minus_prod p q = (fst p - fst q, snd p - snd q)"

definition uminus_prod :: "'a \<times> 'b \<Rightarrow> 'a \<times> 'b" where
  "uminus_prod p = (- fst p, - snd p)"

instance
  by standard (simp_all add: zero_prod_def plus_prod_def minus_prod_def uminus_prod_def)

end

definition hypot :: "real \<Rightarrow> real \<Rightarrow> real" where
  "hypot a b = sqrt (a * a + b * b)"

definition magnitude :: "vec2 \<Rightarrow> real" where
  "magnitude f = hypot (fst f) (snd f)"

definition random :: "(rng, real) state" where
  "random = State (\<lambda>s. (shd s, stl s))"

definition unit_draws :: "rng \<Rightarrow> bool" where
  "unit_draws s \<longleftrightarrow> (\<forall>u \<in> sset s. 0 \<le> u \<and> u < 1)"

fun runs :: "('e \<Rightarrow> 's \<Rightarrow> 's) \<Rightarrow> 's \<Rightarrow> 'e list \<Rightarrow> 's" where
  "runs step s [] = s"
| "runs step s (e # es) = runs step (step e s) es"

subsection \<open>Pairs as vectors\<close>

lemma vec_plus [simp]: "(a, b) + (c, d) = (a + c, b + d)"
  by (simp add: plus_prod_def)

lemma vec_minus [simp]: "(a, b) - (c, d) = (a - c, b - d)"
  by (simp add: minus_prod_def)

lemma vec_uminus [simp]: "- (a, b) = (- a, - b)"
  by (simp add: uminus_prod_def)

lemma vec_zero: "(0 :: 'a::ab_group_add \<times> 'b::ab_group_add) = (0, 0)"
  by (simp add: zero_prod_def)

lemma vec_zero_iff [simp]:
  "(a, b) = (0 :: 'a::ab_group_add \<times> 'b::ab_group_add) \<longleftrightarrow> a = 0 \<and> b = 0"
  by (simp add: zero_prod_def)

lemma fst_vec_simps [simp]:
  "fst (0 :: 'a::ab_group_add \<times> 'b::ab_group_add) = 0"
  "fst (p + q) = fst p + fst q"
  "fst (p - q) = fst p - fst q"
  "fst (- p) = - fst p"
  by (simp_all add: zero_prod_def plus_prod_def minus_prod_def uminus_prod_def)

lemma snd_vec_simps [simp]:
  "snd (0 :: 'a::ab_group_add \<times> 'b::ab_group_add) = 0"
  "snd (p + q) = snd p + snd q"
  "snd (p - q) = snd p - snd q"
  "snd (- p) = - snd p"
  by (simp_all add: zero_prod_def plus_prod_def minus_prod_def uminus_prod_def)

lemma fst_sum_list [simp]: "fst (sum_list ps) = sum_list (map fst ps)"
  by (induction ps) simp_all

lemma snd_sum_list [simp]: "snd (sum_list ps) = sum_list (map snd ps)"
  by (induction ps) simp_all

lemma fst_sum [simp]: "fst (sum f A) = (\<Sum>i\<in>A. fst (f i))"
  by (induction A rule: infinite_finite_induct) simp_all

lemma snd_sum [simp]: "snd (sum f A) = (\<Sum>i\<in>A. snd (f i))"
  by (induction A rule: infinite_finite_induct) simp_all

subsection \<open>Sums over updated lists\<close>

lemma sum_list_update_group:
  fixes xs :: "'a::ab_group_add list"
  shows "k < length xs \<Longrightarrow> sum_list (xs[k := v]) = sum_list xs + v - xs ! k"
proof (induction xs arbitrary: k)
  case Nil
  then show ?case by simp
next
  case (Cons a xs)
  then show ?case by (cases k) (simp_all add: algebra_simps)
qed

lemma sum_list_transfer:
  fixes xs :: "'a::ab_group_add list"
  assumes "i < length xs" "j < length xs" "i \<noteq> j"
  shows "sum_list (xs[i := xs ! i + v, j := xs ! j - v]) = sum_list xs"
  using assms by (simp add: sum_list_update_group)

lemma sum_list_map_update:
  fixes f :: "'a \<Rightarrow> 'b::ab_group_add"
  shows "k < length xs \<Longrightarrow>
    sum_list (map f (xs[k := v])) = sum_list (map f xs) + f v - f (xs ! k)"
  by (simp add: map_update sum_list_update_group)

subsection \<open>Distances\<close>

lemma hypot_nonneg [simp]: "0 \<le> hypot a b"
  by (simp add: hypot_def)

lemma hypot_commute_sign [simp]: "hypot (- a) (- b) = hypot a b"
  by (simp add: hypot_def)

lemma hypot_minus_swap: "hypot (a - c) (b - d) = hypot (c - a) (d - b)"
proof -
  have "(a - c) * (a - c) = (c - a) * (c - a)" "(b - d) * (b - d) = (d - b) * (d - b)"
    by (simp_all add: algebra_simps)
  then show ?thesis by (simp add: hypot_def)
qed

lemma abs_le_hypot: "\<bar>a\<bar> \<le> hypot a b" "\<bar>b\<bar> \<le> hypot a b"
proof -
  have "a * a \<le> a * a + b * b" "b * b \<le> a * a + b * b" by simp_all
  then have "sqrt (a * a) \<le> sqrt (a * a + b * b)" "sqrt (b * b) \<le> sqrt (a * a + b * b)"
    by (simp_all only: real_sqrt_le_iff)
  then show "\<bar>a\<bar> \<le> hypot a b" "\<bar>b\<bar> \<le> hypot a b"
    by (simp_all add: hypot_def)
qed

lemma hypot_square: "hypot a b * hypot a b = a * a + b * b"
  by (simp add: hypot_def)

lemma hypot_scale: "hypot (c * a) (c * b) = \<bar>c\<bar> * hypot a b"
proof -
  have "c * a * (c * a) + c * b * (c * b) = (c * c) * (a * a + b * b)"
    by (simp add: algebra_simps)
  then show ?thesis
    by (simp add: hypot_def real_sqrt_mult)
qed

lemma magnitude_nonneg [simp]: "0 \<le> magnitude f"
  by (simp add: magnitude_def)

lemma magnitude_uminus [simp]: "magnitude (- f) = magnitude f"
  by (simp add: magnitude_def)

subsection \<open>The stream of random draws\<close>

lemma run_random [simp]: "run_state random s = (shd s, stl s)"
  by (simp add: random_def)

lemma unit_draws_shd: "unit_draws s \<Longrightarrow> 0 \<le> shd s \<and> shd s < 1"
  by (simp add: unit_draws_def shd_sset)

lemma unit_draws_stl [wf_simps]: "unit_draws s \<Longrightarrow> unit_draws (stl s)"
  by (auto simp: unit_draws_def dest: stl_sset)

lemma unit_draws_sdrop [wf_simps]: "unit_draws s \<Longrightarrow> unit_draws (sdrop n s)"
  by (induction n arbitrary: s) (simp_all add: unit_draws_stl)

lemma unit_draws_sconst [simp]: "unit_draws (sconst u) \<longleftrightarrow> 0 \<le> u \<and> u < 1"
  by (simp add: unit_draws_def)

subsection \<open>Runs of a deterministic machine\<close>

text \<open>
  A machine is a step function from an event and a state to the next state; \<open>runs\<close>
  applies it to a list of events. The lemmas are stated for every machine: an invariant
  of the steps is an invariant of the runs, and a function between the states of two
  machines that commutes with the steps commutes with the runs.
\<close>

lemma runs_append: "runs step s (es @ es') = runs step (runs step s es) es'"
  by (induction es arbitrary: s) simp_all

lemma runs_snoc: "runs step s (es @ [e]) = step e (runs step s es)"
  by (simp add: runs_append)

lemma runs_invariant:
  assumes "P s" and "\<And>e s. P s \<Longrightarrow> P (step e s)"
  shows "P (runs step s es)"
  using assms(1) by (induction es arbitrary: s) (simp_all add: assms(2))

lemma runs_simulation:
  assumes "I c"
    and "\<And>e c. I c \<Longrightarrow> I (stepc e c)"
    and "\<And>e c. I c \<Longrightarrow> f (stepc e c) = stepa e (f c)"
  shows "f (runs stepc c es) = runs stepa (f c) es"
  using assms(1) by (induction es arbitrary: c) (simp_all add: assms(2,3))

end
