(* ===== verification/Body.thy ===== *)
theory Body
  imports Sim_Prelude
begin

text \<open>
  The class \<^verbatim>\<open>Body\<close> of \<^verbatim>\<open>src/scipt.js\<close> (lines 61--108): a point mass with position,
  velocity, mass and a radius derived from the mass. The record has the fields of the
  class under their source names; each method is a function from the receiver (and the
  arguments) to the updated receiver. \<^verbatim>\<open>draw\<close> only paints and is in theory \<open>Render\<close>.

  The lemmas give the well-formedness invariant \<open>wf_body\<close> (positive mass, radius equal
  to the derived radius), its preservation by every method, the bounds of the radius,
  the effect of each method on every field, and the geometric meaning of
  \<open>isOffScreen\<close>.
\<close>

record body =
  x :: real
  y :: real
  masse :: real
  vx :: real
  vy :: real
  radius :: real

definition calcRadius :: "body \<Rightarrow> real" where
  "calcRadius this = max 5 (of_int \<lfloor>masse this powr (4 / 5)\<rfloor>)"

definition Body :: "real \<Rightarrow> real \<Rightarrow> real \<Rightarrow> real \<Rightarrow> real \<Rightarrow> body" where
  "Body x0 y0 m vx0 vy0 =
     (let this = \<lparr>x = x0, y = y0, masse = m, vx = vx0, vy = vy0, radius = 0\<rparr>
      in this\<lparr>radius := calcRadius this\<rparr>)"

definition updatePosition :: "body \<Rightarrow> real \<Rightarrow> body" where
  "updatePosition this dt =
     this\<lparr>x := x this + vx this * dt, y := y this + vy this * dt\<rparr>"

definition applyForce :: "body \<Rightarrow> real \<Rightarrow> real \<Rightarrow> real \<Rightarrow> body" where
  "applyForce this fx fy dt =
     (let ax = fx / masse this; ay = fy / masse this
      in this\<lparr>vx := vx this + ax * dt, vy := vy this + ay * dt\<rparr>)"

definition isOffScreen :: "body \<Rightarrow> real \<Rightarrow> real \<Rightarrow> bool" where
  "isOffScreen this width height \<longleftrightarrow>
     x this + radius this < 0 \<or> x this - radius this > width \<or>
     y this + radius this < 0 \<or> y this - radius this > height"

definition centerDist :: "body \<Rightarrow> body \<Rightarrow> real" where
  "centerDist b1 b2 = hypot (x b2 - x b1) (y b2 - y b1)"

definition wf_body :: "body \<Rightarrow> bool" where
  "wf_body b \<longleftrightarrow> 0 < masse b \<and> radius b = calcRadius b"

definition covers :: "body \<Rightarrow> real \<Rightarrow> real \<Rightarrow> bool" where
  "covers b px py \<longleftrightarrow> hypot (px - x b) (py - y b) \<le> radius b"

definition in_viewport :: "real \<Rightarrow> real \<Rightarrow> real \<Rightarrow> real \<Rightarrow> bool" where
  "in_viewport width height px py \<longleftrightarrow> 0 \<le> px \<and> px \<le> width \<and> 0 \<le> py \<and> py \<le> height"

definition momentum :: "body list \<Rightarrow> vec2" where
  "momentum bodies = sum_list (map (\<lambda>b. (masse b * vx b, masse b * vy b)) bodies)"

definition total_mass :: "body list \<Rightarrow> real" where
  "total_mass bodies = sum_list (map masse bodies)"

lemmas body_defs [sim_defs] =
  calcRadius_def Body_def updatePosition_def applyForce_def isOffScreen_def wf_body_def
  covers_def in_viewport_def centerDist_def momentum_def total_mass_def

subsection \<open>The derived radius\<close>

lemma calcRadius_masse_cong: "masse a = masse b \<Longrightarrow> calcRadius a = calcRadius b"
  by (simp add: calcRadius_def)

lemma calcRadius_ge_5 [simp]: "5 \<le> calcRadius b"
  by (simp add: calcRadius_def)

lemma calcRadius_pos [simp]: "0 < calcRadius b"
  using calcRadius_ge_5 [of b] by linarith

lemma calcRadius_mono:
  assumes "0 \<le> masse a" "masse a \<le> masse b"
  shows "calcRadius a \<le> calcRadius b"
proof -
  have "masse a powr (4 / 5) \<le> masse b powr (4 / 5)"
    using assms by (intro powr_mono2) simp_all
  then have "\<lfloor>masse a powr (4 / 5)\<rfloor> \<le> \<lfloor>masse b powr (4 / 5)\<rfloor>"
    by (rule floor_mono)
  then show ?thesis
    by (simp add: calcRadius_def max.coboundedI2)
qed

lemma powr_four_fifths_less_6:
  assumes "0 \<le> m" "m \<le> (9 :: real)"
  shows "m powr (4 / 5) < 6"
proof -
  have "m powr (4 / 5) \<le> 9 powr (4 / 5)"
    using assms by (intro powr_mono2) simp_all
  moreover have "(9 :: real) powr (4 / 5) < 6"
  proof (rule ccontr)
    assume "\<not> (9 :: real) powr (4 / 5) < 6"
    then have "(6 :: real) \<le> 9 powr (4 / 5)" by simp
    then have "(6 :: real) ^ 5 \<le> (9 powr (4 / 5)) ^ 5"
      by (intro power_mono) simp_all
    also have "\<dots> = 9 powr 4"
      by (simp add: powr_powr flip: powr_numeral)
    also have "\<dots> = 9 ^ 4"
      by (simp flip: powr_numeral)
    finally show False by simp
  qed
  ultimately show ?thesis by linarith
qed

lemma calcRadius_small:
  assumes "0 \<le> masse b" "masse b \<le> 9"
  shows "calcRadius b = 5"
proof -
  have "masse b powr (4 / 5) < 6"
    using assms by (rule powr_four_fifths_less_6)
  then have "\<lfloor>masse b powr (4 / 5)\<rfloor> < 6"
    by (simp add: floor_less_iff)
  then have "of_int \<lfloor>masse b powr (4 / 5)\<rfloor> \<le> (5 :: real)"
    by linarith
  then show ?thesis by (simp add: calcRadius_def)
qed

lemma calcRadius_le_masse:
  assumes "1 \<le> masse b"
  shows "calcRadius b \<le> max 5 (masse b)"
proof -
  have "masse b powr (4 / 5) \<le> masse b powr 1"
    using assms by (intro powr_mono) simp_all
  then have "masse b powr (4 / 5) \<le> masse b"
    using assms by simp
  moreover have "of_int \<lfloor>masse b powr (4 / 5)\<rfloor> \<le> masse b powr (4 / 5)"
    by simp
  ultimately have "of_int \<lfloor>masse b powr (4 / 5)\<rfloor> \<le> masse b"
    by linarith
  then show ?thesis
    unfolding calcRadius_def by (intro max.mono) simp_all
qed

subsection \<open>Field-wise effect of the methods\<close>

lemma Body_sel [simp]:
  "x (Body x0 y0 m vx0 vy0) = x0"
  "y (Body x0 y0 m vx0 vy0) = y0"
  "masse (Body x0 y0 m vx0 vy0) = m"
  "vx (Body x0 y0 m vx0 vy0) = vx0"
  "vy (Body x0 y0 m vx0 vy0) = vy0"
  by (simp_all add: Body_def)

lemma radius_Body [simp]:
  "radius (Body x0 y0 m vx0 vy0) = calcRadius (Body x0 y0 m vx0 vy0)"
  by (simp add: Body_def calcRadius_def)

lemma updatePosition_sel [simp]:
  "x (updatePosition b dt) = x b + vx b * dt"
  "y (updatePosition b dt) = y b + vy b * dt"
  "masse (updatePosition b dt) = masse b"
  "vx (updatePosition b dt) = vx b"
  "vy (updatePosition b dt) = vy b"
  "radius (updatePosition b dt) = radius b"
  by (simp_all add: updatePosition_def)

lemma applyForce_sel [simp]:
  "x (applyForce b fx fy dt) = x b"
  "y (applyForce b fx fy dt) = y b"
  "masse (applyForce b fx fy dt) = masse b"
  "vx (applyForce b fx fy dt) = vx b + fx / masse b * dt"
  "vy (applyForce b fx fy dt) = vy b + fy / masse b * dt"
  "radius (applyForce b fx fy dt) = radius b"
  by (simp_all add: applyForce_def)

lemma calcRadius_updatePosition [simp]: "calcRadius (updatePosition b dt) = calcRadius b"
  by (simp add: calcRadius_def)

lemma calcRadius_applyForce [simp]: "calcRadius (applyForce b fx fy dt) = calcRadius b"
  by (simp add: calcRadius_def)

subsection \<open>Well-formedness and its preservation\<close>

lemma wf_body_Body [wf_simps]: "0 < m \<Longrightarrow> wf_body (Body x0 y0 m vx0 vy0)"
  by (simp add: wf_body_def)

lemma wf_body_updatePosition [wf_simps]: "wf_body b \<Longrightarrow> wf_body (updatePosition b dt)"
  by (simp add: wf_body_def)

lemma wf_body_applyForce [wf_simps]: "wf_body b \<Longrightarrow> wf_body (applyForce b fx fy dt)"
  by (simp add: wf_body_def)

lemma wf_body_radius_ge_5: "wf_body b \<Longrightarrow> 5 \<le> radius b"
  by (simp add: wf_body_def)

lemma applyForce_zero [simp]: "applyForce b 0 0 dt = b"
  by (simp add: applyForce_def)

lemma updatePosition_zero [simp]: "updatePosition b 0 = b"
  by (simp add: updatePosition_def)

lemma applyForce_momentum:
  assumes "masse b \<noteq> 0"
  shows "masse (applyForce b fx fy dt) * vx (applyForce b fx fy dt) = masse b * vx b + fx * dt"
    and "masse (applyForce b fx fy dt) * vy (applyForce b fx fy dt) = masse b * vy b + fy * dt"
  using assms by (simp_all add: field_simps)

subsection \<open>Mass and momentum of a list of bodies\<close>

lemma momentum_Nil [simp]: "momentum [] = 0"
  by (simp add: momentum_def)

lemma momentum_Cons [simp]:
  "momentum (b # bodies) = (masse b * vx b, masse b * vy b) + momentum bodies"
  by (simp add: momentum_def)

lemma momentum_append [simp]: "momentum (as @ bs) = momentum as + momentum bs"
  by (simp add: momentum_def)

lemma total_mass_Nil [simp]: "total_mass [] = 0"
  by (simp add: total_mass_def)

lemma total_mass_Cons [simp]: "total_mass (b # bodies) = masse b + total_mass bodies"
  by (simp add: total_mass_def)

lemma total_mass_append [simp]: "total_mass (as @ bs) = total_mass as + total_mass bs"
  by (simp add: total_mass_def)

lemma total_mass_pos:
  "bodies \<noteq> [] \<Longrightarrow> \<forall>b \<in> set bodies. wf_body b \<Longrightarrow> 0 < total_mass bodies"
proof (induction bodies)
  case Nil
  then show ?case by simp
next
  case (Cons b bodies)
  then show ?case
    by (cases bodies) (auto simp: wf_body_def intro: add_pos_pos)
qed

lemma total_mass_filter_le:
  "\<forall>b \<in> set bodies. 0 \<le> masse b \<Longrightarrow> total_mass (filter P bodies) \<le> total_mass bodies"
  by (induction bodies) auto

subsection \<open>Distance of centres\<close>

lemma centerDist_nonneg [simp]: "0 \<le> centerDist b1 b2"
  by (simp add: centerDist_def)

lemma centerDist_commute: "centerDist b2 b1 = centerDist b1 b2"
  unfolding centerDist_def by (rule hypot_minus_swap)

lemma centerDist_square:
  "centerDist b1 b2 * centerDist b1 b2
     = (x b2 - x b1) * (x b2 - x b1) + (y b2 - y b1) * (y b2 - y b1)"
  by (simp add: centerDist_def hypot_square)

lemma centerDist_cong:
  "x a1 = x b1 \<Longrightarrow> y a1 = y b1 \<Longrightarrow> x a2 = x b2 \<Longrightarrow> y a2 = y b2 \<Longrightarrow>
   centerDist a1 a2 = centerDist b1 b2"
  by (simp add: centerDist_def)

subsection \<open>Culling test\<close>

lemma covers_box:
  assumes "covers b px py"
  shows "x b - radius b \<le> px" "px \<le> x b + radius b"
    and "y b - radius b \<le> py" "py \<le> y b + radius b"
proof -
  from assms have h: "hypot (px - x b) (py - y b) \<le> radius b"
    by (simp add: covers_def)
  from abs_le_hypot(1) [of "px - x b" "py - y b"] h have "\<bar>px - x b\<bar> \<le> radius b"
    by linarith
  then show "x b - radius b \<le> px" "px \<le> x b + radius b"
    by linarith+
  from abs_le_hypot(2) [of "py - y b" "px - x b"] h have "\<bar>py - y b\<bar> \<le> radius b"
    by linarith
  then show "y b - radius b \<le> py" "py \<le> y b + radius b"
    by linarith+
qed

subsection \<open>Evaluation on concrete bodies\<close>

lemma calcRadius_Body_light [simp]:
  "0 \<le> m \<Longrightarrow> m \<le> 9 \<Longrightarrow> calcRadius (Body x0 y0 m vx0 vy0) = 5"
  by (rule calcRadius_small) simp_all

lemma applyForce_dt_zero [simp]: "applyForce b fx fy 0 = b"
  by (simp add: applyForce_def)

lemma radius_bounds:
  assumes "wf_body b" "1 \<le> masse b"
  shows "5 \<le> radius b \<and> radius b \<le> max 5 (masse b) \<and>
     (masse b \<le> 9 \<longrightarrow> radius b = 5) \<and>
     radius (updatePosition b dt) = radius b \<and> radius (applyForce b fx fy dt) = radius b"
  using assms calcRadius_le_masse [OF assms(2)] calcRadius_small [of b]
  by (simp add: wf_body_def)

section \<open>Properties\<close>

text \<open>
  C35. The culling test is sound: a body that isOffScreen reports as off-screen covers
  no point of the viewport, whatever the size of the viewport.
\<close>

theorem isOffScreen_sound:
  assumes "isOffScreen b width height" "covers b px py"
  shows "\<not> in_viewport width height px py"
  using assms(1) covers_box [OF assms(2)]
  by (auto simp: isOffScreen_def in_viewport_def)

theorem isOffScreen_sound_witness:
  "isOffScreen (Body (- 10) 20 1 0 0) 800 600 \<and> covers (Body (- 10) 20 1 0 0) (- 8) 20
   \<and> \<not> in_viewport 800 600 (- 8) 20"
proof -
  have a: "isOffScreen (Body (- 10) 20 1 0 0) 800 600"
    by (simp add: isOffScreen_def)
  have b: "covers (Body (- 10) 20 1 0 0) (- 8) 20"
    by (simp add: covers_def hypot_def)
  from a b isOffScreen_sound [OF a b] show ?thesis by simp
qed

text \<open>
  C38. The culling test is a bounding-box test and is not complete for circles: a body
  of radius 5 centred at (-4,-4) covers no point of an 800 x 600 viewport, yet
  isOffScreen does not report it.
\<close>

theorem isOffScreen_corner_gap:
  "\<not> isOffScreen (Body (- 4) (- 4) 1 0 0) 800 600 \<and>
   (\<forall>px py. covers (Body (- 4) (- 4) 1 0 0) px py \<longrightarrow> \<not> in_viewport 800 600 px py)"
proof -
  have "\<not> in_viewport 800 600 px py" if c: "covers (Body (- 4) (- 4) 1 0 0) px py" for px py
  proof
    assume "in_viewport 800 600 px py"
    then have p: "0 \<le> px" "0 \<le> py"
      by (simp_all add: in_viewport_def)
    let ?h = "hypot (px + 4) (py + 4)"
    from c have "?h \<le> 5"
      by (simp add: covers_def)
    then have "?h * ?h \<le> 5 * 5"
      by (intro mult_mono) (simp_all add: hypot_nonneg)
    then have "(px + 4) * (px + 4) + (py + 4) * (py + 4) \<le> 25"
      by (simp add: hypot_square)
    moreover from p have "4 * 4 \<le> (px + 4) * (px + 4)" "4 * 4 \<le> (py + 4) * (py + 4)"
      by (intro mult_mono; simp)+
    ultimately show False by simp
  qed
  then show ?thesis
    by (simp add: isOffScreen_def)
qed

theorem isOffScreen_corner_gap_witness:
  "covers (Body (- 4) (- 4) 1 0 0) (- 1) 0 \<and> \<not> in_viewport 800 600 (- 1) 0"
proof -
  have "covers (Body (- 4) (- 4) 1 0 0) (- 1) 0"
    by (simp add: covers_def hypot_def)
  with isOffScreen_corner_gap show ?thesis by blast
qed

end
