(* ===== verification/Gravity.thy ===== *)
theory Gravity
  imports Body
begin

text \<open>
  The force field of \<^verbatim>\<open>src/scipt.js\<close>: \<^verbatim>\<open>gravForce\<close> (lines 110--124) and the part of
  \<^verbatim>\<open>loop\<close> that accumulates the forces of all pairs and moves the bodies (lines
  270--288). The two nested \<^verbatim>\<open>for\<close> loops are the recursive functions \<open>forcesInner\<close>
  and \<open>forcesOuter\<close> over the loop indices, the array \<^verbatim>\<open>forces\<close> is a list updated
  by index, exactly as the source updates it.

  \<open>netForce\<close> is the reference specification: the force on body \<open>k\<close> is the sum of
  the pair forces exerted by every other body. The lemmas show that the loops compute
  it, that the accumulated forces cancel (Newton's third law), the cap and the distance
  floor of \<open>gravForce\<close>, and that applying the forces conserves total momentum.

  \<open>T_forcesInner\<close>, \<open>T_forcesOuter\<close> and \<open>T_computeForces\<close> have the recursion of the
  loops and count the runs of the inner loop body, that is, the evaluations of
  \<open>gravForce\<close>.
\<close>

definition MAX_FORCE :: real where
  "MAX_FORCE = 10000"

definition gravForce :: "body \<Rightarrow> body \<Rightarrow> real \<Rightarrow> vec2" where
  "gravForce b1 b2 G =
     (let dx = x b2 - x b1;
          dy = y b2 - y b1;
          distSq = dx * dx + dy * dy;
          dist = sqrt distSq;
          dist' = (if dist < 1 / 2 then 1 / 2 else dist);
          distSq' = (if dist < 1 / 2 then dist' * dist' else distSq);
          force = (G * masse b1 * masse b2) / distSq';
          force' = min force MAX_FORCE;
          fx = (force' * dx) / dist';
          fy = (force' * dy) / dist'
      in (fx, fy))"

function forcesInner :: "body list \<Rightarrow> real \<Rightarrow> nat \<Rightarrow> nat \<Rightarrow> vec2 list \<Rightarrow> vec2 list" where
  "forcesInner bodies G i j forces =
     (if j < length bodies then
        forcesInner bodies G i (j + 1)
          (let f = gravForce (bodies ! i) (bodies ! j) G;
               forces' = forces[i := forces ! i + f]
           in forces'[j := forces' ! j - f])
      else forces)"
  by pat_completeness auto
termination
  by (relation "measure (\<lambda>(bodies, G, i, j, forces). length bodies - j)") auto

function forcesOuter :: "body list \<Rightarrow> real \<Rightarrow> nat \<Rightarrow> vec2 list \<Rightarrow> vec2 list" where
  "forcesOuter bodies G i forces =
     (if i < length bodies then
        forcesOuter bodies G (i + 1) (forcesInner bodies G i (i + 1) forces)
      else forces)"
  by pat_completeness auto
termination
  by (relation "measure (\<lambda>(bodies, G, i, forces). length bodies - i)") auto

definition computeForces :: "body list \<Rightarrow> real \<Rightarrow> vec2 list" where
  "computeForces bodies G = forcesOuter bodies G 0 (map (\<lambda>_. (0, 0)) bodies)"

function applyForces :: "body list \<Rightarrow> vec2 list \<Rightarrow> real \<Rightarrow> nat \<Rightarrow> body list" where
  "applyForces bodies forces dt i =
     (if i < length bodies then
        applyForces
          (bodies[i := applyForce (bodies ! i) (fst (forces ! i)) (snd (forces ! i)) dt])
          forces dt (i + 1)
      else bodies)"
  by pat_completeness auto
termination
  by (relation "measure (\<lambda>(bodies, forces, dt, i). length bodies - i)") auto

definition updatePositions :: "body list \<Rightarrow> real \<Rightarrow> body list" where
  "updatePositions bodies dt = map (\<lambda>b. updatePosition b dt) bodies"

definition moveBodies :: "body list \<Rightarrow> real \<Rightarrow> real \<Rightarrow> body list" where
  "moveBodies bodies G dt =
     updatePositions (applyForces bodies (computeForces bodies G) dt 0) dt"

function T_forcesInner :: "body list \<Rightarrow> nat \<Rightarrow> nat \<Rightarrow> nat" where
  "T_forcesInner bodies i j =
     (if j < length bodies then 1 + T_forcesInner bodies i (j + 1) else 0)"
  by pat_completeness auto
termination
  by (relation "measure (\<lambda>(bodies, i, j). length bodies - j)") auto

function T_forcesOuter :: "body list \<Rightarrow> nat \<Rightarrow> nat" where
  "T_forcesOuter bodies i =
     (if i < length bodies
      then T_forcesInner bodies i (i + 1) + T_forcesOuter bodies (i + 1) else 0)"
  by pat_completeness auto
termination
  by (relation "measure (\<lambda>(bodies, i). length bodies - i)") auto

definition T_computeForces :: "body list \<Rightarrow> nat" where
  "T_computeForces bodies = T_forcesOuter bodies 0"

definition clampDist :: "real \<Rightarrow> real" where
  "clampDist d = (if d < 1 / 2 then 1 / 2 else d)"

definition forceMag :: "real \<Rightarrow> real \<Rightarrow> real" where
  "forceMag k d = min (k / (clampDist d * clampDist d)) MAX_FORCE"

definition pairContribution :: "body list \<Rightarrow> real \<Rightarrow> nat \<Rightarrow> nat \<Rightarrow> vec2" where
  "pairContribution bodies G i k =
     (if k = i then (\<Sum>l \<in> {i + 1..<length bodies}. gravForce (bodies ! i) (bodies ! l) G)
      else if i < k then - gravForce (bodies ! i) (bodies ! k) G else 0)"

definition netForce :: "body list \<Rightarrow> real \<Rightarrow> nat \<Rightarrow> vec2" where
  "netForce bodies G k =
     (\<Sum>j \<in> {..<length bodies} - {k}. gravForce (bodies ! k) (bodies ! j) G)"

declare forcesInner.simps [simp del] forcesOuter.simps [simp del] applyForces.simps [simp del]

lemmas gravity_defs [sim_defs] =
  MAX_FORCE_def gravForce_def computeForces_def updatePositions_def moveBodies_def
  clampDist_def forceMag_def netForce_def
  pairContribution_def

lemmas gravity_loops [sim_defs] = forcesInner.simps forcesOuter.simps applyForces.simps

subsection \<open>The pair force\<close>

lemma clampDist_ge_half [simp]: "1 / 2 \<le> clampDist d"
  by (simp add: clampDist_def)

lemma clampDist_pos [simp]: "0 < clampDist d"
  using clampDist_ge_half [of d] by linarith

lemma clampDist_id: "1 / 2 \<le> d \<Longrightarrow> clampDist d = d"
  by (simp add: clampDist_def)

lemma clampDist_ge: "d \<le> clampDist d"
  by (simp add: clampDist_def)

lemma gravForce_alt:
  "gravForce b1 b2 G =
     (forceMag (G * masse b1 * masse b2) (centerDist b1 b2) * (x b2 - x b1)
        / clampDist (centerDist b1 b2),
      forceMag (G * masse b1 * masse b2) (centerDist b1 b2) * (y b2 - y b1)
        / clampDist (centerDist b1 b2))"
proof -
  let ?s = "(x b2 - x b1) * (x b2 - x b1) + (y b2 - y b1) * (y b2 - y b1)"
  have "0 \<le> ?s" by simp
  then have sq: "sqrt ?s * sqrt ?s = ?s" by simp
  show ?thesis
    unfolding gravForce_def Let_def forceMag_def clampDist_def centerDist_def hypot_def
    by (simp only: sq split: if_splits) simp
qed

lemma gravForce_antisym: "gravForce b2 b1 G = - gravForce b1 b2 G"
proof -
  have "G * masse b2 * masse b1 = G * masse b1 * masse b2" by simp
  moreover have "x b1 - x b2 = - (x b2 - x b1)" "y b1 - y b2 = - (y b2 - y b1)" by simp_all
  ultimately show ?thesis
    unfolding gravForce_alt centerDist_commute [of b2 b1]
    by (simp only: vec_uminus mult_minus_right minus_divide_left)
qed

lemma gravForce_self_position:
  "x b1 = x b2 \<Longrightarrow> y b1 = y b2 \<Longrightarrow> gravForce b1 b2 G = (0, 0)"
  by (simp add: gravForce_alt)

lemma forceMag_nonneg: "0 \<le> k \<Longrightarrow> 0 \<le> forceMag k d"
  by (simp add: forceMag_def MAX_FORCE_def)

lemma forceMag_le_MAX [simp]: "forceMag k d \<le> MAX_FORCE"
  by (simp add: forceMag_def)

lemma forceMag_capped:
  "MAX_FORCE \<le> k / (clampDist d * clampDist d) \<Longrightarrow> forceMag k d = MAX_FORCE"
  by (simp add: forceMag_def)

lemma forceMag_uncapped:
  "k / (clampDist d * clampDist d) \<le> MAX_FORCE \<Longrightarrow>
   forceMag k d = k / (clampDist d * clampDist d)"
  by (simp add: forceMag_def)

lemma magnitude_gravForce:
  "magnitude (gravForce b1 b2 G) =
     \<bar>forceMag (G * masse b1 * masse b2) (centerDist b1 b2)\<bar> * centerDist b1 b2
       / clampDist (centerDist b1 b2)"
proof -
  let ?F = "forceMag (G * masse b1 * masse b2) (centerDist b1 b2)"
  let ?c = "clampDist (centerDist b1 b2)"
  have "gravForce b1 b2 G = (?F / ?c * (x b2 - x b1), ?F / ?c * (y b2 - y b1))"
    by (simp add: gravForce_alt)
  then have "magnitude (gravForce b1 b2 G) =
      hypot (?F / ?c * (x b2 - x b1)) (?F / ?c * (y b2 - y b1))"
    by (simp only: magnitude_def fst_conv snd_conv)
  also have "\<dots> = \<bar>?F / ?c\<bar> * centerDist b1 b2"
    unfolding centerDist_def by (rule hypot_scale)
  also have "\<bar>?F / ?c\<bar> = \<bar>?F\<bar> / ?c"
    by (simp add: abs_of_pos)
  finally show ?thesis by simp
qed

lemma magnitude_gravForce_le:
  assumes "0 \<le> G * masse b1 * masse b2"
  shows "magnitude (gravForce b1 b2 G) \<le> MAX_FORCE"
proof -
  let ?F = "forceMag (G * masse b1 * masse b2) (centerDist b1 b2)"
  let ?d = "centerDist b1 b2"
  have F: "0 \<le> ?F" "?F \<le> MAX_FORCE"
    using assms by (simp_all add: forceMag_nonneg)
  have "?d / clampDist ?d \<le> 1"
    by (simp add: clampDist_ge)
  then have "?F * (?d / clampDist ?d) \<le> ?F * 1"
    using F(1) by (intro mult_left_mono)
  also have "\<dots> \<le> MAX_FORCE"
    using F(2) by simp
  finally show ?thesis
    using F(1) by (simp add: magnitude_gravForce)
qed

lemma magnitude_gravForce_far:
  assumes "0 \<le> G * masse b1 * masse b2" "1 / 2 \<le> centerDist b1 b2"
  shows "magnitude (gravForce b1 b2 G) =
     min (G * masse b1 * masse b2 / (centerDist b1 b2 * centerDist b1 b2)) MAX_FORCE"
proof -
  have "0 < centerDist b1 b2" using assms(2) by linarith
  moreover have "0 \<le> forceMag (G * masse b1 * masse b2) (centerDist b1 b2)"
    using assms(1) by (rule forceMag_nonneg)
  ultimately show ?thesis
    using assms(2) by (simp add: magnitude_gravForce clampDist_id) (simp add: forceMag_def clampDist_id)
qed

text \<open>Inside the distance floor: the floor value 1/2 replaces the distance.\<close>

lemma clampDist_near: "d < 1 / 2 \<Longrightarrow> clampDist d = 1 / 2"
  by (simp add: clampDist_def)

lemma forceMag_near: "d < 1 / 2 \<Longrightarrow> forceMag k d = min (4 * k) MAX_FORCE"
  by (simp add: forceMag_def clampDist_near)

lemma gravForce_near:
  assumes "centerDist b1 b2 < 1 / 2"
  shows "gravForce b1 b2 G =
     (2 * min (4 * (G * masse b1 * masse b2)) MAX_FORCE * (x b2 - x b1),
      2 * min (4 * (G * masse b1 * masse b2)) MAX_FORCE * (y b2 - y b1))"
  using assms by (simp add: gravForce_alt forceMag_near clampDist_near)

lemma magnitude_gravForce_near:
  assumes "centerDist b1 b2 < 1 / 2" "0 \<le> G * masse b1 * masse b2"
  shows "magnitude (gravForce b1 b2 G)
     = 2 * centerDist b1 b2 * min (4 * (G * masse b1 * masse b2)) MAX_FORCE"
proof -
  from assms(2) have "0 \<le> min (4 * (G * masse b1 * masse b2)) MAX_FORCE"
    by (simp add: MAX_FORCE_def)
  with assms(1) show ?thesis
    by (simp add: magnitude_gravForce forceMag_near clampDist_near)
qed

lemma magnitude_gravForce_near_less:
  assumes "centerDist b1 b2 < 1 / 2" "0 \<le> G * masse b1 * masse b2"
  shows "magnitude (gravForce b1 b2 G) < MAX_FORCE"
proof -
  let ?F = "min (4 * (G * masse b1 * masse b2)) MAX_FORCE"
  have "0 \<le> centerDist b1 b2"
    by (rule centerDist_nonneg)
  with assms(1) have "2 * centerDist b1 b2 * ?F \<le> 2 * centerDist b1 b2 * MAX_FORCE"
    by (intro mult_left_mono) simp_all
  also from assms(1) have "\<dots> < MAX_FORCE"
    by (simp add: MAX_FORCE_def)
  finally show ?thesis
    using assms by (simp add: magnitude_gravForce_near)
qed

lemma gravForce_capped:
  assumes "1 / 2 \<le> centerDist b1 b2"
    and "MAX_FORCE \<le> G * masse b1 * masse b2 / (centerDist b1 b2 * centerDist b1 b2)"
  shows "magnitude (gravForce b1 b2 G) = MAX_FORCE"
proof -
  have "0 < centerDist b1 b2 * centerDist b1 b2"
    using assms(1) by (intro mult_pos_pos) linarith+
  moreover have "0 \<le> MAX_FORCE" by (simp add: MAX_FORCE_def)
  ultimately have "0 \<le> G * masse b1 * masse b2 / (centerDist b1 b2 * centerDist b1 b2)"
    and "0 < centerDist b1 b2 * centerDist b1 b2"
    using assms(2) by linarith+
  then have "0 \<le> G * masse b1 * masse b2"
    by (simp only: zero_le_divide_iff) linarith
  then show ?thesis
    using assms by (simp add: magnitude_gravForce_far)
qed

lemma gravForce_inverse_square:
  assumes far: "1 / 2 \<le> centerDist b1 b2"
    and uncapped: "G * masse b1 * masse b2 / (centerDist b1 b2 * centerDist b1 b2) \<le> MAX_FORCE"
    and pos: "0 \<le> G * masse b1 * masse b2"
    and twice: "x b3 - x b1 = 2 * (x b2 - x b1)" "y b3 - y b1 = 2 * (y b2 - y b1)"
    and mass: "masse b3 = masse b2"
  shows "magnitude (gravForce b1 b3 G) = magnitude (gravForce b1 b2 G) / 4"
proof -
  let ?k = "G * masse b1 * masse b2"
  let ?d = "centerDist b1 b2"
  have d3: "centerDist b1 b3 = 2 * ?d"
    by (simp only: centerDist_def twice hypot_scale abs_numeral)
  have dpos: "0 < ?d" using far by linarith
  have "?k / (2 * ?d * (2 * ?d)) = ?k / (?d * ?d) / 4" by simp
  also have "\<dots> \<le> ?k / (?d * ?d)"
    using pos dpos by (simp add: field_simps)
  finally have unc3: "?k / (2 * ?d * (2 * ?d)) \<le> MAX_FORCE"
    using uncapped by linarith
  have "magnitude (gravForce b1 b3 G) = ?k / (2 * ?d * (2 * ?d))"
    using pos far unc3 dpos by (simp add: magnitude_gravForce_far mass d3)
  moreover have "magnitude (gravForce b1 b2 G) = ?k / (?d * ?d)"
    using pos far uncapped by (simp add: magnitude_gravForce_far)
  ultimately show ?thesis by simp
qed

lemma gravForce_attracts:
  assumes "0 < G * masse b1 * masse b2"
  shows "\<exists>c > 0. gravForce b1 b2 G = (c * (x b2 - x b1), c * (y b2 - y b1))"
proof -
  let ?F = "forceMag (G * masse b1 * masse b2) (centerDist b1 b2)"
  let ?c = "clampDist (centerDist b1 b2)"
  have "0 < G * masse b1 * masse b2 / (?c * ?c)"
    using assms by simp
  then have "0 < ?F"
    by (simp add: forceMag_def MAX_FORCE_def)
  then have "0 < ?F / ?c" by simp
  moreover have "gravForce b1 b2 G = (?F / ?c * (x b2 - x b1), ?F / ?c * (y b2 - y b1))"
    by (simp add: gravForce_alt)
  ultimately show ?thesis by blast
qed

subsection \<open>The force loops\<close>

lemma length_forcesInner [simp]:
  "length (forcesInner bodies G i j forces) = length forces"
  by (induction bodies G i j forces rule: forcesInner.induct)
     (subst forcesInner.simps, simp add: Let_def)

lemma length_forcesOuter [simp]:
  "length (forcesOuter bodies G i forces) = length forces"
  by (induction bodies G i forces rule: forcesOuter.induct)
     (subst forcesOuter.simps, simp)

lemma length_computeForces [simp]: "length (computeForces bodies G) = length bodies"
  by (simp add: computeForces_def)

lemma forcesInner_nth:
  assumes "i < j" "length forces = length bodies" "k < length bodies"
  shows "forcesInner bodies G i j forces ! k =
     forces ! k +
       (if k = i then (\<Sum>l \<in> {j..<length bodies}. gravForce (bodies ! i) (bodies ! l) G)
        else if j \<le> k then - gravForce (bodies ! i) (bodies ! k) G else 0)"
  using assms
proof (induction bodies G i j forces rule: forcesInner.induct)
  case (1 bodies G i j forces)
  show ?case
  proof (cases "j < length bodies")
    case False
    with "1.prems" show ?thesis
      by (subst forcesInner.simps) simp
  next
    case True
    let ?f = "gravForce (bodies ! i) (bodies ! j) G"
    let ?fs = "(forces[i := forces ! i + ?f])[j := (forces[i := forces ! i + ?f]) ! j - ?f]"
    have step: "forcesInner bodies G i j forces = forcesInner bodies G i (j + 1) ?fs"
      using True by (subst forcesInner.simps) (simp add: Let_def)
    have IH: "forcesInner bodies G i (j + 1) ?fs ! k =
       ?fs ! k +
       (if k = i then (\<Sum>l \<in> {j + 1..<length bodies}. gravForce (bodies ! i) (bodies ! l) G)
        else if j + 1 \<le> k then - gravForce (bodies ! i) (bodies ! k) G else 0)"
      using "1.IH" [OF True] "1.prems" by (simp add: Let_def)
    have split: "(\<Sum>l \<in> {j..<length bodies}. gravForce (bodies ! i) (bodies ! l) G) =
        ?f + (\<Sum>l \<in> {j + 1..<length bodies}. gravForce (bodies ! i) (bodies ! l) G)"
      using True by (simp add: sum.atLeast_Suc_lessThan)
    show ?thesis
      unfolding step IH split using "1.prems" True
      by (auto simp: nth_list_update algebra_simps)
  qed
qed

lemma forcesInner_pairContribution:
  assumes "length forces = length bodies" "k < length bodies"
  shows "forcesInner bodies G i (Suc i) forces ! k = forces ! k + pairContribution bodies G i k"
  using forcesInner_nth [of i "Suc i" forces bodies k G] assms
  by (auto simp: pairContribution_def)

lemma forcesOuter_nth:
  assumes "length forces = length bodies" "k < length bodies"
  shows "forcesOuter bodies G i forces ! k =
     forces ! k + (\<Sum>i' \<in> {i..<length bodies}. pairContribution bodies G i' k)"
  using assms
proof (induction bodies G i forces rule: forcesOuter.induct)
  case (1 bodies G i forces)
  show ?case
  proof (cases "i < length bodies")
    case False
    then show ?thesis by (subst forcesOuter.simps) simp
  next
    case True
    have "forcesOuter bodies G i forces ! k =
        forcesOuter bodies G (i + 1) (forcesInner bodies G i (i + 1) forces) ! k"
      using True by (subst forcesOuter.simps) simp
    also have "\<dots> = forcesInner bodies G i (i + 1) forces ! k +
        (\<Sum>i' \<in> {i + 1..<length bodies}. pairContribution bodies G i' k)"
      using "1.IH" [OF True] "1.prems" by simp
    also have "\<dots> = forces ! k +
        (\<Sum>i' \<in> {i..<length bodies}. pairContribution bodies G i' k)"
      using True "1.prems"
      by (simp add: forcesInner_pairContribution sum.atLeast_Suc_lessThan add.assoc)
    finally show ?thesis .
  qed
qed

lemma sum_pairContribution:
  assumes "k < length bodies"
  shows "(\<Sum>i \<in> {0..<length bodies}. pairContribution bodies G i k) = netForce bodies G k"
proof -
  let ?n = "length bodies"
  let ?g = "\<lambda>j. gravForce (bodies ! k) (bodies ! j) G"
  have parts: "{0..<?n} = {0..<k} \<union> ({k} \<union> {Suc k..<?n})"
    using assms by auto
  have below: "(\<Sum>i \<in> {0..<k}. pairContribution bodies G i k) = sum ?g {0..<k}"
    by (rule sum.cong) (auto simp: pairContribution_def gravForce_antisym [of "bodies ! k"])
  have above: "(\<Sum>i \<in> {Suc k..<?n}. pairContribution bodies G i k) = 0"
    by (rule sum.neutral) (auto simp: pairContribution_def)
  have self: "pairContribution bodies G k k = sum ?g {Suc k..<?n}"
    by (simp add: pairContribution_def)
  have "(\<Sum>i \<in> {0..<?n}. pairContribution bodies G i k) =
      sum ?g {0..<k} + sum ?g {Suc k..<?n}"
    by (subst parts, subst sum.union_disjoint, simp, simp, simp,
        subst sum.union_disjoint) (simp_all add: below above self)
  also have "\<dots> = sum ?g ({0..<k} \<union> {Suc k..<?n})"
    by (subst sum.union_disjoint) auto
  also have "{0..<k} \<union> {Suc k..<?n} = {..<?n} - {k}"
    using assms by auto
  finally show ?thesis by (simp add: netForce_def)
qed

lemma computeForces_nth:
  assumes "k < length bodies"
  shows "computeForces bodies G ! k = netForce bodies G k"
  using assms
  by (simp add: computeForces_def forcesOuter_nth sum_pairContribution flip: vec_zero)

subsection \<open>Newton's third law and momentum\<close>

lemma sum_list_forcesInner:
  assumes "i < j" "length forces = length bodies"
  shows "sum_list (forcesInner bodies G i j forces) = sum_list forces"
  using assms
proof (induction bodies G i j forces rule: forcesInner.induct)
  case (1 bodies G i j forces)
  show ?case
  proof (cases "j < length bodies")
    case False
    then show ?thesis by (subst forcesInner.simps) simp
  next
    case True
    with "1.prems" have "i < length forces" "j < length forces" "i \<noteq> j" by simp_all
    then have "sum_list (forces[i := forces ! i + gravForce (bodies ! i) (bodies ! j) G,
        j := forces ! j - gravForce (bodies ! i) (bodies ! j) G]) = sum_list forces"
      by (rule sum_list_transfer)
    with "1.IH" [OF True] "1.prems" True \<open>i \<noteq> j\<close> show ?thesis
      by (subst forcesInner.simps) (simp add: Let_def)
  qed
qed

lemma sum_list_forcesOuter:
  assumes "length forces = length bodies"
  shows "sum_list (forcesOuter bodies G i forces) = sum_list forces"
  using assms
proof (induction bodies G i forces rule: forcesOuter.induct)
  case (1 bodies G i forces)
  then show ?case
    by (subst forcesOuter.simps) (simp add: sum_list_forcesInner)
qed

lemma sum_list_zeros [simp]: "sum_list (map (\<lambda>_. (0 :: real, 0 :: real)) bodies) = 0"
  by (induction bodies) (simp_all add: vec_zero)

lemma sum_list_computeForces: "sum_list (computeForces bodies G) = 0"
  by (simp add: computeForces_def sum_list_forcesOuter)

lemma length_applyForces [simp]: "length (applyForces bodies forces dt i) = length bodies"
  by (induction bodies forces dt i rule: applyForces.induct)
     (subst applyForces.simps, simp)

lemma applyForces_nth:
  assumes "k < length bodies"
  shows "applyForces bodies forces dt i ! k =
     (if i \<le> k then applyForce (bodies ! k) (fst (forces ! k)) (snd (forces ! k)) dt
      else bodies ! k)"
  using assms
proof (induction bodies forces dt i rule: applyForces.induct)
  case (1 bodies forces dt i)
  show ?case
  proof (cases "i < length bodies")
    case False
    with "1.prems" show ?thesis by (subst applyForces.simps) simp
  next
    case True
    consider "k < i" | "k = i" | "i < k" by linarith
    then show ?thesis
      using "1.IH" [OF True] "1.prems" True
      by cases (subst applyForces.simps, simp add: nth_list_update)+
  qed
qed

lemma applyForces_map2:
  assumes "length forces = length bodies"
  shows "applyForces bodies forces dt 0 =
     map2 (\<lambda>b f. applyForce b (fst f) (snd f) dt) bodies forces"
  using assms by (auto simp: list_eq_iff_nth_eq applyForces_nth)

lemma momentum_map2_applyForce:
  assumes "length forces = length bodies" "\<forall>b \<in> set bodies. masse b \<noteq> 0"
  shows "momentum (map2 (\<lambda>b f. applyForce b (fst f) (snd f) dt) bodies forces) =
     momentum bodies + (dt * fst (sum_list forces), dt * snd (sum_list forces))"
  using assms
proof (induction forces bodies rule: list_induct2)
  case Nil
  then show ?case by (simp add: vec_zero)
next
  case (Cons f forces b bodies)
  then show ?case
    by (cases "momentum bodies") (simp add: applyForce_momentum algebra_simps)
qed

lemma momentum_updatePositions [simp]: "momentum (updatePositions bodies dt) = momentum bodies"
  by (induction bodies) (simp_all add: updatePositions_def)

lemma momentum_moveBodies:
  assumes "\<forall>b \<in> set bodies. masse b \<noteq> 0"
  shows "momentum (moveBodies bodies G dt) = momentum bodies"
proof -
  have "momentum (applyForces bodies (computeForces bodies G) dt 0) =
      momentum bodies + (dt * fst (sum_list (computeForces bodies G)),
                         dt * snd (sum_list (computeForces bodies G)))"
    using assms by (simp add: applyForces_map2 momentum_map2_applyForce)
  then show ?thesis
    by (simp add: moveBodies_def sum_list_computeForces del: fst_sum_list snd_sum_list
        flip: vec_zero)
qed

subsection \<open>One step of motion\<close>

lemma length_updatePositions [simp]: "length (updatePositions bs dt) = length bs"
  by (simp add: updatePositions_def)

lemma length_moveBodies [simp]: "length (moveBodies bs g dt) = length bs"
  by (simp add: moveBodies_def)

lemma moveBodies_nth:
  assumes "k < length bs"
  shows "moveBodies bs g dt ! k =
     updatePosition
       (applyForce (bs ! k) (fst (netForce bs g k)) (snd (netForce bs g k)) dt) dt"
  using assms
  by (simp add: moveBodies_def updatePositions_def applyForces_nth computeForces_nth
      del: fst_sum snd_sum)

lemma moveBodies_masse:
  "map masse (moveBodies bs g dt) = map masse bs"
  by (simp add: list_eq_iff_nth_eq moveBodies_nth)

lemma total_mass_moveBodies [simp]: "total_mass (moveBodies bs g dt) = total_mass bs"
  by (simp add: total_mass_def moveBodies_masse)

subsection \<open>Degenerate frames\<close>

lemma moveBodies_dt_zero [simp]: "moveBodies bs g 0 = bs"
  by (simp add: list_eq_iff_nth_eq moveBodies_nth)

lemma moveBodies_single:
  "moveBodies [b] g dt = [updatePosition (applyForce b 0 0 dt) dt]"
  by (simp add: moveBodies_def computeForces_def forcesOuter.simps forcesInner.simps
      applyForces.simps updatePositions_def zero_prod_def)

subsection \<open>Number of iterations\<close>

declare T_forcesInner.simps [simp del] T_forcesOuter.simps [simp del]

lemma T_forcesInner_eq: "T_forcesInner bodies i j = length bodies - j"
  by (induction bodies i j rule: T_forcesInner.induct) (subst T_forcesInner.simps, auto)

lemma T_forcesOuter_eq:
  "2 * T_forcesOuter bodies i = (length bodies - i) * (length bodies - i - 1)"
proof (induction bodies i rule: T_forcesOuter.induct)
  case (1 bodies i)
  show ?case
  proof (cases "i < length bodies")
    case True
    then obtain k where k: "length bodies - i = Suc k"
      by (cases "length bodies - i") simp_all
    then have "length bodies - Suc i = k"
      by simp
    with "1.IH" [OF True] True k show ?thesis
      by (subst T_forcesOuter.simps) (simp add: T_forcesInner_eq algebra_simps)
  next
    case False
    then show ?thesis
      by (subst T_forcesOuter.simps) simp
  qed
qed

lemma T_computeForces_eq:
  "2 * T_computeForces bodies = length bodies * (length bodies - 1)"
  using T_forcesOuter_eq [of bodies 0] by (simp add: T_computeForces_def)

lemma T_computeForces_example:
  "T_computeForces [Body 0 0 1 0 0, Body 3 4 2 0 0, Body 6 0 5 1 1] = 3"
  using T_computeForces_eq [of "[Body 0 0 1 0 0, Body 3 4 2 0 0, Body 6 0 5 1 1]"] by simp

section \<open>Properties\<close>

text \<open>
  C1. The force accumulator built by the two nested index loops of the frame loop holds,
  for every body k, the net force of the reference definition: the sum over all other
  bodies j of the pairwise force, taken with the sign and the argument order the loops
  use (gravForce k j for k < j, the negated gravForce j k for j < k).
\<close>

theorem computeForces_netForce:
  assumes "k < length bodies"
  shows "computeForces bodies g ! k = netForce bodies g k"
  using assms by (rule computeForces_nth)

theorem computeForces_netForce_witness:
  "(0 :: nat) < length [Body 0 0 1 0 0, Body 100 0 2 0 0] \<and>
   computeForces [Body 0 0 1 0 0, Body 100 0 2 0 0] 2000 ! 0
     = netForce [Body 0 0 1 0 0, Body 100 0 2 0 0] 2000 0 \<and>
   computeForces [Body 0 0 1 0 0, Body 100 0 2 0 0] 2000 = [(2 / 5, 0), (- (2 / 5), 0)]"
proof -
  have "computeForces [Body 0 0 1 0 0, Body 100 0 2 0 0] 2000 = [(2 / 5, 0), (- (2 / 5), 0)]"
    by (simp add: computeForces_def forcesOuter.simps forcesInner.simps gravForce_def
        MAX_FORCE_def Let_def)
  with computeForces_netForce [of 0 "[Body 0 0 1 0 0, Body 100 0 2 0 0]" 2000]
  show ?thesis by simp
qed

text \<open>
  C3. Newton's third law for the whole accumulator: the forces computed for a frame sum
  to the zero vector, for every list of bodies and every gravitational constant, inside
  the distance clamp and the force cap included.
\<close>

theorem newton_third_law: "sum_list (computeForces bodies g) = 0"
  by (rule sum_list_computeForces)

theorem newton_third_law_witness:
  "sum_list (computeForces [Body 0 0 1 0 0, Body 3 4 2 0 0, Body 6 0 5 1 1] 2000) = 0"
  by (rule newton_third_law)

text \<open>
  C8. The motion phase of a frame (compute the forces, apply them to every body, then
  move every body) conserves total momentum when no mass is zero.
\<close>

theorem motion_conserves_momentum:
  assumes "\<forall>b \<in> set bodies. masse b \<noteq> 0"
  shows "momentum (moveBodies bodies g dt) = momentum bodies"
  using assms by (rule momentum_moveBodies)

theorem motion_conserves_momentum_witness:
  "masse (Body 0 0 1 10 0) \<noteq> 0 \<and> masse (Body 100 0 2 0 (- 3)) \<noteq> 0 \<and>
   momentum (moveBodies [Body 0 0 1 10 0, Body 100 0 2 0 (- 3)] 2000 (1 / 100)) = (10, - 6)"
  using motion_conserves_momentum [of "[Body 0 0 1 10 0, Body 100 0 2 0 (- 3)]" 2000 "1 / 100"]
  by simp

text \<open>
  C9. The magnitude of the force between two bodies never exceeds MAX_FORCE, for every
  position of the two bodies, provided the product G * m1 * m2 is not negative.
\<close>

theorem gravForce_max_force:
  assumes "0 \<le> g * masse b1 * masse b2"
  shows "magnitude (gravForce b1 b2 g) \<le> MAX_FORCE"
  using assms by (rule magnitude_gravForce_le)

theorem gravForce_max_force_witness:
  "(0 :: real) \<le> 2000 * masse (Body 0 0 100 0 0) * masse (Body 3 4 200 0 0) \<and>
   magnitude (gravForce (Body 0 0 100 0 0) (Body 3 4 200 0 0) 2000) \<le> MAX_FORCE"
  using gravForce_max_force [of 2000 "Body 0 0 100 0 0" "Body 3 4 200 0 0"] by simp

text \<open>
  C18. Outside the distance clamp and below the force cap, doubling the distance between
  two bodies of fixed masses divides the magnitude of the force by exactly 4, when
  G * m1 * m2 is not negative.
\<close>

theorem inverse_square_law:
  assumes "1 / 2 \<le> centerDist b1 b2"
    and "g * masse b1 * masse b2 / (centerDist b1 b2 * centerDist b1 b2) \<le> MAX_FORCE"
    and "0 \<le> g * masse b1 * masse b2"
    and "x b3 - x b1 = 2 * (x b2 - x b1)" "y b3 - y b1 = 2 * (y b2 - y b1)"
    and "masse b3 = masse b2"
  shows "magnitude (gravForce b1 b3 g) = magnitude (gravForce b1 b2 g) / 4"
  using assms by (rule gravForce_inverse_square)

theorem inverse_square_law_witness:
  "magnitude (gravForce (Body 0 0 1 0 0) (Body 6 8 2 0 0) 2000) =
   magnitude (gravForce (Body 0 0 1 0 0) (Body 3 4 2 0 0) 2000) / 4 \<and>
   magnitude (gravForce (Body 0 0 1 0 0) (Body 3 4 2 0 0) 2000) = 160"
proof -
  have d: "centerDist (Body 0 0 1 0 0) (Body 3 4 2 0 0) = 5"
    by (simp add: centerDist_def hypot_def)
  have m: "magnitude (gravForce (Body 0 0 1 0 0) (Body 3 4 2 0 0) 2000) = 160"
    by (simp add: gravForce_def MAX_FORCE_def Let_def magnitude_def hypot_def)
  from inverse_square_law [of "Body 0 0 1 0 0" "Body 3 4 2 0 0" 2000 "Body 6 8 2 0 0"] m
  show ?thesis by (simp add: d MAX_FORCE_def)
qed

text \<open>
  C19. When the distance is at least 1/2 and the raw force G * m1 * m2 / dist^2 reaches
  MAX_FORCE, the magnitude of the applied force is exactly MAX_FORCE.
\<close>

theorem gravForce_cap_exact:
  assumes "1 / 2 \<le> centerDist b1 b2"
    and "MAX_FORCE \<le> g * masse b1 * masse b2 / (centerDist b1 b2 * centerDist b1 b2)"
  shows "magnitude (gravForce b1 b2 g) = MAX_FORCE"
  using assms by (rule gravForce_capped)

theorem gravForce_cap_exact_witness:
  "1 / 2 \<le> centerDist (Body 0 0 100 0 0) (Body 3 4 200 0 0) \<and>
   MAX_FORCE \<le> 2000 * masse (Body 0 0 100 0 0) * masse (Body 3 4 200 0 0)
      / (centerDist (Body 0 0 100 0 0) (Body 3 4 200 0 0)
         * centerDist (Body 0 0 100 0 0) (Body 3 4 200 0 0)) \<and>
   magnitude (gravForce (Body 0 0 100 0 0) (Body 3 4 200 0 0) 2000) = MAX_FORCE"
proof -
  have d: "centerDist (Body 0 0 100 0 0) (Body 3 4 200 0 0) = 5"
    by (simp add: centerDist_def hypot_def)
  have a: "1 / 2 \<le> centerDist (Body 0 0 100 0 0) (Body 3 4 200 0 0)"
    by (simp add: d)
  have b: "MAX_FORCE \<le> 2000 * masse (Body 0 0 100 0 0) * masse (Body 3 4 200 0 0)
      / (centerDist (Body 0 0 100 0 0) (Body 3 4 200 0 0)
         * centerDist (Body 0 0 100 0 0) (Body 3 4 200 0 0))"
    by (simp add: d MAX_FORCE_def)
  from a b gravForce_cap_exact [OF a b] show ?thesis by simp
qed

text \<open>
  C20. The distance floor, the guard of gravForce against the singularity of the force
  at distance 0: when two bodies are closer than 1/2, the force is computed with the
  distance replaced by 1/2, so it is the displacement (dx, dy) scaled by
  2 * min (4 * G * m1 * m2) MAX_FORCE: linear in the displacement, and hence the zero
  vector for coincident bodies.
\<close>

theorem distance_floor:
  assumes "centerDist b1 b2 < 1 / 2"
  shows "gravForce b1 b2 g =
     (2 * min (4 * (g * masse b1 * masse b2)) MAX_FORCE * (x b2 - x b1),
      2 * min (4 * (g * masse b1 * masse b2)) MAX_FORCE * (y b2 - y b1))"
  using assms by (rule gravForce_near)

theorem distance_floor_witness:
  "centerDist (Body 0 0 1 0 0) (Body (3 / 20) (1 / 5) 2 0 0) < 1 / 2 \<and>
   gravForce (Body 0 0 1 0 0) (Body (3 / 20) (1 / 5) 2 0 0) 2000 = (3000, 4000)"
proof -
  have d: "centerDist (Body 0 0 1 0 0) (Body (3 / 20) (1 / 5) 2 0 0) = 1 / 4"
    by (simp add: centerDist_def hypot_def power2_eq_square real_sqrt_divide
        real_sqrt_unique [of "1 / 4"])
  with distance_floor [of "Body 0 0 1 0 0" "Body (3 / 20) (1 / 5) 2 0 0" 2000] show ?thesis
    by (simp add: MAX_FORCE_def)
qed

text \<open>
  C21. The motion phase uses a snapshot: every body is accelerated by the net force
  computed from the positions all bodies had at the start of the frame, and then moved
  with its new velocity.
\<close>

theorem motion_uses_snapshot:
  assumes "k < length bodies"
  shows "moveBodies bodies g dt ! k =
     updatePosition
       (applyForce (bodies ! k) (fst (netForce bodies g k)) (snd (netForce bodies g k)) dt) dt"
  using assms by (rule moveBodies_nth)

theorem motion_uses_snapshot_witness:
  "moveBodies [Body 0 0 1 0 0, Body 100 0 2 0 0] 2000 (1 / 100) =
     [(Body 0 0 1 0 0)\<lparr>x := 1 / 25000, vx := 1 / 250\<rparr>,
      (Body 100 0 2 0 0)\<lparr>x := 100 - 1 / 50000, vx := - (1 / 500)\<rparr>]"
proof -
  let ?bs = "[Body 0 0 1 0 0, Body 100 0 2 0 0]"
  have n0: "netForce ?bs 2000 0 = (2 / 5, 0)" and n1: "netForce ?bs 2000 1 = (- (2 / 5), 0)"
    by (simp_all add: netForce_def lessThan_Suc numeral_2_eq_2 insert_Diff_if gravForce_def
        MAX_FORCE_def Let_def)
  have "length (moveBodies ?bs 2000 (1 / 100)) = 2" by simp
  moreover from motion_uses_snapshot [of 0 ?bs 2000 "1 / 100"] n0
  have "moveBodies ?bs 2000 (1 / 100) ! 0 = (Body 0 0 1 0 0)\<lparr>x := 1 / 25000, vx := 1 / 250\<rparr>"
    by (simp add: updatePosition_def applyForce_def Body_def)
  moreover from motion_uses_snapshot [of 1 ?bs 2000 "1 / 100"] n1
  have "moveBodies ?bs 2000 (1 / 100) ! 1 =
      (Body 100 0 2 0 0)\<lparr>x := 100 - 1 / 50000, vx := - (1 / 500)\<rparr>"
    by (simp add: updatePosition_def applyForce_def Body_def)
  ultimately show ?thesis
    by (simp add: list_eq_iff_nth_eq less_Suc_eq numeral_2_eq_2)
qed

text \<open>
  C37. Inside the distance floor the applied force never reaches the cap: when two
  bodies are closer than 1/2 and G * m1 * m2 is not negative, the magnitude of the force
  is 2 * dist * min (4 * G * m1 * m2) MAX_FORCE, which is below MAX_FORCE however large
  the raw force G * m1 * m2 / dist^2 is, because the direction vector is divided by
  the clamped distance and not by the distance.
\<close>

theorem force_cap_not_reached_near:
  assumes "centerDist b1 b2 < 1 / 2" and "0 \<le> g * masse b1 * masse b2"
  shows "magnitude (gravForce b1 b2 g)
       = 2 * centerDist b1 b2 * min (4 * (g * masse b1 * masse b2)) MAX_FORCE \<and>
     magnitude (gravForce b1 b2 g) < MAX_FORCE"
  using magnitude_gravForce_near [OF assms] magnitude_gravForce_near_less [OF assms]
  by simp

theorem force_cap_not_reached_near_witness:
  "centerDist (Body 0 0 1 0 0) (Body (1 / 4) 0 2 0 0) < 1 / 2 \<and>
   MAX_FORCE \<le> 2000 * masse (Body 0 0 1 0 0) * masse (Body (1 / 4) 0 2 0 0) / (1 / 4 * (1 / 4)) \<and>
   magnitude (gravForce (Body 0 0 1 0 0) (Body (1 / 4) 0 2 0 0) 2000) = MAX_FORCE / 2"
proof -
  have "sqrt (1 / 16) = 1 / 4"
    by (rule real_sqrt_unique) (simp_all add: power2_eq_square)
  then have d: "centerDist (Body 0 0 1 0 0) (Body (1 / 4) 0 2 0 0) = 1 / 4"
    by (simp add: centerDist_def hypot_def)
  with force_cap_not_reached_near [of "Body 0 0 1 0 0" "Body (1 / 4) 0 2 0 0" 2000]
  show ?thesis
    by (simp add: MAX_FORCE_def)
qed

end
