(* ===== verification/Collision.thy ===== *)
theory Collision
  imports Body "HOL-Library.Sublist"
begin

text \<open>
  The collision resolver \<^verbatim>\<open>checkCollisions\<close> of \<^verbatim>\<open>src/scipt.js\<close> (lines 126--166).

  The source scans the array with two nested index loops, a set \<^verbatim>\<open>skip\<close> of consumed
  indices and two output arrays (\<^verbatim>\<open>merged\<close> for the survivors, \<^verbatim>\<open>newBodies\<close> for the
  merge products). \<open>collideInner\<close> and \<open>collideOuter\<close> are these loops, with the
  loop variables as arguments; the \<^verbatim>\<open>break\<close> of the inner loop is the branch that
  returns without a recursive call. \<open>collides\<close> is the overlap test of the inner loop
  body and \<open>mergeBodies\<close> the construction of the merge product.
  \<open>T_collideInner\<close>, \<open>T_collideOuter\<close> and \<open>T_checkCollisions\<close> have the recursion of the
  loops and count the evaluations of the overlap test.

  \<open>resolvePairs\<close> is the abstract specification: a recursion over the list of bodies
  that are still alive, which pairs the first body with its first overlapping successor.
  \<open>resolveSpec\<close> lists the survivors followed by the merge products. The lemmas show
  that the index loops implement it, and derive from it the conservation of mass,
  momentum and centre of mass (\<open>mass_moment\<close>), that the kinetic energy (\<open>kinetic\<close>)
  never increases, well-formedness of the result, that every body enters at most one
  merge, and that the survivors do not overlap each other. \<open>resolved\<close> is the same
  specification as an inductive relation, and \<open>checkCollisions_transfer\<close> carries every
  property of its resolutions over to the result of the pass.
\<close>

definition collides :: "body \<Rightarrow> body \<Rightarrow> bool" where
  "collides b1 b2 \<longleftrightarrow>
     (let dx = x b2 - x b1;
          dy = y b2 - y b1;
          dist = hypot dx dy
      in dist < radius b1 + radius b2)"

definition mergeBodies :: "body \<Rightarrow> body \<Rightarrow> body" where
  "mergeBodies b1 b2 =
     (let totalMass = masse b1 + masse b2;
          mx = (x b1 * masse b1 + x b2 * masse b2) / totalMass;
          my = (y b1 * masse b1 + y b2 * masse b2) / totalMass;
          mvx = (vx b1 * masse b1 + vx b2 * masse b2) / totalMass;
          mvy = (vy b1 * masse b1 + vy b2 * masse b2) / totalMass
      in Body mx my totalMass mvx mvy)"

function collideInner ::
  "body list \<Rightarrow> nat \<Rightarrow> nat \<Rightarrow> nat set \<Rightarrow> body list \<Rightarrow> body list \<times> nat set \<times> bool" where
  "collideInner bodies i j skip newBodies =
     (if j < length bodies then
        (if j \<in> skip then collideInner bodies i (j + 1) skip newBodies
         else if collides (bodies ! i) (bodies ! j) then
           (newBodies @ [mergeBodies (bodies ! i) (bodies ! j)], insert j (insert i skip), True)
         else collideInner bodies i (j + 1) skip newBodies)
      else (newBodies, skip, False))"
  by pat_completeness auto
termination
  by (relation "measure (\<lambda>(bodies, i, j, skip, newBodies). length bodies - j)") auto

function collideOuter ::
  "body list \<Rightarrow> nat \<Rightarrow> body list \<Rightarrow> nat set \<Rightarrow> body list \<Rightarrow> body list" where
  "collideOuter bodies i merged skip newBodies =
     (if i < length bodies then
        (if i \<in> skip then collideOuter bodies (i + 1) merged skip newBodies
         else
           (case collideInner bodies i (i + 1) skip newBodies of
              (newBodies', skip', mergedThis) \<Rightarrow>
                if \<not> mergedThis \<and> i \<notin> skip'
                then collideOuter bodies (i + 1) (merged @ [bodies ! i]) skip' newBodies'
                else collideOuter bodies (i + 1) merged skip' newBodies'))
      else merged @ newBodies)"
  by pat_completeness auto
termination
  by (relation "measure (\<lambda>(bodies, i, merged, skip, newBodies). length bodies - i)") auto

definition checkCollisions :: "body list \<Rightarrow> bool \<Rightarrow> body list" where
  "checkCollisions bodies collisionEnabled =
     (if \<not> collisionEnabled then bodies else collideOuter bodies 0 [] {} [])"

function T_collideInner :: "body list \<Rightarrow> nat \<Rightarrow> nat \<Rightarrow> nat set \<Rightarrow> nat" where
  "T_collideInner bodies i j skip =
     (if j < length bodies then
        (if j \<in> skip then T_collideInner bodies i (j + 1) skip
         else if collides (bodies ! i) (bodies ! j) then 1
         else 1 + T_collideInner bodies i (j + 1) skip)
      else 0)"
  by pat_completeness auto
termination
  by (relation "measure (\<lambda>(bodies, i, j, skip). length bodies - j)") auto

function T_collideOuter :: "body list \<Rightarrow> nat \<Rightarrow> nat set \<Rightarrow> nat" where
  "T_collideOuter bodies i skip =
     (if i < length bodies then
        (if i \<in> skip then T_collideOuter bodies (i + 1) skip
         else
           (case collideInner bodies i (i + 1) skip [] of
              (newBodies', skip', mergedThis) \<Rightarrow>
                T_collideInner bodies i (i + 1) skip + T_collideOuter bodies (i + 1) skip'))
      else 0)"
  by pat_completeness auto
termination
  by (relation "measure (\<lambda>(bodies, i, skip). length bodies - i)") auto

definition T_checkCollisions :: "body list \<Rightarrow> bool \<Rightarrow> nat" where
  "T_checkCollisions bodies collisionEnabled =
     (if \<not> collisionEnabled then 0 else T_collideOuter bodies 0 {})"

function firstPartner :: "body list \<Rightarrow> nat \<Rightarrow> nat \<Rightarrow> nat set \<Rightarrow> nat option" where
  "firstPartner bodies i j skip =
     (if j < length bodies then
        (if j \<notin> skip \<and> collides (bodies ! i) (bodies ! j) then Some j
         else firstPartner bodies i (j + 1) skip)
      else None)"
  by pat_completeness auto
termination
  by (relation "measure (\<lambda>(bodies, i, j, skip). length bodies - j)") auto

definition live :: "body list \<Rightarrow> nat set \<Rightarrow> nat \<Rightarrow> body list" where
  "live bodies skip i = map (nth bodies) (filter (\<lambda>k. k \<notin> skip) [i..<length bodies])"

lemma length_takeWhile_dropWhile_tl:
  "dropWhile P xs = b # post \<Longrightarrow> length (takeWhile P xs) + length post < Suc (length xs)"
proof -
  assume "dropWhile P xs = b # post"
  then have "length xs = length (takeWhile P xs) + Suc (length post)"
    by (metis length_Cons length_append takeWhile_dropWhile_id)
  then show ?thesis by simp
qed

function resolvePairs :: "body list \<Rightarrow> body list \<times> (body \<times> body) list" where
  "resolvePairs [] = ([], [])"
| "resolvePairs (b1 # rest) =
     (case dropWhile (\<lambda>b2. \<not> collides b1 b2) rest of
        [] \<Rightarrow> apfst (Cons b1) (resolvePairs rest)
      | b2 # post \<Rightarrow>
          apsnd (Cons (b1, b2))
            (resolvePairs (takeWhile (\<lambda>b2. \<not> collides b1 b2) rest @ post)))"
  by pat_completeness auto
termination
  by (relation "measure length") (auto intro: length_takeWhile_dropWhile_tl)

definition resolveSpec :: "body list \<Rightarrow> body list" where
  "resolveSpec bodies =
     (case resolvePairs bodies of
        (survivors, pairs) \<Rightarrow> survivors @ map (\<lambda>(b1, b2). mergeBodies b1 b2) pairs)"

inductive resolved :: "body list \<Rightarrow> body list \<Rightarrow> (body \<times> body) list \<Rightarrow> bool" where
  Nil: "resolved [] [] []"
| Keep: "\<forall>b \<in> set rest. \<not> collides b1 b \<Longrightarrow> resolved rest survivors pairs \<Longrightarrow>
     resolved (b1 # rest) (b1 # survivors) pairs"
| Merge: "\<forall>b \<in> set pre. \<not> collides b1 b \<Longrightarrow> collides b1 b2 \<Longrightarrow>
     resolved (pre @ post) survivors pairs \<Longrightarrow>
     resolved (b1 # pre @ b2 # post) survivors ((b1, b2) # pairs)"

definition mergeAll :: "(body \<times> body) list \<Rightarrow> body list" where
  "mergeAll pairs = map (\<lambda>(b1, b2). mergeBodies b1 b2) pairs"

definition apart :: "body list \<Rightarrow> bool" where
  "apart bodies \<longleftrightarrow> sorted_wrt (\<lambda>b1 b2. \<not> collides b1 b2) bodies"

definition outerResult :: "body list \<Rightarrow> body list \<Rightarrow> body list \<Rightarrow> body list" where
  "outerResult merged newBodies alive =
     (case resolvePairs alive of
        (survivors, pairs) \<Rightarrow>
          merged @ survivors @ newBodies @ map (\<lambda>(b1, b2). mergeBodies b1 b2) pairs)"

declare collideInner.simps [simp del] collideOuter.simps [simp del]
  firstPartner.simps [simp del] resolvePairs.simps(2) [simp del]

lemmas collision_defs [sim_defs] =
  collides_def mergeBodies_def checkCollisions_def resolveSpec_def live_def mergeAll_def
  apart_def outerResult_def

lemmas collision_loops [sim_defs] =
  collideInner.simps collideOuter.simps firstPartner.simps

subsection \<open>The overlap test and the merge product\<close>

lemma collides_centerDist: "collides b1 b2 \<longleftrightarrow> centerDist b1 b2 < radius b1 + radius b2"
  by (simp add: collides_def centerDist_def)

lemma collides_sym: "collides b2 b1 \<longleftrightarrow> collides b1 b2"
  by (simp add: collides_centerDist centerDist_commute add.commute)

lemma collides_self: "0 < radius b \<Longrightarrow> collides b b"
  by (simp add: collides_def hypot_def)

lemma mergeBodies_sel [simp]:
  "masse (mergeBodies b1 b2) = masse b1 + masse b2"
  "x (mergeBodies b1 b2) = (x b1 * masse b1 + x b2 * masse b2) / (masse b1 + masse b2)"
  "y (mergeBodies b1 b2) = (y b1 * masse b1 + y b2 * masse b2) / (masse b1 + masse b2)"
  "vx (mergeBodies b1 b2) = (vx b1 * masse b1 + vx b2 * masse b2) / (masse b1 + masse b2)"
  "vy (mergeBodies b1 b2) = (vy b1 * masse b1 + vy b2 * masse b2) / (masse b1 + masse b2)"
  by (simp_all add: mergeBodies_def Let_def)

lemma radius_mergeBodies [simp]:
  "radius (mergeBodies b1 b2) = calcRadius (mergeBodies b1 b2)"
  by (simp add: mergeBodies_def Let_def)

lemma wf_body_mergeBodies [wf_simps]:
  "wf_body b1 \<Longrightarrow> wf_body b2 \<Longrightarrow> wf_body (mergeBodies b1 b2)"
  by (simp add: wf_body_def add_pos_pos)

lemma momentum_mergeBodies:
  assumes "masse b1 + masse b2 \<noteq> 0"
  shows "momentum [mergeBodies b1 b2] = momentum [b1, b2]"
proof -
  let ?m = "masse b1 + masse b2"
  have "?m * ((vx b1 * masse b1 + vx b2 * masse b2) / ?m) = masse b1 * vx b1 + masse b2 * vx b2"
    and "?m * ((vy b1 * masse b1 + vy b2 * masse b2) / ?m) = masse b1 * vy b1 + masse b2 * vy b2"
    using assms by (simp_all add: mult.commute)
  then show ?thesis by (simp add: vec_zero)
qed

lemma calcRadius_mergeBodies_ge:
  assumes "0 \<le> masse b1" "0 \<le> masse b2"
  shows "calcRadius b1 \<le> calcRadius (mergeBodies b1 b2)"
  using assms by (intro calcRadius_mono) simp_all

subsection \<open>Live bodies\<close>

lemma live_beyond [simp]: "length bodies \<le> i \<Longrightarrow> live bodies skip i = []"
  by (simp add: live_def)

lemma live_step:
  "i < length bodies \<Longrightarrow>
   live bodies skip i =
     (if i \<in> skip then live bodies skip (Suc i) else bodies ! i # live bodies skip (Suc i))"
  by (simp add: live_def upt_conv_Cons)

lemma live_insert_below: "k < i \<Longrightarrow> live bodies (insert k skip) i = live bodies skip i"
  unfolding live_def by (intro arg_cong [where f = "map (nth bodies)"] filter_cong) auto

lemma live_empty_skip: "live bodies {} 0 = bodies"
  by (simp add: live_def map_nth)

subsection \<open>The inner loop finds the first partner\<close>

lemma collideInner_firstPartner:
  "collideInner bodies i j skip newBodies =
     (case firstPartner bodies i j skip of
        None \<Rightarrow> (newBodies, skip, False)
      | Some k \<Rightarrow>
          (newBodies @ [mergeBodies (bodies ! i) (bodies ! k)], insert k (insert i skip), True))"
proof (induction bodies i j skip newBodies rule: collideInner.induct)
  case (1 bodies i j skip newBodies)
  then show ?case
    by (subst collideInner.simps, subst firstPartner.simps) simp
qed

lemma firstPartner_None:
  "firstPartner bodies i j skip = None \<Longrightarrow>
   dropWhile (\<lambda>b2. \<not> collides (bodies ! i) b2) (live bodies skip j) = []"
proof (induction bodies i j skip rule: firstPartner.induct)
  case (1 bodies i j skip)
  show ?case
  proof (cases "j < length bodies")
    case False
    then show ?thesis by simp
  next
    case True
    with "1.prems" have "\<not> (j \<notin> skip \<and> collides (bodies ! i) (bodies ! j))"
      and "firstPartner bodies i (j + 1) skip = None"
      by (subst (asm) firstPartner.simps, simp split: if_splits)+
    with "1.IH" [OF True] True show ?thesis
      by (auto simp: live_step [of j])
  qed
qed

lemma firstPartner_Some:
  assumes "firstPartner bodies i j skip = Some k"
  shows "j \<le> k \<and> k < length bodies \<and> k \<notin> skip \<and> collides (bodies ! i) (bodies ! k) \<and>
    dropWhile (\<lambda>b2. \<not> collides (bodies ! i) b2) (live bodies skip j)
      = bodies ! k # live bodies skip (Suc k) \<and>
    takeWhile (\<lambda>b2. \<not> collides (bodies ! i) b2) (live bodies skip j) @ live bodies skip (Suc k)
      = live bodies (insert k skip) j"
  using assms
proof (induction bodies i j skip rule: firstPartner.induct)
  case (1 bodies i j skip)
  from "1.prems" have lt: "j < length bodies"
    by (subst (asm) firstPartner.simps) (simp split: if_splits)
  show ?case
  proof (cases "j \<notin> skip \<and> collides (bodies ! i) (bodies ! j)")
    case True
    with "1.prems" lt have "k = j"
      by (subst (asm) firstPartner.simps) simp
    with True lt show ?thesis
      by (simp add: live_step [of j] live_insert_below)
  next
    case False
    with "1.prems" lt have rec: "firstPartner bodies i (j + 1) skip = Some k"
      by (subst (asm) firstPartner.simps) simp
    from "1.IH" [OF lt False rec] have IH:
      "Suc j \<le> k" "k < length bodies" "k \<notin> skip" "collides (bodies ! i) (bodies ! k)"
      "dropWhile (\<lambda>b2. \<not> collides (bodies ! i) b2) (live bodies skip (Suc j))
        = bodies ! k # live bodies skip (Suc k)"
      "takeWhile (\<lambda>b2. \<not> collides (bodies ! i) b2) (live bodies skip (Suc j))
          @ live bodies skip (Suc k) = live bodies (insert k skip) (Suc j)"
      by simp_all
    from IH(1) have "j \<noteq> k" by simp
    with IH False lt show ?thesis
      by (auto simp: live_step [of j])
  qed
qed

subsection \<open>The loops implement the specification\<close>

lemma resolvePairs_keep:
  assumes "dropWhile (\<lambda>b2. \<not> collides b1 b2) rest = []"
  shows "resolvePairs (b1 # rest) = apfst (Cons b1) (resolvePairs rest)"
  using assms by (simp only: resolvePairs.simps list.case)

lemma resolvePairs_merge:
  assumes "dropWhile (\<lambda>b2. \<not> collides b1 b2) rest = b2 # post"
  shows "resolvePairs (b1 # rest) =
     apsnd (Cons (b1, b2)) (resolvePairs (takeWhile (\<lambda>b2. \<not> collides b1 b2) rest @ post))"
  using assms by (simp only: resolvePairs.simps list.case)

lemma outerResult_keep:
  "dropWhile (\<lambda>b2. \<not> collides b1 b2) rest = [] \<Longrightarrow>
   outerResult merged newBodies (b1 # rest) = outerResult (merged @ [b1]) newBodies rest"
  by (simp only: outerResult_def resolvePairs_keep) (simp split: prod.splits)

lemma outerResult_merge:
  "dropWhile (\<lambda>b2. \<not> collides b1 b2) rest = b2 # post \<Longrightarrow>
   outerResult merged newBodies (b1 # rest) =
   outerResult merged (newBodies @ [mergeBodies b1 b2])
     (takeWhile (\<lambda>b2. \<not> collides b1 b2) rest @ post)"
  by (simp only: outerResult_def resolvePairs_merge) (simp split: prod.splits)

lemma outerResult_live_step:
  assumes "i < length bodies" "i \<notin> skip"
  shows "outerResult merged newBodies (live bodies skip i) =
     (case firstPartner bodies i (Suc i) skip of
        None \<Rightarrow> outerResult (merged @ [bodies ! i]) newBodies (live bodies skip (Suc i))
      | Some k \<Rightarrow>
          outerResult merged (newBodies @ [mergeBodies (bodies ! i) (bodies ! k)])
            (live bodies (insert k (insert i skip)) (Suc i)))"
proof (cases "firstPartner bodies i (Suc i) skip")
  case None
  with assms firstPartner_None [OF None] show ?thesis
    by (simp add: live_step [of i] outerResult_keep)
next
  case (Some k)
  have "live bodies (insert k (insert i skip)) (Suc i) = live bodies (insert k skip) (Suc i)"
    by (simp add: insert_commute [of k i] live_insert_below)
  with assms firstPartner_Some [OF Some] Some show ?thesis
    by (simp add: live_step [of i] outerResult_merge [where post = "live bodies skip (Suc k)"])
qed

lemma collideOuter_outerResult:
  "collideOuter bodies i merged skip newBodies =
     outerResult merged newBodies (live bodies skip i)"
proof (induction bodies i merged skip newBodies rule: collideOuter.induct)
  case (1 bodies i merged skip newBodies)
  consider "\<not> i < length bodies" | "i < length bodies" "i \<in> skip"
    | "i < length bodies" "i \<notin> skip"
    by blast
  then show ?case
  proof cases
    case 1
    then show ?thesis
      by (subst collideOuter.simps) (simp add: outerResult_def)
  next
    case 2
    with "1.IH"(1) show ?thesis
      by (subst collideOuter.simps) (simp add: live_step [of i])
  next
    case 3
    note inner = collideInner_firstPartner [of bodies i "i + 1" skip newBodies]
    show ?thesis
    proof (cases "firstPartner bodies i (Suc i) skip")
      case None
      with inner "1.IH"(2) [OF 3 _ refl] 3 show ?thesis
        by (subst collideOuter.simps) (simp add: outerResult_live_step)
    next
      case (Some k)
      with inner "1.IH"(3) [OF 3 _ refl] 3 show ?thesis
        by (subst collideOuter.simps) (simp add: outerResult_live_step)
    qed
  qed
qed

lemma checkCollisions_resolveSpec: "checkCollisions bodies True = resolveSpec bodies"
  by (simp add: checkCollisions_def collideOuter_outerResult live_empty_skip
      outerResult_def resolveSpec_def)

subsection \<open>The declarative specification\<close>

inductive_cases resolved_NilE [elim!]: "resolved [] survivors pairs"
inductive_cases resolved_ConsE: "resolved (b1 # rest) survivors pairs"

lemma dropWhile_eq_ConsD:
  assumes "dropWhile P xs = b # post"
  shows "xs = takeWhile P xs @ b # post" "\<not> P b" "\<forall>a \<in> set (takeWhile P xs). P a"
proof -
  show "xs = takeWhile P xs @ b # post"
    using assms by (metis takeWhile_dropWhile_id)
  show "\<not> P b"
    using assms by (metis hd_dropWhile list.distinct(1) list.sel(1))
  show "\<forall>a \<in> set (takeWhile P xs). P a"
    by (auto dest: set_takeWhileD)
qed

lemma resolved_resolvePairs:
  "resolved bodies (fst (resolvePairs bodies)) (snd (resolvePairs bodies))"
proof (induction bodies rule: resolvePairs.induct)
  case 1
  show ?case by (simp add: resolved.Nil)
next
  case (2 b1 rest)
  let ?P = "\<lambda>b2. \<not> collides b1 b2"
  show ?case
  proof (cases "dropWhile ?P rest")
    case Nil
    then have "\<forall>b \<in> set rest. \<not> collides b1 b" by simp
    with "2.IH"(1) [OF Nil] show ?thesis
      by (simp only: resolvePairs_keep [OF Nil]) (simp add: resolved.Keep)
  next
    case (Cons b2 post)
    from dropWhile_eq_ConsD [OF Cons]
    have split: "rest = takeWhile ?P rest @ b2 # post" and hit: "collides b1 b2"
      and miss: "\<forall>b \<in> set (takeWhile ?P rest). \<not> collides b1 b"
      by simp_all
    from resolved.Merge [OF miss hit "2.IH"(2) [OF Cons]] split show ?thesis
      by (simp only: resolvePairs_merge [OF Cons]) simp
  qed
qed

lemma resolved_unique:
  "resolved bodies survivors pairs \<Longrightarrow> resolvePairs bodies = (survivors, pairs)"
proof (induction rule: resolved.induct)
  case Nil
  show ?case by simp
next
  case (Keep rest b1 survivors pairs)
  then show ?case by (simp add: resolvePairs_keep)
next
  case (Merge pre b1 b2 post survivors pairs)
  let ?P = "\<lambda>b2. \<not> collides b1 b2"
  from Merge.hyps have "dropWhile ?P (pre @ b2 # post) = b2 # post"
    and "takeWhile ?P (pre @ b2 # post) = pre"
    by (simp_all add: dropWhile_append2 takeWhile_append2)
  with Merge.IH show ?case
    by (simp add: resolvePairs_merge [where ?b2.0 = b2 and post = post])
qed

subsection \<open>Consequences of the specification\<close>

lemma mergeAll_simps [simp]:
  "mergeAll [] = []"
  "mergeAll ((b1, b2) # pairs) = mergeBodies b1 b2 # mergeAll pairs"
  by (simp_all add: mergeAll_def)

lemma resolveSpec_mergeAll:
  "resolveSpec bodies = fst (resolvePairs bodies) @ mergeAll (snd (resolvePairs bodies))"
  by (simp add: resolveSpec_def mergeAll_def split: prod.splits)

lemma resolved_mset:
  "resolved bodies survivors pairs \<Longrightarrow>
   mset survivors + mset (map fst pairs) + mset (map snd pairs) = mset bodies"
  by (induction rule: resolved.induct) simp_all

lemma resolved_length:
  "resolved bodies survivors pairs \<Longrightarrow> length survivors + 2 * length pairs = length bodies"
  by (induction rule: resolved.induct) simp_all

lemma resolved_total_mass:
  "resolved bodies survivors pairs \<Longrightarrow>
   total_mass (survivors @ mergeAll pairs) = total_mass bodies"
  by (induction rule: resolved.induct) simp_all

lemma resolved_momentum:
  "resolved bodies survivors pairs \<Longrightarrow> \<forall>b \<in> set bodies. 0 < masse b \<Longrightarrow>
   momentum (survivors @ mergeAll pairs) = momentum bodies"
proof (induction rule: resolved.induct)
  case Nil
  show ?case by simp
next
  case (Keep rest b1 survivors pairs)
  then show ?case by simp
next
  case (Merge pre b1 b2 post survivors pairs)
  then have "masse b1 + masse b2 \<noteq> 0"
    by (simp add: add_pos_pos less_imp_neq [symmetric])
  from momentum_mergeBodies [OF this] Merge show ?case
    by (simp add: algebra_simps)
qed

lemma resolved_wf:
  "resolved bodies survivors pairs \<Longrightarrow> \<forall>b \<in> set bodies. wf_body b \<Longrightarrow>
   \<forall>b \<in> set (survivors @ mergeAll pairs). wf_body b"
  by (induction rule: resolved.induct) (auto simp: wf_body_mergeBodies)

lemma resolved_subseq: "resolved bodies survivors pairs \<Longrightarrow> subseq survivors bodies"
proof (induction rule: resolved.induct)
  case (Merge pre b1 b2 post survivors pairs)
  have "subseq (pre @ post) (b1 # pre @ b2 # post)"
    by (intro list_emb_Cons list_emb_append_mono) auto
  with Merge.IH show ?case
    by (rule subseq_order.order_trans)
qed simp_all

lemma resolved_set_survivors:
  "resolved bodies survivors pairs \<Longrightarrow> set survivors \<subseteq> set bodies"
  by (induction rule: resolved.induct) auto

lemma resolved_apart: "resolved bodies survivors pairs \<Longrightarrow> apart survivors"
  unfolding apart_def
  by (induction rule: resolved.induct) (auto dest: resolved_set_survivors)

lemma resolved_pairs_collide:
  "resolved bodies survivors pairs \<Longrightarrow> \<forall>(b1, b2) \<in> set pairs. collides b1 b2"
  by (induction rule: resolved.induct) auto

lemma apart_resolved: "apart bodies \<Longrightarrow> resolved bodies bodies []"
  unfolding apart_def
  by (induction bodies) (auto intro: resolved.intros)

subsection \<open>The pass as a function of the specification\<close>

lemma checkCollisions_cases:
  "checkCollisions bodies enabled = (if enabled then resolveSpec bodies else bodies)"
  by (simp add: checkCollisions_resolveSpec) (simp add: checkCollisions_def)

lemma resolved_resolvePairsI:
  "resolvePairs bodies = (survivors, pairs) \<Longrightarrow> resolved bodies survivors pairs"
  using resolved_resolvePairs [of bodies] by simp

lemma resolved_resolveSpec:
  "resolved bodies survivors pairs \<Longrightarrow> resolveSpec bodies = survivors @ mergeAll pairs"
  by (drule resolved_unique) (simp add: resolveSpec_mergeAll)

text \<open>
  Transfer from the specification to the code: a property of the input that holds of the
  survivors followed by the merge products of every resolution holds of the result of
  the pass, whether collisions are enabled or not.
\<close>

lemma checkCollisions_transfer:
  assumes "P bodies"
    and "\<And>survivors pairs. resolved bodies survivors pairs \<Longrightarrow> P (survivors @ mergeAll pairs)"
  shows "P (checkCollisions bodies enabled)"
  using assms(1) assms(2) [OF resolved_resolvePairs]
  by (simp add: checkCollisions_cases resolveSpec_mergeAll)

lemma resolveSpec_apart: "apart bodies \<Longrightarrow> resolveSpec bodies = bodies"
  by (simp add: resolved_resolveSpec [OF apart_resolved])

lemma checkCollisions_single: "checkCollisions [b] enabled = [b]"
  by (simp add: checkCollisions_cases resolveSpec_def resolvePairs.simps)

lemma length_checkCollisions_le: "length (checkCollisions bodies enabled) \<le> length bodies"
  by (rule checkCollisions_transfer) (auto dest: resolved_length simp: mergeAll_def)

subsection \<open>Kinetic energy and centre of mass\<close>

definition kinetic :: "body list \<Rightarrow> real" where
  "kinetic bodies = sum_list (map (\<lambda>b. masse b * (vx b * vx b + vy b * vy b) / 2) bodies)"

definition mass_moment :: "body list \<Rightarrow> vec2" where
  "mass_moment bodies = sum_list (map (\<lambda>b. (masse b * x b, masse b * y b)) bodies)"

lemma kinetic_simps [simp]:
  "kinetic [] = 0"
  "kinetic (b # bodies) = masse b * (vx b * vx b + vy b * vy b) / 2 + kinetic bodies"
  "kinetic (as @ bs) = kinetic as + kinetic bs"
  by (simp_all add: kinetic_def)

lemma mass_moment_simps [simp]:
  "mass_moment [] = 0"
  "mass_moment (b # bodies) = (masse b * x b, masse b * y b) + mass_moment bodies"
  "mass_moment (as @ bs) = mass_moment as + mass_moment bs"
  by (simp_all add: mass_moment_def)

lemma weighted_square_le:
  fixes a b m1 m2 :: real
  assumes "0 < m1" "0 < m2"
  shows "(m1 + m2) * ((a * m1 + b * m2) / (m1 + m2) * ((a * m1 + b * m2) / (m1 + m2)))
     \<le> m1 * (a * a) + m2 * (b * b)"
proof -
  let ?m = "m1 + m2"
  from assms have m: "0 < ?m" by simp
  have "0 \<le> m1 * m2 * ((a - b) * (a - b))"
    using assms by simp
  also have "\<dots> = ?m * (m1 * (a * a) + m2 * (b * b)) - (a * m1 + b * m2) * (a * m1 + b * m2)"
    by (simp add: algebra_simps)
  finally have "(a * m1 + b * m2) * (a * m1 + b * m2) \<le> (m1 * (a * a) + m2 * (b * b)) * ?m"
    by (simp add: mult.commute)
  then have "(a * m1 + b * m2) * (a * m1 + b * m2) / ?m \<le> m1 * (a * a) + m2 * (b * b)"
    using m by (simp add: pos_divide_le_eq)
  moreover have "?m * ((a * m1 + b * m2) / ?m * ((a * m1 + b * m2) / ?m))
      = (a * m1 + b * m2) * (a * m1 + b * m2) / ?m"
    using m by simp
  ultimately show ?thesis by simp
qed

lemma kinetic_mergeBodies:
  assumes "0 < masse b1" "0 < masse b2"
  shows "kinetic [mergeBodies b1 b2] \<le> kinetic [b1, b2]"
proof -
  let ?m = "masse b1 + masse b2"
  define Vx where "Vx = (vx b1 * masse b1 + vx b2 * masse b2) / ?m"
  define Vy where "Vy = (vy b1 * masse b1 + vy b2 * masse b2) / ?m"
  have le: "?m * (Vx * Vx) \<le> masse b1 * (vx b1 * vx b1) + masse b2 * (vx b2 * vx b2)"
    "?m * (Vy * Vy) \<le> masse b1 * (vy b1 * vy b1) + masse b2 * (vy b2 * vy b2)"
    unfolding Vx_def Vy_def by (rule weighted_square_le [OF assms])+
  have "kinetic [mergeBodies b1 b2] = (?m * (Vx * Vx) + ?m * (Vy * Vy)) / 2"
    unfolding Vx_def Vy_def by (simp add: distrib_left)
  also have "\<dots> \<le> ((masse b1 * (vx b1 * vx b1) + masse b2 * (vx b2 * vx b2))
      + (masse b1 * (vy b1 * vy b1) + masse b2 * (vy b2 * vy b2))) / 2"
    by (intro divide_right_mono add_mono le) simp
  also have "\<dots> = kinetic [b1, b2]"
    by (simp add: distrib_left add_divide_distrib)
  finally show ?thesis .
qed

lemma mass_moment_mergeBodies:
  assumes "masse b1 + masse b2 \<noteq> 0"
  shows "mass_moment [mergeBodies b1 b2] = mass_moment [b1, b2]"
proof -
  let ?m = "masse b1 + masse b2"
  have "?m * ((x b1 * masse b1 + x b2 * masse b2) / ?m) = masse b1 * x b1 + masse b2 * x b2"
    and "?m * ((y b1 * masse b1 + y b2 * masse b2) / ?m) = masse b1 * y b1 + masse b2 * y b2"
    using assms by (simp_all add: mult.commute)
  then show ?thesis by (simp add: vec_zero)
qed

lemma resolved_kinetic:
  "resolved bodies survivors pairs \<Longrightarrow> \<forall>b \<in> set bodies. 0 < masse b \<Longrightarrow>
   kinetic (survivors @ mergeAll pairs) \<le> kinetic bodies"
proof (induction rule: resolved.induct)
  case (Merge pre b1 b2 post survivors pairs)
  from Merge.prems have "kinetic [mergeBodies b1 b2] \<le> kinetic [b1, b2]"
    by (intro kinetic_mergeBodies) simp_all
  moreover from Merge have "kinetic (survivors @ mergeAll pairs) \<le> kinetic (pre @ post)"
    by simp
  moreover have "kinetic (survivors @ mergeAll ((b1, b2) # pairs))
      = kinetic [mergeBodies b1 b2] + kinetic (survivors @ mergeAll pairs)"
    by simp
  moreover have "kinetic (b1 # pre @ b2 # post) = kinetic [b1, b2] + kinetic (pre @ post)"
    by simp
  ultimately show ?case by linarith
qed simp_all

lemma resolved_mass_moment:
  "resolved bodies survivors pairs \<Longrightarrow> \<forall>b \<in> set bodies. 0 < masse b \<Longrightarrow>
   mass_moment (survivors @ mergeAll pairs) = mass_moment bodies"
proof (induction rule: resolved.induct)
  case (Merge pre b1 b2 post survivors pairs)
  then have "masse b1 + masse b2 \<noteq> 0"
    by (simp add: add_pos_pos less_imp_neq [symmetric])
  from mass_moment_mergeBodies [OF this] Merge show ?case
    by (simp add: algebra_simps)
qed simp_all

subsection \<open>The number of overlap tests\<close>

text \<open>
  \<open>T_collideInner\<close>, \<open>T_collideOuter\<close> and \<open>T_checkCollisions\<close> have the recursion of the
  loops and count the evaluations of the overlap test. The \<^verbatim>\<open>break\<close> and the skipped
  indices can only save tests: a pass over \<open>n\<close> bodies makes at most \<open>n (n - 1) / 2\<close>.
\<close>

declare T_collideInner.simps [simp del] T_collideOuter.simps [simp del]

lemma T_collideInner_le: "T_collideInner bodies i j skip \<le> length bodies - j"
  by (induction bodies i j skip rule: T_collideInner.induct)
     (subst T_collideInner.simps, auto)

lemma T_collideOuter_le:
  "2 * T_collideOuter bodies i skip \<le> (length bodies - i) * (length bodies - i - 1)"
proof (induction bodies i skip rule: T_collideOuter.induct)
  case (1 bodies i skip)
  show ?case
  proof (cases "i < length bodies")
    case True
    then obtain k where k: "length bodies - i = Suc k"
      by (cases "length bodies - i") simp_all
    then have k': "length bodies - Suc i = k"
      by simp
    show ?thesis
    proof (cases "i \<in> skip")
      case True
      with "1.IH"(1) [OF \<open>i < length bodies\<close>] \<open>i < length bodies\<close> k k' show ?thesis
        by (subst T_collideOuter.simps) (simp add: algebra_simps)
    next
      case False
      obtain nb sk mt where c: "collideInner bodies i (i + 1) skip [] = (nb, sk, mt)"
        by (cases "collideInner bodies i (i + 1) skip []")
      from "1.IH"(2) [OF \<open>i < length bodies\<close> False c [symmetric] refl] k'
      have "2 * T_collideOuter bodies (i + 1) sk \<le> k * (k - 1)"
        by simp
      moreover from T_collideInner_le [of bodies i "i + 1" skip] k'
      have "T_collideInner bodies i (i + 1) skip \<le> k"
        by simp
      moreover have "2 * k + k * (k - 1) = Suc k * k"
        by (cases k) simp_all
      ultimately show ?thesis
        using \<open>i < length bodies\<close> False c k k'
        by (subst T_collideOuter.simps) simp
    qed
  next
    case False
    then show ?thesis
      by (subst T_collideOuter.simps) simp
  qed
qed

lemma T_checkCollisions_le:
  "2 * T_checkCollisions bodies enabled \<le> length bodies * (length bodies - 1)"
  using T_collideOuter_le [of bodies 0 "{}"] by (simp add: T_checkCollisions_def)

subsection \<open>Worked examples\<close>

text \<open>
  Three bodies of which the third overlaps both others: the first two merge and the third
  survives, since a body enters at most one merge per pass. Then the merge of mass 1 at
  \<open>(0, 0)\<close> moving with \<open>(10, 0)\<close> and mass 3 at rest at \<open>(4, 0)\<close>.
\<close>

lemma one_merge_per_body:
  "checkCollisions [Body 0 0 1 10 0, Body 3 4 3 0 0, Body 3 0 2 0 0] True
     = [Body 3 0 2 0 0, mergeBodies (Body 0 0 1 10 0) (Body 3 4 3 0 0)] \<and>
   collides (Body 0 0 1 10 0) (Body 3 0 2 0 0) \<and> collides (Body 3 4 3 0 0) (Body 3 0 2 0 0)"
  by (simp add: checkCollisions_def collideOuter.simps collideInner.simps collides_def hypot_def)

lemma T_checkCollisions_example:
  "T_checkCollisions [Body 0 0 1 10 0, Body 3 4 3 0 0, Body 3 0 2 0 0] True = 1 \<and>
   T_checkCollisions [Body 0 0 1 0 0, Body 100 0 1 0 0, Body 200 0 1 0 0] True = 3"
  by (simp add: T_checkCollisions_def T_collideOuter.simps T_collideInner.simps
      collideInner.simps collides_def hypot_def)

lemma merge_example:
  "mergeBodies (Body 0 0 1 10 0) (Body 4 0 3 0 0) = Body 3 0 4 (5 / 2) 0 \<and>
   checkCollisions [Body 0 0 1 10 0, Body 4 0 3 0 0] True = [Body 3 0 4 (5 / 2) 0]"
  by (simp add: checkCollisions_def collideOuter.simps collideInner.simps collides_def hypot_def
      mergeBodies_def Let_def)

section \<open>Properties\<close>

text \<open>
  C2. The collision pass refines its declarative specification: for every derivation of
  the inductive relation resolved (keep a body that overlaps no later live body, merge
  it with its first overlapping partner otherwise), checkCollisions returns the
  survivors in their original order followed by the merge products in the order of
  discovery, and returns its input when collisions are disabled.
\<close>

theorem checkCollisions_refines:
  assumes "resolved bodies survivors pairs"
  shows "checkCollisions bodies enabled = (if enabled then survivors @ mergeAll pairs else bodies)"
  using resolved_resolveSpec [OF assms] by (simp add: checkCollisions_cases)

theorem checkCollisions_refines_witness:
  "resolved [Body 0 0 1 10 0, Body 3 4 3 0 0, Body 3 0 2 0 0]
     [Body 3 0 2 0 0] [(Body 0 0 1 10 0, Body 3 4 3 0 0)] \<and>
   checkCollisions [Body 0 0 1 10 0, Body 3 4 3 0 0, Body 3 0 2 0 0] True
     = [Body 3 0 2 0 0, mergeBodies (Body 0 0 1 10 0) (Body 3 4 3 0 0)]"
proof -
  have r: "resolved [Body 0 0 1 10 0, Body 3 4 3 0 0, Body 3 0 2 0 0]
      [Body 3 0 2 0 0] [(Body 0 0 1 10 0, Body 3 4 3 0 0)]"
    by (rule resolved_resolvePairsI) (simp add: resolvePairs.simps collides_def hypot_def)
  from r checkCollisions_refines [OF r, of True] show ?thesis by simp
qed

text \<open>
  C4. The collision pass conserves total momentum exactly when all masses are positive,
  whether collisions are enabled or not.
\<close>

theorem collisions_conserve_momentum:
  assumes "\<forall>b \<in> set bodies. 0 < masse b"
  shows "momentum (checkCollisions bodies enabled) = momentum bodies"
  by (rule checkCollisions_transfer) (rule refl, erule resolved_momentum, rule assms)

theorem collisions_conserve_momentum_witness:
  "0 < masse (Body 0 0 1 10 0) \<and> 0 < masse (Body 3 4 3 0 0) \<and>
   0 < masse (Body 3 0 2 0 5) \<and>
   momentum (checkCollisions [Body 0 0 1 10 0, Body 3 4 3 0 0, Body 3 0 2 0 5] True) = (10, 10)"
  using collisions_conserve_momentum
    [of "[Body 0 0 1 10 0, Body 3 4 3 0 0, Body 3 0 2 0 5]" True]
  by simp

text \<open>
  C7. The collision pass conserves the total mass of the bodies, for every input list
  and both values of the flag.
\<close>

theorem collisions_conserve_mass:
  "total_mass (checkCollisions bodies enabled) = total_mass bodies"
  by (rule checkCollisions_transfer) (rule refl, erule resolved_total_mass)

theorem collisions_conserve_mass_witness:
  "total_mass (checkCollisions [Body 0 0 1 10 0, Body 3 4 3 0 0, Body 3 0 2 0 0] True) = 6"
  using collisions_conserve_mass [of "[Body 0 0 1 10 0, Body 3 4 3 0 0, Body 3 0 2 0 0]" True]
  by simp

text \<open>
  C14. The survivors of a collision pass are the first part of its result; they are a
  subsequence of the input, no two of them overlap, and every merged pair did overlap.
\<close>

theorem survivors_do_not_overlap:
  assumes "resolved bodies survivors pairs"
  shows "take (length survivors) (checkCollisions bodies True) = survivors \<and>
     apart survivors \<and> subseq survivors bodies \<and>
     (\<forall>(b1, b2) \<in> set pairs. collides b1 b2)"
  using assms resolved_resolveSpec [OF assms]
  by (simp add: checkCollisions_cases resolved_apart resolved_subseq resolved_pairs_collide)

theorem survivors_do_not_overlap_witness:
  "resolved [Body 0 0 1 0 0, Body 60 80 3 0 0, Body 30 40 2 0 0, Body 63 84 2 0 0]
     [Body 0 0 1 0 0, Body 30 40 2 0 0] [(Body 60 80 3 0 0, Body 63 84 2 0 0)] \<and>
   take 2 (checkCollisions
     [Body 0 0 1 0 0, Body 60 80 3 0 0, Body 30 40 2 0 0, Body 63 84 2 0 0] True)
     = [Body 0 0 1 0 0, Body 30 40 2 0 0] \<and>
   apart [Body 0 0 1 0 0, Body 30 40 2 0 0] \<and>
   collides (Body 60 80 3 0 0) (Body 63 84 2 0 0)"
proof -
  have r: "resolved [Body 0 0 1 0 0, Body 60 80 3 0 0, Body 30 40 2 0 0, Body 63 84 2 0 0]
      [Body 0 0 1 0 0, Body 30 40 2 0 0] [(Body 60 80 3 0 0, Body 63 84 2 0 0)]"
    by (rule resolved_resolvePairsI) (simp add: resolvePairs.simps collides_def hypot_def)
  from r survivors_do_not_overlap [OF r] show ?thesis
    by (simp add: numeral_2_eq_2)
qed

text \<open>
  C15. A collision pass partitions the bodies: every input body is either a survivor or
  a member of exactly one merged pair (as multisets), so the result is shorter than the
  input by the number of merges.
\<close>

theorem merge_partition:
  assumes "resolved bodies survivors pairs"
  shows "mset survivors + mset (map fst pairs) + mset (map snd pairs) = mset bodies \<and>
     length (checkCollisions bodies True) + length pairs = length bodies"
  using resolved_mset [OF assms] resolved_length [OF assms] resolved_resolveSpec [OF assms]
  by (simp add: checkCollisions_cases mergeAll_def)

theorem merge_partition_witness:
  "resolved [Body 0 0 1 10 0, Body 3 4 3 0 0, Body 3 0 2 0 0]
     [Body 3 0 2 0 0] [(Body 0 0 1 10 0, Body 3 4 3 0 0)] \<and>
   length (checkCollisions [Body 0 0 1 10 0, Body 3 4 3 0 0, Body 3 0 2 0 0] True) = 2"
proof -
  have r: "resolved [Body 0 0 1 10 0, Body 3 4 3 0 0, Body 3 0 2 0 0]
      [Body 3 0 2 0 0] [(Body 0 0 1 10 0, Body 3 4 3 0 0)]"
    by (rule resolved_resolvePairsI) (simp add: resolvePairs.simps collides_def hypot_def)
  from r merge_partition [OF r] show ?thesis by simp
qed

text \<open>
  C16. The inductive specification of the collision pass and the executable list
  recursion resolvePairs describe the same result: the relation resolved holds of
  exactly the survivors and pairs that resolvePairs computes, so the specification is
  total and deterministic; and checkCollisions returns these survivors followed by the
  merge products of these pairs.
\<close>

theorem resolved_characterises:
  "(resolved bodies survivors pairs \<longleftrightarrow> resolvePairs bodies = (survivors, pairs)) \<and>
   checkCollisions bodies True
     = fst (resolvePairs bodies) @ mergeAll (snd (resolvePairs bodies))"
  using resolved_resolvePairs [of bodies]
  by (auto dest: resolved_unique simp: checkCollisions_cases resolveSpec_mergeAll)

theorem resolved_characterises_witness:
  "resolved [Body 0 0 1 10 0, Body 3 4 3 0 0, Body 3 0 2 0 0]
     [Body 3 0 2 0 0] [(Body 0 0 1 10 0, Body 3 4 3 0 0)]"
proof -
  have "resolvePairs [Body 0 0 1 10 0, Body 3 4 3 0 0, Body 3 0 2 0 0]
      = ([Body 3 0 2 0 0], [(Body 0 0 1 10 0, Body 3 4 3 0 0)])"
    by (simp add: resolvePairs.simps collides_def hypot_def)
  with resolved_characterises
    [of "[Body 0 0 1 10 0, Body 3 4 3 0 0, Body 3 0 2 0 0]"
      "[Body 3 0 2 0 0]" "[(Body 0 0 1 10 0, Body 3 4 3 0 0)]"]
  show ?thesis by blast
qed

text \<open>
  C34. Merges are inelastic: the collision pass never increases the total kinetic energy
  of bodies with positive masses.
\<close>

theorem merge_is_inelastic:
  assumes "\<forall>b \<in> set bodies. 0 < masse b"
  shows "kinetic (checkCollisions bodies enabled) \<le> kinetic bodies"
  by (rule checkCollisions_transfer) (rule order_refl, erule resolved_kinetic, rule assms)

theorem merge_is_inelastic_witness:
  "kinetic (checkCollisions [Body 0 0 1 10 0, Body 4 0 3 0 0] True) = 25 / 2 \<and>
   kinetic [Body 0 0 1 10 0, Body 4 0 3 0 0] = 50"
proof -
  have "checkCollisions [Body 0 0 1 10 0, Body 4 0 3 0 0] True = [Body 3 0 4 (5 / 2) 0]"
    by (simp add: checkCollisions_def collideOuter.simps collideInner.simps collides_def
        hypot_def mergeBodies_def Let_def)
  with merge_is_inelastic [of "[Body 0 0 1 10 0, Body 4 0 3 0 0]" True] show ?thesis
    by simp
qed

text \<open>
  C36. The collision pass conserves the centre of mass: the mass-weighted sum of the
  positions of bodies with positive masses is the same before and after the pass.
\<close>

theorem collisions_conserve_centre_of_mass:
  assumes "\<forall>b \<in> set bodies. 0 < masse b"
  shows "mass_moment (checkCollisions bodies enabled) = mass_moment bodies"
  by (rule checkCollisions_transfer) (rule refl, erule resolved_mass_moment, rule assms)

theorem collisions_conserve_centre_of_mass_witness:
  "mass_moment (checkCollisions [Body 0 0 1 10 0, Body 4 0 3 0 0] True) = (12, 0)"
  using collisions_conserve_centre_of_mass [of "[Body 0 0 1 10 0, Body 4 0 3 0 0]" True]
  by simp

end
