(* ===== verification/Spawner.thy ===== *)
theory Spawner
  imports Body
begin

text \<open>
  The generators of \<^verbatim>\<open>src/scipt.js\<close>: \<^verbatim>\<open>randomRange\<close> (lines 56--58),
  \<^verbatim>\<open>randomVelocity\<close> (lines 168--175) and \<^verbatim>\<open>spawnStar\<close> (lines 177--183), with the
  constants \<^verbatim>\<open>MASS_MIN\<close> and \<^verbatim>\<open>MASS_MAX\<close>.

  Every call of \<^verbatim>\<open>Math.random()\<close> takes the next draw of the stream; the functions are
  computations in the state monad over the stream, in the order in which the source
  makes the calls. The globals \<^verbatim>\<open>WIDTH\<close> and \<^verbatim>\<open>HEIGHT\<close> read by \<^verbatim>\<open>spawnStar\<close> are
  its first two arguments.

  The lemmas give the result and the remaining stream of every generator, the range of
  the generated values when the draws lie in \<open>[0, 1)\<close>, and well-formedness of the
  spawned body.
\<close>

definition MASS_MIN :: real where
  "MASS_MIN = 1"

definition MASS_MAX :: real where
  "MASS_MAX = 2"

definition randomRange :: "real \<Rightarrow> real \<Rightarrow> (rng, real) state" where
  "randomRange lo hi = do {
     u \<leftarrow> random;
     State_Monad.return (u * (hi - lo) + lo)
   }"

definition randomVelocity :: "bool \<Rightarrow> real \<Rightarrow> (rng, vec2) state" where
  "randomVelocity randomEnabled strength =
     (if randomEnabled then do {
        u \<leftarrow> random;
        let angle = u * 2 * pi;
        v \<leftarrow> random;
        let speed = v * strength;
        State_Monad.return (cos angle * speed, sin angle * speed)
      }
      else State_Monad.return (0, 0))"

definition spawnStar :: "real \<Rightarrow> real \<Rightarrow> bool \<Rightarrow> real \<Rightarrow> (rng, body) state" where
  "spawnStar width height randomEnabled strength = do {
     x0 \<leftarrow> randomRange 0 width;
     y0 \<leftarrow> randomRange 0 height;
     m \<leftarrow> randomRange MASS_MIN MASS_MAX;
     (vx0, vy0) \<leftarrow> randomVelocity randomEnabled strength;
     State_Monad.return (Body x0 y0 m vx0 vy0)
   }"

lemmas spawner_defs [sim_defs] =
  MASS_MIN_def MASS_MAX_def randomRange_def randomVelocity_def spawnStar_def

subsection \<open>Results of the generators\<close>

lemma run_randomRange [simp]:
  "run_state (randomRange lo hi) s = (shd s * (hi - lo) + lo, stl s)"
  by (simp add: randomRange_def run_state_bind)

lemma run_randomVelocity [simp]:
  "run_state (randomVelocity randomEnabled strength) s =
     (if randomEnabled
      then ((cos (shd s * 2 * pi) * (shd (stl s) * strength),
             sin (shd s * 2 * pi) * (shd (stl s) * strength)), stl (stl s))
      else ((0, 0), s))"
  by (simp add: randomVelocity_def run_state_bind Let_def)

lemma run_spawnStar:
  "run_state (spawnStar width height randomEnabled strength) s =
     (case run_state (randomVelocity randomEnabled strength) (stl (stl (stl s))) of
        ((vx0, vy0), s') \<Rightarrow>
          (Body (shd s * width) (shd (stl s) * height)
             (shd (stl (stl s)) + 1) vx0 vy0, s'))"
  by (simp add: spawnStar_def run_state_bind MASS_MIN_def MASS_MAX_def split: prod.splits)

lemma randomRange_bounds:
  assumes "unit_draws s" "lo \<le> hi"
  shows "lo \<le> fst (run_state (randomRange lo hi) s)"
    and "fst (run_state (randomRange lo hi) s) \<le> hi"
    and "lo < hi \<Longrightarrow> fst (run_state (randomRange lo hi) s) < hi"
proof -
  from unit_draws_shd [OF assms(1)] have u: "0 \<le> shd s" "shd s < 1" by simp_all
  from u(1) assms(2) show "lo \<le> fst (run_state (randomRange lo hi) s)"
    by simp
  have "shd s * (hi - lo) \<le> 1 * (hi - lo)"
    using u assms(2) by (intro mult_right_mono) simp_all
  then show "fst (run_state (randomRange lo hi) s) \<le> hi"
    by simp
  show "fst (run_state (randomRange lo hi) s) < hi" if "lo < hi"
  proof -
    have "shd s * (hi - lo) < 1 * (hi - lo)"
      using u that by (intro mult_strict_right_mono) simp_all
    then show ?thesis by simp
  qed
qed

lemma magnitude_polar: "magnitude (cos a * r, sin a * r) = \<bar>r\<bar>"
proof -
  have "cos a * r * (cos a * r) + sin a * r * (sin a * r)
      = r * r * (cos a * cos a + sin a * sin a)"
    by algebra
  also have "cos a * cos a + sin a * sin a = 1"
    using sin_cos_squared_add2 [of a] by (simp only: power2_eq_square)
  finally show ?thesis
    by (simp add: magnitude_def hypot_def)
qed

lemma randomVelocity_speed:
  assumes "unit_draws s" "0 \<le> strength"
  shows "magnitude (fst (run_state (randomVelocity randomEnabled strength) s)) \<le> strength"
proof (cases randomEnabled)
  case True
  from unit_draws_shd [OF unit_draws_stl [OF assms(1)]]
  have v: "0 \<le> shd (stl s)" "shd (stl s) < 1" by simp_all
  then have "shd (stl s) * strength \<le> 1 * strength"
    using assms(2) by (intro mult_right_mono) simp_all
  with True v assms(2) show ?thesis
    by (simp add: magnitude_polar abs_mult)
next
  case False
  with assms(2) show ?thesis
    by (simp add: magnitude_def hypot_def)
qed

lemma randomVelocity_draws:
  "snd (run_state (randomVelocity randomEnabled strength) s) =
     sdrop (if randomEnabled then 2 else 0) s"
  by (simp add: numeral_2_eq_2)

lemma spawnStar_draws:
  "snd (run_state (spawnStar width height randomEnabled strength) s) =
     sdrop (if randomEnabled then 5 else 3) s"
  by (simp add: run_spawnStar eval_nat_numeral)

lemma spawnStar_sel [simp]:
  "x (fst (run_state (spawnStar width height randomEnabled strength) s)) = shd s * width"
  "y (fst (run_state (spawnStar width height randomEnabled strength) s)) = shd (stl s) * height"
  "masse (fst (run_state (spawnStar width height randomEnabled strength) s))
     = shd (stl (stl s)) + 1"
  by (simp_all add: run_spawnStar)

lemma spawnStar_radius:
  "radius (fst (run_state (spawnStar width height randomEnabled strength) s)) =
   calcRadius (fst (run_state (spawnStar width height randomEnabled strength) s))"
  by (simp add: run_spawnStar)

lemma spawnStar_masse:
  assumes "unit_draws s"
  shows "1 \<le> masse (fst (run_state (spawnStar width height randomEnabled strength) s))"
    and "masse (fst (run_state (spawnStar width height randomEnabled strength) s)) < 2"
  using unit_draws_shd [OF unit_draws_stl [OF unit_draws_stl [OF assms]]] by simp_all

lemma wf_body_spawnStar [wf_simps]:
  "unit_draws s \<Longrightarrow> wf_body (fst (run_state (spawnStar width height randomEnabled strength) s))"
  using spawnStar_masse(1) [of s width height randomEnabled strength]
  by (simp add: wf_body_def spawnStar_radius)

lemma unit_draws_spawnStar [wf_simps]:
  "unit_draws s \<Longrightarrow>
   unit_draws (snd (run_state (spawnStar width height randomEnabled strength) s))"
  by (simp add: spawnStar_draws unit_draws_sdrop)

lemma spawnStar_on_screen:
  assumes "unit_draws s" "0 \<le> width" "0 \<le> height"
  shows "\<not> isOffScreen (fst (run_state (spawnStar width height randomEnabled strength) s))
     width height"
proof -
  let ?b = "fst (run_state (spawnStar width height randomEnabled strength) s)"
  from unit_draws_shd [OF assms(1)] unit_draws_shd [OF unit_draws_stl [OF assms(1)]]
  have u: "0 \<le> shd s" "shd s \<le> 1" "0 \<le> shd (stl s)" "shd (stl s) \<le> 1" by simp_all
  from u(1,2) assms(2) have "0 \<le> x ?b" "x ?b \<le> width"
    by (simp_all add: mult_left_le_one_le)
  moreover from u(3,4) assms(3) have "0 \<le> y ?b" "y ?b \<le> height"
    by (simp_all add: mult_left_le_one_le)
  moreover have "0 < radius ?b"
    by (simp add: spawnStar_radius)
  ultimately show ?thesis
    by (simp add: isOffScreen_def)
qed

section \<open>Properties\<close>

text \<open>
  C32. A spawned body is well formed: its mass lies in [1, 2), and its radius is the
  derived radius, which is 5.
\<close>

theorem spawnStar_well_formed:
  assumes "unit_draws s"
  shows "wf_body (fst (run_state (spawnStar width height randomEnabled strength) s)) \<and>
     1 \<le> masse (fst (run_state (spawnStar width height randomEnabled strength) s)) \<and>
     masse (fst (run_state (spawnStar width height randomEnabled strength) s)) < 2 \<and>
     radius (fst (run_state (spawnStar width height randomEnabled strength) s)) = 5"
proof -
  let ?b = "fst (run_state (spawnStar width height randomEnabled strength) s)"
  from spawnStar_masse [OF assms, of width height randomEnabled strength]
  have m: "1 \<le> masse ?b" "masse ?b < 2" by simp_all
  then have "calcRadius ?b = 5"
    by (intro calcRadius_small) simp_all
  with m wf_body_spawnStar [OF assms, of width height randomEnabled strength] show ?thesis
    by (simp add: wf_body_def)
qed

theorem spawnStar_well_formed_witness:
  "unit_draws (sconst (1 / 2)) \<and>
   fst (run_state (spawnStar 800 600 False 3000) (sconst (1 / 2))) = Body 400 300 (3 / 2) 0 0 \<and>
   radius (fst (run_state (spawnStar 800 600 False 3000) (sconst (1 / 2)))) = 5"
  using spawnStar_well_formed [of "sconst (1 / 2)" 800 600 False 3000]
  by (simp add: run_spawnStar)

text \<open>
  C33. The speed of a random velocity is at most the strength setting; the generator
  consumes two random draws when random velocities are enabled and none otherwise.
\<close>

theorem randomVelocity_bounded:
  assumes "unit_draws s" "0 \<le> strength"
  shows "magnitude (fst (run_state (randomVelocity randomEnabled strength) s)) \<le> strength \<and>
     snd (run_state (randomVelocity randomEnabled strength) s)
       = sdrop (if randomEnabled then 2 else 0) s"
  using randomVelocity_speed [OF assms] randomVelocity_draws by simp

theorem randomVelocity_bounded_witness:
  "unit_draws (0 ## sconst (1 / 2)) \<and>
   run_state (randomVelocity True 3000) (0 ## sconst (1 / 2)) = ((1500, 0), sconst (1 / 2))"
proof -
  have "unit_draws (0 ## sconst (1 / 2))"
    by (simp add: unit_draws_def)
  with randomVelocity_bounded [of "0 ## sconst (1 / 2)" 3000 True] show ?thesis
    by simp
qed

end
