(* ===== verification/World.thy ===== *)
theory World
  imports Gravity Collision Spawner
begin

text \<open>
  The simulation state and its handlers in \<^verbatim>\<open>src/scipt.js\<close>: the settings (lines
  28--38), \<^verbatim>\<open>resize\<close> (46--51), the globals \<^verbatim>\<open>bodies\<close> and \<^verbatim>\<open>spawnTimer\<close> (186--187),
  \<^verbatim>\<open>reset\<close> (189--204), the \<^verbatim>\<open>keydown\<close> and \<^verbatim>\<open>mousedown\<close> listeners (208--251) and
  the frame callback \<^verbatim>\<open>loop\<close> (254--294).

  All mutable globals are the fields of the record \<open>world\<close>, under their source names,
  together with the stream of random draws. A handler is a function from the state to
  the updated state. \<open>loop\<close> is the composition of its phases in source order: the
  time step (\<open>frameTime\<close>), the spawn timer (\<open>spawnPhase\<close>), the forces and the motion
  (\<open>moveBodies\<close>), the collisions (\<open>checkCollisions\<close>) and the culling
  (\<open>cullBodies\<close>). \<open>frameSpawns\<close> is a predicate of the specification, the condition
  under which the spawn phase of a frame appends a body. The
  painting and the overlay text at the end of \<^verbatim>\<open>loop\<close> are in theories \<open>Render\<close> and \<open>Page\<close>.

  \<open>wf_world\<close> is the invariant of the state; the lemmas show that every handler
  preserves it and give the effect of the handlers on the settings.
\<close>

definition START_BODIES_COUNT :: nat where
  "START_BODIES_COUNT = 1"

definition SPAWN_INTERVAL :: real where
  "SPAWN_INTERVAL = 2 / 1000"

record world =
  G :: real
  COLLISION_ENABLED :: bool
  SPAWN_ENABLED :: bool
  RANDOM_VELOCITY_ENABLED :: bool
  RANDOM_VELOCITY_STRENGTH :: real
  WIDTH :: real
  HEIGHT :: real
  bodies :: "body list"
  spawnTimer :: real
  lastTimestamp :: real
  rng :: rng

definition resize :: "real \<Rightarrow> real \<Rightarrow> world \<Rightarrow> world" where
  "resize innerWidth innerHeight w = w\<lparr>WIDTH := innerWidth, HEIGHT := innerHeight\<rparr>"

definition seedBody :: "world \<Rightarrow> (rng, body) state" where
  "seedBody w = do {
     x0 \<leftarrow> randomRange (WIDTH w / 2 - 150) (WIDTH w / 2 + 150);
     y0 \<leftarrow> randomRange (HEIGHT w / 2 - 150) (HEIGHT w / 2 + 150);
     m \<leftarrow> randomRange MASS_MIN MASS_MAX;
     (vx0, vy0) \<leftarrow> randomVelocity (RANDOM_VELOCITY_ENABLED w) (RANDOM_VELOCITY_STRENGTH w);
     State_Monad.return (Body x0 y0 m vx0 vy0)
   }"

function seedLoop :: "world \<Rightarrow> nat \<Rightarrow> body list \<Rightarrow> rng \<Rightarrow> body list \<times> rng" where
  "seedLoop w i bs s =
     (if i < START_BODIES_COUNT then
        (case run_state (seedBody w) s of (b, s') \<Rightarrow> seedLoop w (i + 1) (bs @ [b]) s')
      else (bs, s))"
  by pat_completeness auto
termination
  by (relation "measure (\<lambda>(w, i, bs, s). START_BODIES_COUNT - i)") auto

definition reset :: "world \<Rightarrow> world" where
  "reset w =
     (case seedLoop w 0 [] (rng w) of
        (bs, s') \<Rightarrow>
          w\<lparr>bodies := bs, rng := s', G := 2000, COLLISION_ENABLED := True,
            SPAWN_ENABLED := True, RANDOM_VELOCITY_ENABLED := True,
            RANDOM_VELOCITY_STRENGTH := 3000, spawnTimer := 0\<rparr>)"

definition keydown :: "string \<Rightarrow> world \<Rightarrow> world" where
  "keydown key w =
     (if key = ''Escape'' then w
      else if key = ''r'' \<or> key = ''R'' then reset w
      else if key = ''ArrowUp'' then w\<lparr>G := G w * (11 / 10)\<rparr>
      else if key = ''ArrowDown'' then w\<lparr>G := G w / (11 / 10)\<rparr>
      else if key = ''c'' \<or> key = ''C'' then w\<lparr>COLLISION_ENABLED := \<not> COLLISION_ENABLED w\<rparr>
      else if key = ''s'' \<or> key = ''S'' then w\<lparr>SPAWN_ENABLED := \<not> SPAWN_ENABLED w\<rparr>
      else if key = ''v'' \<or> key = ''V'' then
        w\<lparr>RANDOM_VELOCITY_ENABLED := \<not> RANDOM_VELOCITY_ENABLED w\<rparr>
      else if key = ''ArrowRight'' then
        w\<lparr>RANDOM_VELOCITY_STRENGTH := RANDOM_VELOCITY_STRENGTH w + 10\<rparr>
      else if key = ''ArrowLeft'' then
        w\<lparr>RANDOM_VELOCITY_STRENGTH := max 0 (RANDOM_VELOCITY_STRENGTH w - 10)\<rparr>
      else w)"

definition mousedown :: "real \<Rightarrow> real \<Rightarrow> real \<Rightarrow> real \<Rightarrow> world \<Rightarrow> world" where
  "mousedown clientX clientY rectLeft rectTop w =
     (let mx = clientX - rectLeft;
          my = clientY - rectTop;
          (m, s1) = run_state (randomRange MASS_MIN MASS_MAX) (rng w);
          ((vx0, vy0), s2) =
            run_state (randomVelocity (RANDOM_VELOCITY_ENABLED w) (RANDOM_VELOCITY_STRENGTH w)) s1
      in w\<lparr>bodies := bodies w @ [Body mx my m vx0 vy0], rng := s2\<rparr>)"

definition frameTime :: "real \<Rightarrow> world \<Rightarrow> real \<times> world" where
  "frameTime timestamp w =
     (let w' = (if lastTimestamp w = 0 then w\<lparr>lastTimestamp := timestamp\<rparr> else w);
          dt = (timestamp - lastTimestamp w') / 1000
      in (dt, w'\<lparr>lastTimestamp := timestamp\<rparr>))"

definition spawnPhase :: "real \<Rightarrow> world \<Rightarrow> world" where
  "spawnPhase dt w =
     (let w' = (if SPAWN_ENABLED w then w\<lparr>spawnTimer := spawnTimer w + dt\<rparr> else w)
      in if SPAWN_ENABLED w' \<and> spawnTimer w' \<ge> SPAWN_INTERVAL then
           (case run_state (spawnStar (WIDTH w') (HEIGHT w') (RANDOM_VELOCITY_ENABLED w')
                              (RANDOM_VELOCITY_STRENGTH w')) (rng w') of
              (b, s') \<Rightarrow> w'\<lparr>bodies := bodies w' @ [b], rng := s', spawnTimer := 0\<rparr>)
         else w')"

definition frameSpawns :: "real \<Rightarrow> world \<Rightarrow> bool" where
  "frameSpawns timestamp w \<longleftrightarrow>
     (case frameTime timestamp w of
        (dt, w1) \<Rightarrow> SPAWN_ENABLED w1 \<and> spawnTimer w1 + dt \<ge> SPAWN_INTERVAL)"

definition cullBodies :: "body list \<Rightarrow> real \<Rightarrow> real \<Rightarrow> body list" where
  "cullBodies bs width height = filter (\<lambda>b. \<not> isOffScreen b width height) bs"

definition loop :: "real \<Rightarrow> world \<Rightarrow> world" where
  "loop timestamp w =
     (case frameTime timestamp w of
        (dt, w1) \<Rightarrow>
          (let w2 = spawnPhase dt w1;
               bs1 = moveBodies (bodies w2) (G w2) dt;
               bs2 = checkCollisions bs1 (COLLISION_ENABLED w2);
               bs3 = cullBodies bs2 (WIDTH w2) (HEIGHT w2)
           in w2\<lparr>bodies := bs3\<rparr>))"

definition wf_bodies :: "body list \<Rightarrow> bool" where
  "wf_bodies bs \<longleftrightarrow> (\<forall>b \<in> set bs. wf_body b \<and> MASS_MIN \<le> masse b)"

definition wf_world :: "world \<Rightarrow> bool" where
  "wf_world w \<longleftrightarrow>
     0 < G w \<and> 0 \<le> RANDOM_VELOCITY_STRENGTH w \<and> spawnTimer w < SPAWN_INTERVAL \<and>
     wf_bodies (bodies w) \<and> unit_draws (rng w)"

declare seedLoop.simps [simp del]

lemmas world_defs [sim_defs] =
  START_BODIES_COUNT_def SPAWN_INTERVAL_def resize_def seedBody_def reset_def keydown_def
  mousedown_def frameTime_def spawnPhase_def cullBodies_def loop_def wf_bodies_def
  wf_world_def seedLoop.simps

subsection \<open>Well-formed lists of bodies\<close>

lemma wf_bodies_Nil [simp]: "wf_bodies []"
  by (simp add: wf_bodies_def)

lemma wf_bodies_append [simp]: "wf_bodies (as @ bs) \<longleftrightarrow> wf_bodies as \<and> wf_bodies bs"
  by (auto simp: wf_bodies_def)

lemma wf_bodies_Cons [simp]:
  "wf_bodies (b # bs) \<longleftrightarrow> wf_body b \<and> MASS_MIN \<le> masse b \<and> wf_bodies bs"
  by (auto simp: wf_bodies_def)

lemma wf_bodies_filter: "wf_bodies bs \<Longrightarrow> wf_bodies (filter P bs)"
  by (simp add: wf_bodies_def)

lemma wf_bodies_mergeBodies:
  "wf_bodies [b1, b2] \<Longrightarrow> wf_bodies [mergeBodies b1 b2]"
  by (simp add: wf_body_mergeBodies MASS_MIN_def)

lemma wf_bodies_moveBodies: "wf_bodies bs \<Longrightarrow> wf_bodies (moveBodies bs g dt)"
  unfolding wf_bodies_def
proof
  fix b
  assume wf: "\<forall>b \<in> set bs. wf_body b \<and> MASS_MIN \<le> masse b"
    and "b \<in> set (moveBodies bs g dt)"
  then obtain k where k: "k < length bs" "b = moveBodies bs g dt ! k"
    by (auto simp: in_set_conv_nth)
  with wf have "wf_body (bs ! k)" "MASS_MIN \<le> masse (bs ! k)"
    by simp_all
  with k show "wf_body b \<and> MASS_MIN \<le> masse b"
    by (simp add: moveBodies_nth wf_body_updatePosition wf_body_applyForce)
qed

lemma wf_bodies_resolved:
  "resolved bs survivors pairs \<Longrightarrow> wf_bodies bs \<Longrightarrow> wf_bodies (survivors @ mergeAll pairs)"
  by (induction rule: resolved.induct) (simp_all add: wf_body_mergeBodies MASS_MIN_def)

lemma wf_bodies_checkCollisions:
  assumes "wf_bodies bs"
  shows "wf_bodies (checkCollisions bs enabled)"
  using assms by (rule checkCollisions_transfer) (rule wf_bodies_resolved [OF _ assms])

lemma wf_bodies_cullBodies: "wf_bodies bs \<Longrightarrow> wf_bodies (cullBodies bs width height)"
  by (simp add: cullBodies_def wf_bodies_filter)

lemma cullBodies_on_screen:
  "b \<in> set (cullBodies bs width height) \<Longrightarrow> \<not> isOffScreen b width height"
  by (simp add: cullBodies_def)

subsection \<open>Seeding and reset\<close>

lemma run_seedBody:
  "run_state (seedBody w) s =
     (case run_state (randomVelocity (RANDOM_VELOCITY_ENABLED w) (RANDOM_VELOCITY_STRENGTH w))
             (stl (stl (stl s))) of
        ((vx0, vy0), s') \<Rightarrow>
          (Body (shd s * 300 + (WIDTH w / 2 - 150)) (shd (stl s) * 300 + (HEIGHT w / 2 - 150))
             (shd (stl (stl s)) + 1) vx0 vy0, s'))"
  by (simp add: seedBody_def run_state_bind MASS_MIN_def MASS_MAX_def split: prod.splits)

lemma seedBody_wf:
  assumes "unit_draws s"
  shows "wf_bodies [fst (run_state (seedBody w) s)]"
    and "unit_draws (snd (run_state (seedBody w) s))"
proof -
  from unit_draws_shd [OF unit_draws_stl [OF unit_draws_stl [OF assms]]]
  show "wf_bodies [fst (run_state (seedBody w) s)]"
    by (simp add: run_seedBody wf_body_def MASS_MIN_def)
  from assms show "unit_draws (snd (run_state (seedBody w) s))"
    by (simp add: run_seedBody unit_draws_stl)
qed

lemma seedLoop_wf:
  assumes "unit_draws s" "wf_bodies bs"
  shows "wf_bodies (fst (seedLoop w i bs s)) \<and> unit_draws (snd (seedLoop w i bs s))"
  using assms
proof (induction w i bs s rule: seedLoop.induct)
  case (1 w i bs s)
  show ?case
  proof (cases "i < START_BODIES_COUNT")
    case False
    with "1.prems" show ?thesis by (subst (1 2) seedLoop.simps) simp
  next
    case True
    obtain b s' where run: "run_state (seedBody w) s = (b, s')"
      by (cases "run_state (seedBody w) s")
    with seedBody_wf [OF "1.prems"(1), of w] have "wf_bodies [b]" "unit_draws s'"
      by simp_all
    with "1.IH" [OF True run [symmetric]] "1.prems"(2)
    have "wf_bodies (fst (seedLoop w (i + 1) (bs @ [b]) s')) \<and>
        unit_draws (snd (seedLoop w (i + 1) (bs @ [b]) s'))"
      by simp
    with True run show ?thesis by (subst (1 2) seedLoop.simps) simp
  qed
qed

lemma length_seedLoop:
  "length (fst (seedLoop w i bs s)) = length bs + (START_BODIES_COUNT - i)"
proof (induction w i bs s rule: seedLoop.induct)
  case (1 w i bs s)
  show ?case
  proof (cases "i < START_BODIES_COUNT")
    case False
    then show ?thesis by (subst seedLoop.simps) simp
  next
    case True
    obtain b s' where run: "run_state (seedBody w) s = (b, s')"
      by (cases "run_state (seedBody w) s")
    with "1.IH" [OF True run [symmetric]] True show ?thesis
      by (subst seedLoop.simps) simp
  qed
qed

lemma reset_settings [simp]:
  "G (reset w) = 2000"
  "COLLISION_ENABLED (reset w)"
  "SPAWN_ENABLED (reset w)"
  "RANDOM_VELOCITY_ENABLED (reset w)"
  "RANDOM_VELOCITY_STRENGTH (reset w) = 3000"
  "spawnTimer (reset w) = 0"
  "WIDTH (reset w) = WIDTH w"
  "HEIGHT (reset w) = HEIGHT w"
  "lastTimestamp (reset w) = lastTimestamp w"
  by (simp_all add: reset_def split: prod.splits)

lemma reset_bodies:
  "bodies (reset w) = fst (seedLoop w 0 [] (rng w))"
  "rng (reset w) = snd (seedLoop w 0 [] (rng w))"
  by (simp_all add: reset_def split: prod.splits)

lemma length_bodies_reset: "length (bodies (reset w)) = START_BODIES_COUNT"
  by (simp add: reset_bodies length_seedLoop)

lemma wf_world_reset: "unit_draws (rng w) \<Longrightarrow> wf_world (reset w)"
  using seedLoop_wf [of "rng w" "[]" w 0]
  by (simp add: wf_world_def reset_bodies SPAWN_INTERVAL_def)

subsection \<open>Keyboard and mouse\<close>

lemma wf_world_resize: "wf_world w \<Longrightarrow> wf_world (resize innerWidth innerHeight w)"
  by (simp add: wf_world_def resize_def)

lemma wf_world_keydown:
  assumes "wf_world w"
  shows "wf_world (keydown key w)"
proof -
  from assms have "unit_draws (rng w)" by (simp add: wf_world_def)
  then have "wf_world (reset w)" by (rule wf_world_reset)
  with assms show ?thesis
    unfolding keydown_def by (simp add: wf_world_def)
qed

lemma keydown_G_roundtrip:
  "keydown ''ArrowDown'' (keydown ''ArrowUp'' w) = w"
  "keydown ''ArrowUp'' (keydown ''ArrowDown'' w) = w"
  by (simp_all add: keydown_def)

lemma keydown_toggle_twice:
  "keydown ''c'' (keydown ''c'' w) = w" "keydown ''C'' (keydown ''C'' w) = w"
  "keydown ''s'' (keydown ''s'' w) = w" "keydown ''S'' (keydown ''S'' w) = w"
  "keydown ''v'' (keydown ''v'' w) = w" "keydown ''V'' (keydown ''V'' w) = w"
  by (simp_all add: keydown_def)

lemma keydown_strength:
  "RANDOM_VELOCITY_STRENGTH (keydown ''ArrowLeft'' w) = max 0 (RANDOM_VELOCITY_STRENGTH w - 10)"
  "RANDOM_VELOCITY_STRENGTH (keydown ''ArrowRight'' w) = RANDOM_VELOCITY_STRENGTH w + 10"
  by (simp_all add: keydown_def)

lemma keydown_bodies:
  "key \<notin> {''r'', ''R''} \<Longrightarrow> bodies (keydown key w) = bodies w"
  by (simp add: keydown_def)

lemma mousedown_bodies:
  "bodies (mousedown clientX clientY rectLeft rectTop w) =
     bodies w @
       [Body (clientX - rectLeft) (clientY - rectTop) (shd (rng w) + 1)
          (fst (fst (run_state (randomVelocity (RANDOM_VELOCITY_ENABLED w)
                       (RANDOM_VELOCITY_STRENGTH w)) (stl (rng w)))))
          (snd (fst (run_state (randomVelocity (RANDOM_VELOCITY_ENABLED w)
                       (RANDOM_VELOCITY_STRENGTH w)) (stl (rng w)))))]"
  by (simp add: mousedown_def MASS_MIN_def MASS_MAX_def Let_def split: prod.splits)

lemma mousedown_rng:
  "rng (mousedown clientX clientY rectLeft rectTop w) =
     sdrop (if RANDOM_VELOCITY_ENABLED w then 3 else 1) (rng w)"
  by (simp add: mousedown_def Let_def eval_nat_numeral split: prod.splits)

lemma keydown_viewport [simp]:
  "WIDTH (keydown key w) = WIDTH w" "HEIGHT (keydown key w) = HEIGHT w"
  by (simp_all add: keydown_def)

lemma mousedown_viewport [simp]:
  "WIDTH (mousedown clientX clientY rectLeft rectTop w) = WIDTH w"
  "HEIGHT (mousedown clientX clientY rectLeft rectTop w) = HEIGHT w"
  by (simp_all add: mousedown_def Let_def split: prod.splits)

lemma wf_world_mousedown:
  assumes "wf_world w"
  shows "wf_world (mousedown clientX clientY rectLeft rectTop w)"
proof -
  from assms have u: "unit_draws (rng w)" by (simp add: wf_world_def)
  from unit_draws_shd [OF u] u assms show ?thesis
    by (simp add: wf_world_def mousedown_bodies mousedown_rng unit_draws_sdrop
        wf_body_def MASS_MIN_def) (simp add: mousedown_def Let_def split: prod.splits)
qed

subsection \<open>The frame callback\<close>

lemma frameTime_first: "lastTimestamp w = 0 \<Longrightarrow> fst (frameTime timestamp w) = 0"
  by (simp add: frameTime_def)

lemma frameTime_dt:
  "lastTimestamp w \<noteq> 0 \<Longrightarrow> fst (frameTime timestamp w) = (timestamp - lastTimestamp w) / 1000"
  by (simp add: frameTime_def)

lemma frameTime_nonneg: "lastTimestamp w \<le> timestamp \<Longrightarrow> 0 \<le> fst (frameTime timestamp w)"
  by (simp add: frameTime_def)

lemma frameTime_world:
  "snd (frameTime timestamp w) = w\<lparr>lastTimestamp := timestamp\<rparr>"
  by (simp add: frameTime_def Let_def)

lemma wf_world_frameTime: "wf_world w \<Longrightarrow> wf_world (snd (frameTime timestamp w))"
  by (simp add: frameTime_world wf_world_def)

lemma spawnPhase_disabled: "\<not> SPAWN_ENABLED w \<Longrightarrow> spawnPhase dt w = w"
  by (simp add: spawnPhase_def)

lemma spawnPhase_wait:
  "SPAWN_ENABLED w \<Longrightarrow> spawnTimer w + dt < SPAWN_INTERVAL \<Longrightarrow>
   spawnPhase dt w = w\<lparr>spawnTimer := spawnTimer w + dt\<rparr>"
  by (simp add: spawnPhase_def)

lemma spawnPhase_spawn:
  assumes "SPAWN_ENABLED w" "SPAWN_INTERVAL \<le> spawnTimer w + dt"
  shows "bodies (spawnPhase dt w) =
      bodies w @ [fst (run_state (spawnStar (WIDTH w) (HEIGHT w) (RANDOM_VELOCITY_ENABLED w)
                          (RANDOM_VELOCITY_STRENGTH w)) (rng w))]"
    and "rng (spawnPhase dt w) =
      snd (run_state (spawnStar (WIDTH w) (HEIGHT w) (RANDOM_VELOCITY_ENABLED w)
                          (RANDOM_VELOCITY_STRENGTH w)) (rng w))"
    and "spawnTimer (spawnPhase dt w) = 0"
  using assms by (simp_all add: spawnPhase_def split: prod.splits)

lemma spawnPhase_frame [simp]:
  "G (spawnPhase dt w) = G w"
  "COLLISION_ENABLED (spawnPhase dt w) = COLLISION_ENABLED w"
  "SPAWN_ENABLED (spawnPhase dt w) = SPAWN_ENABLED w"
  "RANDOM_VELOCITY_ENABLED (spawnPhase dt w) = RANDOM_VELOCITY_ENABLED w"
  "RANDOM_VELOCITY_STRENGTH (spawnPhase dt w) = RANDOM_VELOCITY_STRENGTH w"
  "WIDTH (spawnPhase dt w) = WIDTH w"
  "HEIGHT (spawnPhase dt w) = HEIGHT w"
  "lastTimestamp (spawnPhase dt w) = lastTimestamp w"
  by (simp_all add: spawnPhase_def Let_def split: prod.splits)

lemma spawnPhase_timer:
  "spawnTimer w < SPAWN_INTERVAL \<Longrightarrow> spawnTimer (spawnPhase dt w) < SPAWN_INTERVAL"
  by (simp add: spawnPhase_def Let_def SPAWN_INTERVAL_def split: prod.splits)

lemma length_spawnPhase:
  "length (bodies (spawnPhase dt w)) =
     length (bodies w) + (if SPAWN_ENABLED w \<and> SPAWN_INTERVAL \<le> spawnTimer w + dt then 1 else 0)"
  by (simp add: spawnPhase_def Let_def split: prod.splits)

lemma wf_world_spawnPhase:
  assumes "wf_world w"
  shows "wf_world (spawnPhase dt w)"
proof (cases "SPAWN_ENABLED w \<and> SPAWN_INTERVAL \<le> spawnTimer w + dt")
  case True
  from assms have u: "unit_draws (rng w)" by (simp add: wf_world_def)
  from True assms u spawnStar_masse(1) [OF u] show ?thesis
    by (simp add: wf_world_def spawnPhase_spawn wf_body_spawnStar unit_draws_spawnStar
        MASS_MIN_def SPAWN_INTERVAL_def)
next
  case False
  with assms show ?thesis
    by (cases "SPAWN_ENABLED w") (simp_all add: spawnPhase_disabled spawnPhase_wait wf_world_def)
qed

lemma frameSpawns_length:
  "frameSpawns timestamp w \<longleftrightarrow>
     length (bodies (spawnPhase (fst (frameTime timestamp w)) (snd (frameTime timestamp w))))
       = length (bodies w) + 1"
  by (simp add: frameSpawns_def length_spawnPhase case_prod_beta frameTime_world)

lemma loop_spawnTimer:
  "spawnTimer (loop timestamp w) =
     spawnTimer (spawnPhase (fst (frameTime timestamp w)) (snd (frameTime timestamp w)))"
  by (simp add: loop_def Let_def case_prod_beta)

lemma loop_waits:
  assumes "SPAWN_ENABLED w" "lastTimestamp w \<noteq> 0" "\<not> frameSpawns timestamp w"
  shows "spawnTimer (loop timestamp w) = spawnTimer w + (timestamp - lastTimestamp w) / 1000"
  using assms
  by (simp add: loop_spawnTimer frameSpawns_def case_prod_beta frameTime_world frameTime_dt
      spawnPhase_wait)

lemma loop_bodies:
  "bodies (loop timestamp w) =
     (let dt = fst (frameTime timestamp w);
          w2 = spawnPhase dt (snd (frameTime timestamp w))
      in cullBodies (checkCollisions (moveBodies (bodies w2) (G w) dt) (COLLISION_ENABLED w))
           (WIDTH w) (HEIGHT w))"
  by (simp add: loop_def Let_def case_prod_beta frameTime_world)

lemma loop_settings [simp]:
  "G (loop timestamp w) = G w"
  "COLLISION_ENABLED (loop timestamp w) = COLLISION_ENABLED w"
  "SPAWN_ENABLED (loop timestamp w) = SPAWN_ENABLED w"
  "RANDOM_VELOCITY_ENABLED (loop timestamp w) = RANDOM_VELOCITY_ENABLED w"
  "RANDOM_VELOCITY_STRENGTH (loop timestamp w) = RANDOM_VELOCITY_STRENGTH w"
  "WIDTH (loop timestamp w) = WIDTH w"
  "HEIGHT (loop timestamp w) = HEIGHT w"
  "lastTimestamp (loop timestamp w) = timestamp"
  by (simp_all add: loop_def Let_def case_prod_beta frameTime_world)

lemma wf_world_loop:
  assumes "wf_world w"
  shows "wf_world (loop timestamp w)"
proof -
  obtain dt w1 where ft: "frameTime timestamp w = (dt, w1)"
    by (cases "frameTime timestamp w")
  with wf_world_frameTime [OF assms, of timestamp] have "wf_world w1" by simp
  then have w2: "wf_world (spawnPhase dt w1)" by (rule wf_world_spawnPhase)
  then have "wf_bodies (cullBodies (checkCollisions
      (moveBodies (bodies (spawnPhase dt w1)) (G (spawnPhase dt w1)) dt)
      (COLLISION_ENABLED (spawnPhase dt w1))) (WIDTH (spawnPhase dt w1)) (HEIGHT (spawnPhase dt w1)))"
    by (intro wf_bodies_cullBodies wf_bodies_checkCollisions wf_bodies_moveBodies)
       (simp add: wf_world_def)
  with w2 ft show ?thesis
    by (simp add: loop_def Let_def wf_world_def)
qed

lemma loop_on_screen:
  "b \<in> set (bodies (loop timestamp w)) \<Longrightarrow> \<not> isOffScreen b (WIDTH w) (HEIGHT w)"
  by (auto simp: loop_bodies Let_def dest: cullBodies_on_screen)

subsection \<open>Bounds, seeding and a reference world\<close>

lemma length_cullBodies_le: "length (cullBodies bs width height) \<le> length bs"
  by (simp add: cullBodies_def)

lemma wf_bodies_bounds:
  assumes "wf_bodies bs" "b \<in> set bs"
  shows "1 \<le> masse b" "5 \<le> radius b" "radius b = calcRadius b"
  using assms by (auto simp: wf_bodies_def MASS_MIN_def wf_body_def)

lemma seedLoop_zero_velocity:
  assumes "\<not> RANDOM_VELOCITY_ENABLED w" "\<forall>b \<in> set bs. vx b = 0 \<and> vy b = 0"
  shows "\<forall>b \<in> set (fst (seedLoop w i bs s)). vx b = 0 \<and> vy b = 0"
  using assms
proof (induction w i bs s rule: seedLoop.induct)
  case (1 w i bs s)
  show ?case
  proof (cases "i < START_BODIES_COUNT")
    case False
    with "1.prems" show ?thesis by (subst seedLoop.simps) simp
  next
    case True
    obtain b s' where run: "run_state (seedBody w) s = (b, s')"
      by (cases "run_state (seedBody w) s")
    with "1.prems"(1) have "vx b = 0 \<and> vy b = 0"
      by (auto simp: run_seedBody)
    with "1.IH" [OF True run [symmetric]] "1.prems"
    have "\<forall>b \<in> set (fst (seedLoop w (i + 1) (bs @ [b]) s')). vx b = 0 \<and> vy b = 0"
      by simp
    with True run show ?thesis by (subst seedLoop.simps) simp
  qed
qed

definition demoWorld :: "body list \<Rightarrow> real \<Rightarrow> world" where
  "demoWorld bs t =
     \<lparr>G = 2000, COLLISION_ENABLED = True, SPAWN_ENABLED = False,
      RANDOM_VELOCITY_ENABLED = False, RANDOM_VELOCITY_STRENGTH = 0,
      WIDTH = 800, HEIGHT = 600, bodies = bs, spawnTimer = 0, lastTimestamp = t,
      rng = sconst (1 / 2)\<rparr>"

lemma demoWorld_sel [simp]:
  "G (demoWorld bs t) = 2000" "COLLISION_ENABLED (demoWorld bs t)"
  "\<not> SPAWN_ENABLED (demoWorld bs t)" "\<not> RANDOM_VELOCITY_ENABLED (demoWorld bs t)"
  "RANDOM_VELOCITY_STRENGTH (demoWorld bs t) = 0"
  "WIDTH (demoWorld bs t) = 800" "HEIGHT (demoWorld bs t) = 600"
  "bodies (demoWorld bs t) = bs" "spawnTimer (demoWorld bs t) = 0"
  "lastTimestamp (demoWorld bs t) = t" "rng (demoWorld bs t) = sconst (1 / 2)"
  by (simp_all add: demoWorld_def)

lemma wf_world_demoWorld: "wf_bodies bs \<Longrightarrow> wf_world (demoWorld bs t)"
  by (simp add: wf_world_def SPAWN_INTERVAL_def)

lemma loop_demoWorld_first:
  "bodies (loop t (demoWorld bs 0)) = cullBodies (checkCollisions bs True) 800 600"
  by (simp add: loop_bodies frameTime_def spawnPhase_disabled Let_def)

lemma length_bodies_loop_le:
  "length (bodies (loop timestamp w)) \<le> length (bodies w) + 1"
proof -
  let ?dt = "fst (frameTime timestamp w)"
  let ?w2 = "spawnPhase ?dt (snd (frameTime timestamp w))"
  have "length (bodies (loop timestamp w)) \<le> length (moveBodies (bodies ?w2) (G w) ?dt)"
    unfolding loop_bodies Let_def
    by (rule order_trans [OF length_cullBodies_le length_checkCollisions_le])
  also have "\<dots> \<le> length (bodies w) + 1"
    by (simp add: length_spawnPhase frameTime_world)
  finally show ?thesis .
qed

subsection \<open>The mass budget of a frame\<close>

text \<open>
  Motion and merging keep the total mass, the cull can only lower it, and the spawn
  phase adds one body of mass below \<^verbatim>\<open>MASS_MAX\<close> in the frames that spawn.
\<close>

lemma total_mass_cullBodies_le:
  "wf_bodies bs \<Longrightarrow> total_mass (cullBodies bs width height) \<le> total_mass bs"
  unfolding cullBodies_def
  by (rule total_mass_filter_le) (auto dest: wf_bodies_bounds(1))

lemma total_mass_spawnPhase:
  assumes "unit_draws (rng w)"
  shows "total_mass (bodies (spawnPhase dt w)) \<le> total_mass (bodies w) +
     (if SPAWN_ENABLED w \<and> SPAWN_INTERVAL \<le> spawnTimer w + dt then MASS_MAX else 0)"
proof (cases "SPAWN_ENABLED w \<and> SPAWN_INTERVAL \<le> spawnTimer w + dt")
  case True
  with spawnStar_masse(2) [OF assms, of "WIDTH w" "HEIGHT w" "RANDOM_VELOCITY_ENABLED w"
      "RANDOM_VELOCITY_STRENGTH w"]
  show ?thesis by (simp add: spawnPhase_spawn MASS_MAX_def)
next
  case False
  then show ?thesis
    by (cases "SPAWN_ENABLED w") (simp_all add: spawnPhase_disabled spawnPhase_wait)
qed

lemma frameSpawns_enabled: "frameSpawns timestamp w \<Longrightarrow> SPAWN_ENABLED w"
  by (simp add: frameSpawns_def case_prod_beta frameTime_world)

lemma total_mass_loop:
  assumes "wf_world w"
  shows "total_mass (bodies (loop timestamp w)) \<le> total_mass (bodies w) +
     (if frameSpawns timestamp w then MASS_MAX else 0)"
proof -
  let ?dt = "fst (frameTime timestamp w)"
  let ?w1 = "snd (frameTime timestamp w)"
  let ?bs = "checkCollisions (moveBodies (bodies (spawnPhase ?dt ?w1)) (G w) ?dt)
      (COLLISION_ENABLED w)"
  from assms have "wf_world (spawnPhase ?dt ?w1)"
    by (intro wf_world_spawnPhase wf_world_frameTime)
  then have "wf_bodies ?bs"
    by (intro wf_bodies_checkCollisions wf_bodies_moveBodies) (simp add: wf_world_def)
  then have "total_mass (bodies (loop timestamp w)) \<le> total_mass ?bs"
    unfolding loop_bodies Let_def by (rule total_mass_cullBodies_le)
  also have "\<dots> = total_mass (bodies (spawnPhase ?dt ?w1))"
    by (rule checkCollisions_transfer) (simp, simp add: resolved_total_mass del: total_mass_append)
  also from assms have "\<dots> \<le> total_mass (bodies w) +
      (if frameSpawns timestamp w then MASS_MAX else 0)"
    using total_mass_spawnPhase [of ?w1 ?dt]
    by (simp add: frameSpawns_def case_prod_beta frameTime_world wf_world_def)
  finally show ?thesis .
qed

section \<open>Properties\<close>

text \<open>
  C6. One frame of the main loop preserves the well-formedness of the world and leaves
  the settings (G, the three flags, the strength, the viewport) unchanged; the time
  stamp of the frame becomes the last time stamp.
\<close>

theorem frame_keeps_invariant:
  assumes "wf_world w"
  shows "wf_world (loop timestamp w) \<and>
     G (loop timestamp w) = G w \<and>
     COLLISION_ENABLED (loop timestamp w) = COLLISION_ENABLED w \<and>
     SPAWN_ENABLED (loop timestamp w) = SPAWN_ENABLED w \<and>
     RANDOM_VELOCITY_ENABLED (loop timestamp w) = RANDOM_VELOCITY_ENABLED w \<and>
     RANDOM_VELOCITY_STRENGTH (loop timestamp w) = RANDOM_VELOCITY_STRENGTH w \<and>
     WIDTH (loop timestamp w) = WIDTH w \<and> HEIGHT (loop timestamp w) = HEIGHT w \<and>
     lastTimestamp (loop timestamp w) = timestamp"
  using assms by (simp add: wf_world_loop)

theorem frame_keeps_invariant_witness:
  "wf_world (demoWorld [Body 400 300 1 0 0] 0) \<and>
   wf_world (loop 16 (demoWorld [Body 400 300 1 0 0] 0)) \<and>
   G (loop 16 (demoWorld [Body 400 300 1 0 0] 0)) = 2000 \<and>
   lastTimestamp (loop 16 (demoWorld [Body 400 300 1 0 0] 0)) = 16"
proof -
  have "wf_world (demoWorld [Body 400 300 1 0 0] 0)"
    by (simp add: wf_world_demoWorld wf_body_Body MASS_MIN_def)
  from this frame_keeps_invariant [OF this, of 16] show ?thesis by simp
qed

text \<open>
  C10. After a frame no body of the world is off-screen with respect to the viewport of
  that frame.
\<close>

theorem frame_culls_off_screen:
  assumes "b \<in> set (bodies (loop timestamp w))"
  shows "\<not> isOffScreen b (WIDTH w) (HEIGHT w)"
  using assms by (rule loop_on_screen)

theorem frame_culls_off_screen_witness:
  "bodies (loop 16 (demoWorld [Body 400 300 1 0 0, Body (- 50) 300 1 0 0] 0))
     = [Body 400 300 1 0 0] \<and>
   isOffScreen (Body (- 50) 300 1 0 0) 800 600 \<and> \<not> isOffScreen (Body 400 300 1 0 0) 800 600"
proof -
  have "bodies (loop 16 (demoWorld [Body 400 300 1 0 0, Body (- 50) 300 1 0 0] 0))
     = [Body 400 300 1 0 0]"
    by (simp add: loop_demoWorld_first cullBodies_def isOffScreen_def checkCollisions_def
        collideOuter.simps collideInner.simps collides_def hypot_def)
  with frame_culls_off_screen
    [of "Body 400 300 1 0 0" 16 "demoWorld [Body 400 300 1 0 0, Body (- 50) 300 1 0 0] 0"]
  show ?thesis by (simp add: isOffScreen_def)
qed

text \<open>
  C26. The spawn phase of a frame appends exactly one body when spawning is enabled and
  the accumulated timer reaches the spawn interval, and none otherwise, however far the
  timer overshoots; after a spawn the timer is zero.
\<close>

theorem one_spawn_per_frame:
  "length (bodies (spawnPhase dt w)) =
     length (bodies w) + (if SPAWN_ENABLED w \<and> SPAWN_INTERVAL \<le> spawnTimer w + dt then 1 else 0)
   \<and> (SPAWN_ENABLED w \<and> SPAWN_INTERVAL \<le> spawnTimer w + dt \<longrightarrow> spawnTimer (spawnPhase dt w) = 0)"
  by (simp add: length_spawnPhase spawnPhase_spawn)

theorem one_spawn_per_frame_witness:
  "length (bodies (spawnPhase 10 ((demoWorld [] 0)\<lparr>SPAWN_ENABLED := True\<rparr>))) = 1 \<and>
   spawnTimer (spawnPhase 10 ((demoWorld [] 0)\<lparr>SPAWN_ENABLED := True\<rparr>)) = 0"
  using one_spawn_per_frame [of 10 "(demoWorld [] 0)\<lparr>SPAWN_ENABLED := True\<rparr>"]
  by (simp add: SPAWN_INTERVAL_def)

text \<open>
  C28. reset restores every setting to its default (G = 2000, the three flags on,
  strength 3000), zeroes the spawn timer, replaces the bodies by START_BODIES_COUNT
  fresh ones and keeps the viewport.
\<close>

theorem reset_restores_defaults:
  "G (reset w) = 2000 \<and> COLLISION_ENABLED (reset w) \<and> SPAWN_ENABLED (reset w) \<and>
   RANDOM_VELOCITY_ENABLED (reset w) \<and> RANDOM_VELOCITY_STRENGTH (reset w) = 3000 \<and>
   spawnTimer (reset w) = 0 \<and> length (bodies (reset w)) = START_BODIES_COUNT \<and>
   WIDTH (reset w) = WIDTH w \<and> HEIGHT (reset w) = HEIGHT w"
  by (simp add: length_bodies_reset)

theorem reset_restores_defaults_witness:
  "bodies (reset (demoWorld [Body 1 2 3 4 5, Body 5 4 3 2 1] 0)) = [Body 400 300 (3 / 2) 0 0] \<and>
   G (reset ((demoWorld [] 0)\<lparr>G := 5\<rparr>)) = 2000"
  using reset_restores_defaults [of "(demoWorld [] 0)\<lparr>G := 5\<rparr>"]
  by (simp add: reset_bodies seedLoop.simps START_BODIES_COUNT_def run_seedBody)

text \<open>
  C39. reset seeds the new bodies before it restores the defaults: when random
  velocities were disabled before the reset, the seeded bodies are at rest although the
  setting is enabled afterwards.
\<close>

theorem reset_uses_previous_velocity_setting:
  assumes "\<not> RANDOM_VELOCITY_ENABLED w"
  shows "RANDOM_VELOCITY_ENABLED (reset w) \<and> (\<forall>b \<in> set (bodies (reset w)). vx b = 0 \<and> vy b = 0)"
  using seedLoop_zero_velocity [OF assms, of "[]" 0 "rng w"] by (simp add: reset_bodies)

theorem reset_uses_previous_velocity_setting_witness:
  "\<not> RANDOM_VELOCITY_ENABLED (demoWorld [] 0) \<and>
   RANDOM_VELOCITY_ENABLED (reset (demoWorld [] 0)) \<and>
   bodies (reset (demoWorld [] 0)) = [Body 400 300 (3 / 2) 0 0]"
  using reset_uses_previous_velocity_setting [of "demoWorld [] 0"]
  by (simp add: reset_bodies seedLoop.simps START_BODIES_COUNT_def run_seedBody)

text \<open>
  C40. The cull tests the positions after the motion of the frame, not those at its
  start: in a frame that does not spawn and in which no two bodies overlap after the
  motion, the world keeps exactly the moved bodies that are on screen, wherever they
  were when the frame began. The witness is a body that is off-screen when the frame
  starts, moves back into the viewport and is kept.
\<close>

theorem cull_after_motion:
  assumes "\<not> SPAWN_ENABLED w" and "lastTimestamp w \<noteq> 0"
    and "apart (moveBodies (bodies w) (G w) ((timestamp - lastTimestamp w) / 1000))"
  shows "bodies (loop timestamp w) =
     filter (\<lambda>b. \<not> isOffScreen b (WIDTH w) (HEIGHT w))
       (moveBodies (bodies w) (G w) ((timestamp - lastTimestamp w) / 1000))"
  using assms
  by (simp add: loop_bodies Let_def frameTime_dt frameTime_world spawnPhase_disabled
      checkCollisions_cases resolveSpec_apart cullBodies_def)

theorem cull_after_motion_witness:
  "isOffScreen (Body (- 6) 300 1 1000 0) 800 600 \<and>
   apart (moveBodies [Body (- 6) 300 1 1000 0] 2000 ((1016 - 1000) / 1000)) \<and>
   bodies (loop 1016 (demoWorld [Body (- 6) 300 1 1000 0] 1000))
     = [(Body (- 6) 300 1 1000 0)\<lparr>x := 10\<rparr>]"
proof -
  let ?b = "Body (- 6) 300 1 1000 0"
  have r: "radius ?b = 5"
    by simp
  have off: "isOffScreen ?b 800 600"
    by (simp add: isOffScreen_def r)
  have mv: "moveBodies [?b] 2000 ((1016 - 1000) / 1000) = [?b\<lparr>x := 10\<rparr>]"
    by (simp add: moveBodies_single updatePosition_def Body_def)
  have on: "\<not> isOffScreen (?b\<lparr>x := 10\<rparr>) 800 600"
    using r by (simp add: isOffScreen_def)
  have ap: "apart (moveBodies [?b] 2000 ((1016 - 1000) / 1000))"
    unfolding mv by (simp add: apart_def)
  from cull_after_motion [of "demoWorld [?b] 1000" 1016] ap
  have "bodies (loop 1016 (demoWorld [?b] 1000)) = [?b\<lparr>x := 10\<rparr>]"
    using on unfolding demoWorld_sel mv by simp
  with off ap show ?thesis by simp
qed

end
