(* ===== verification/Number_Format.thy ===== *)
theory Number_Format
  imports Complex_Main
begin

text \<open>
  The conversions from numbers to text that the page relies on, as the language
  defines them: the decimal representation of an integer (the string a number is
  converted to when it is inserted into a template or passed to \<^verbatim>\<open>fillText\<close>),
  \<^verbatim>\<open>Number.prototype.toFixed\<close> with zero fraction digits, and \<^verbatim>\<open>String.prototype.trim\<close>.
  A character of a string is one \<^typ>\<open>char\<close>; every character the page writes has a code
  below 256.

  The language prints an integer in positional notation only below \<open>10 ^ 21\<close> and
  switches to exponent notation from there on, so \<open>showInt\<close> and \<open>toFixed0\<close>, which
  print positionally at every magnitude, are the text of the language for numbers of
  magnitude below \<open>10 ^ 21\<close> only. The lemmas of this theory are about the two
  functions as defined; a statement about the text of the page has to assume the bound.

  The lemmas give the round trips between the printing functions and the reading
  functions \<open>readNat\<close> and \<open>readInt\<close>, injectivity of printing, the characters that
  occur in printed numbers, and the effect of \<open>trim\<close> and \<open>unlines\<close>.
\<close>

abbreviation nl :: char where
  "nl \<equiv> CHR 0x0A"

definition digit_char :: "nat \<Rightarrow> char" where
  "digit_char d = ''0123456789'' ! (d mod 10)"

definition digit_val :: "char \<Rightarrow> nat" where
  "digit_val c = of_char c - 48"

definition is_digit :: "char \<Rightarrow> bool" where
  "is_digit c \<longleftrightarrow> c \<in> set ''0123456789''"

function digits :: "nat \<Rightarrow> string" where
  "digits n = (if n < 10 then [digit_char n] else digits (n div 10) @ [digit_char (n mod 10)])"
  by pat_completeness auto
termination
  by (relation "measure id") auto

definition readNat :: "string \<Rightarrow> nat" where
  "readNat s = foldl (\<lambda>acc c. 10 * acc + digit_val c) 0 s"

definition showInt :: "int \<Rightarrow> string" where
  "showInt k = (if k < 0 then CHR ''-'' # digits (nat (- k)) else digits (nat k))"

definition readInt :: "string \<Rightarrow> int" where
  "readInt s = (case s of c # r \<Rightarrow> if c = CHR ''-'' then - int (readNat r) else int (readNat s)
                | [] \<Rightarrow> 0)"

definition toFixed0 :: "real \<Rightarrow> string" where
  "toFixed0 v = (if v < 0 then CHR ''-'' # digits (nat \<lfloor>- v + 1 / 2\<rfloor>)
                 else digits (nat \<lfloor>v + 1 / 2\<rfloor>))"

definition whitespace :: "char \<Rightarrow> bool" where
  "whitespace c \<longleftrightarrow> c \<in> set [CHR 0x09, CHR 0x0A, CHR 0x0B, CHR 0x0C, CHR 0x0D, CHR 0x20, CHR 0xA0]"

definition trim :: "string \<Rightarrow> string" where
  "trim s = rev (dropWhile whitespace (rev (dropWhile whitespace s)))"

definition unlines :: "string list \<Rightarrow> string" where
  "unlines ls = concat (map (\<lambda>l. l @ [nl]) ls)"

fun lines_of :: "string \<Rightarrow> string list" where
  "lines_of [] = []"
| "lines_of (c # s) =
     (if c = nl then [] # lines_of s
      else (case lines_of s of [] \<Rightarrow> [[c]] | l # ls \<Rightarrow> (c # l) # ls))"

declare digits.simps [simp del]

subsection \<open>Digits\<close>

lemma digit_cases:
  assumes "d < (10 :: nat)"
  obtains "d = 0" | "d = 1" | "d = 2" | "d = 3" | "d = 4" | "d = 5" | "d = 6" | "d = 7"
    | "d = 8" | "d = 9"
  using assms by (auto simp: numeral_eq_Suc less_Suc_eq)

lemma digit_val_digit_char [simp]: "d < 10 \<Longrightarrow> digit_val (digit_char d) = d"
  by (erule digit_cases) (simp_all add: digit_val_def digit_char_def)

lemma is_digit_digit_char [simp]: "is_digit (digit_char d)"
proof -
  have "d mod 10 < 10" by simp
  then show ?thesis
    by (rule digit_cases) (simp_all add: is_digit_def digit_char_def)
qed

lemma is_digit_simps [simp]:
  "\<not> is_digit nl" "\<not> is_digit CHR ''-''" "\<not> whitespace (digit_char d)"
proof -
  show "\<not> is_digit nl" "\<not> is_digit CHR ''-''"
    by (simp_all add: is_digit_def)
  have "d mod 10 < 10" by simp
  then show "\<not> whitespace (digit_char d)"
    by (rule digit_cases) (simp_all add: whitespace_def digit_char_def)
qed

lemma digits_ne [simp]: "digits n \<noteq> []"
  by (subst digits.simps) simp

lemma is_digit_digits: "c \<in> set (digits n) \<Longrightarrow> is_digit c"
  by (induction n rule: digits.induct) (subst (asm) digits.simps, auto split: if_splits)

lemma nl_notin_digits [simp]: "nl \<notin> set (digits n)"
  by (auto dest: is_digit_digits)

lemma minus_notin_digits [simp]: "CHR ''-'' \<notin> set (digits n)"
  by (auto dest: is_digit_digits)

lemma hd_digits_is_digit: "is_digit (hd (digits n))"
  by (rule is_digit_digits [of _ n]) simp

lemma readNat_snoc [simp]: "readNat (s @ [c]) = 10 * readNat s + digit_val c"
  by (simp add: readNat_def)

lemma readNat_single [simp]: "readNat [c] = digit_val c"
  by (simp add: readNat_def)

lemma readNat_digits [simp]: "readNat (digits n) = n"
  by (induction n rule: digits.induct) (subst digits.simps, simp)

lemma digits_inj: "digits m = digits n \<Longrightarrow> m = n"
  by (drule arg_cong [where f = readNat]) simp

lemma digits_small: "n < 10 \<Longrightarrow> digits n = [digit_char n]"
  by (subst digits.simps) simp

subsection \<open>Integers and rounding\<close>

lemma readInt_showInt [simp]: "readInt (showInt k) = k"
proof (cases "k < 0")
  case True
  then show ?thesis by (simp add: readInt_def showInt_def)
next
  case False
  obtain c r where d: "digits (nat k) = c # r"
    by (cases "digits (nat k)") simp_all
  with hd_digits_is_digit [of "nat k"] have "c \<noteq> CHR ''-''"
    by auto
  with False d readNat_digits [of "nat k"] show ?thesis
    by (simp add: readInt_def showInt_def)
qed

lemma showInt_inj: "showInt j = showInt k \<Longrightarrow> j = k"
  by (drule arg_cong [where f = readInt]) simp

lemma showInt_nonneg: "0 \<le> k \<Longrightarrow> showInt k = digits (nat k)"
  by (simp add: showInt_def)

lemma toFixed0_nonneg: "0 \<le> v \<Longrightarrow> toFixed0 v = digits (nat \<lfloor>v + 1 / 2\<rfloor>)"
  by (simp add: toFixed0_def)

lemma readNat_toFixed0:
  assumes "0 \<le> v"
  shows "readNat (toFixed0 v) = nat \<lfloor>v + 1 / 2\<rfloor>"
    and "\<bar>real (readNat (toFixed0 v)) - v\<bar> \<le> 1 / 2"
proof -
  show r: "readNat (toFixed0 v) = nat \<lfloor>v + 1 / 2\<rfloor>"
    using assms by (simp add: toFixed0_nonneg)
  from assms have "real (nat \<lfloor>v + 1 / 2\<rfloor>) = of_int \<lfloor>v + 1 / 2\<rfloor>"
    by simp
  then show "\<bar>real (readNat (toFixed0 v)) - v\<bar> \<le> 1 / 2"
    unfolding r by linarith
qed

lemma nl_notin_toFixed0 [simp]: "nl \<notin> set (toFixed0 v)"
  by (simp add: toFixed0_def)

lemma nl_notin_showInt [simp]: "nl \<notin> set (showInt k)"
  by (simp add: showInt_def)

subsection \<open>Trimming and lines\<close>

lemma trim_core:
  assumes "\<forall>c \<in> set pre. whitespace c" "\<forall>c \<in> set post. whitespace c"
    and "s \<noteq> []" "\<not> whitespace (hd s)" "\<not> whitespace (last s)"
  shows "trim (pre @ s @ post) = s"
proof -
  from assms(1,3,4) have "dropWhile whitespace (pre @ s @ post) = s @ post"
    by (cases s) (simp_all add: dropWhile_append3)
  moreover from assms(2,3,5) have "dropWhile whitespace (rev post @ rev s) = rev s"
    by (cases s rule: rev_cases) (simp_all add: dropWhile_append3)
  ultimately show ?thesis
    by (simp add: trim_def)
qed

lemma unlines_simps [simp]:
  "unlines [] = []"
  "unlines (l # ls) = l @ nl # unlines ls"
  by (simp_all add: unlines_def)

lemma lines_of_line:
  "nl \<notin> set l \<Longrightarrow> lines_of (l @ nl # s) = l # lines_of s"
  by (induction l) auto

lemma lines_of_unlines:
  "\<forall>l \<in> set ls. nl \<notin> set l \<Longrightarrow> lines_of (unlines ls) = ls"
  by (induction ls) (simp_all add: lines_of_line)

end
