(* ===== verification/Render.thy ===== *)
theory Render
  imports World Number_Format
begin

text \<open>
  The output of the page in \<^verbatim>\<open>src/scipt.js\<close>: \<^verbatim>\<open>Body.draw\<close> (lines 75--86), the
  painting of a frame (lines 296--300) and the overlay text (lines 302--319), with the
  colours of lines 25--26.

  The canvas is write-only for the script, so a call on the drawing context is an
  element of the datatype \<open>canvas_op\<close> and a painting function returns the list of the
  calls it makes, in order. \<open>draw\<close> is the list of calls of \<^verbatim>\<open>Body.draw\<close>, \<open>paint\<close> the
  calls of one frame. The template literal of the overlay is the list \<open>overlayLines\<close> of
  its lines with the substitutions filled in; \<open>overlayText\<close> joins them as the template
  does (a line break before the first line and after the last, then four blanks) and
  applies \<^verbatim>\<open>trim\<close>.

  \<open>arcs\<close> and \<open>labels\<close> observe the circles and the texts of a list of calls, and
  \<open>readOverlay\<close> reads the numbers and flags back from an overlay text. The lemmas show
  that a painting shows exactly the bodies of the world, in order, each with the integer
  part of its mass as label, and that the overlay text determines the number of bodies,
  the three flags and the rounded values of G and of the random-velocity strength.

  \<open>toFixed0\<close> and \<open>showInt\<close> print positionally at every magnitude, the language only
  below \<open>10 ^ 21\<close>. \<open>overlayLines\<close> and \<open>draw\<close> are therefore the text of the page for
  worlds whose G, strength and masses are below that bound, and \<open>overlay_read_back\<close>
  carries the bound as a hypothesis: G has no upper bound in the program
  (\<open>G_leaves_positional_range\<close> in theory \<open>Machine\<close>).
\<close>

definition BG_COLOR :: string where
  "BG_COLOR = ''rgb(10, 10, 30)''"

definition TEXT_COLOR :: string where
  "TEXT_COLOR = ''white''"

datatype canvas_op =
    FillStyle string
  | FillRect real real real real
  | BeginPath
  | Arc real real real real real
  | Fill
  | Font string
  | TextAlign string
  | TextBaseline string
  | FillText string real real

definition draw :: "body \<Rightarrow> canvas_op list" where
  "draw this =
     [FillStyle ''rgb(150, 180, 255)'',
      BeginPath,
      Arc (x this) (y this) (radius this) 0 (pi * 2),
      Fill,
      FillStyle TEXT_COLOR,
      Font ''16px Arial'',
      TextAlign ''center'',
      TextBaseline ''middle'',
      FillText (showInt \<lfloor>masse this\<rfloor>) (x this) (y this)]"

definition paint :: "world \<Rightarrow> canvas_op list" where
  "paint w =
     [FillStyle BG_COLOR, FillRect 0 0 (WIDTH w) (HEIGHT w)] @ concat (map draw (bodies w))"

definition oe :: char where
  "oe = CHR 0xF6"

definition ae :: char where
  "ae = CHR 0xE4"

definition onOff :: "bool \<Rightarrow> string" where
  "onOff b = (if b then ''AN'' else ''AUS'')"

definition overlayLines :: "world \<Rightarrow> string list" where
  "overlayLines w =
     [''Anzahl K'' @ [oe] @ ''rper: '' @ digits (length (bodies w)),
      ''Gravitationskonstante (G): '' @ toFixed0 (G w),
      ''Kollisionen: '' @ onOff (COLLISION_ENABLED w),
      ''Spawn: '' @ onOff (SPAWN_ENABLED w),
      ''Random Velocity: '' @ onOff (RANDOM_VELOCITY_ENABLED w),
      ''Random Velocity St'' @ [ae] @ ''rke: '' @ toFixed0 (RANDOM_VELOCITY_STRENGTH w),
      '''',
      ''Tasten:'',
      ''- Pfeil Hoch/Runter: G erh'' @ [oe] @ ''hen/verringern'',
      ''- C: Kollision ein/aus'',
      ''- S: Spawn ein/aus'',
      ''- V: Random Velocity ein/aus'',
      ''- Pfeil Rechts/Links: Random Velocity St'' @ [ae] @ ''rke '' @ [ae] @ ''ndern'',
      ''- R: Reset'',
      ''- Klick: Neuer K'' @ [oe] @ ''rper an Mausposition'']"

definition overlayText :: "world \<Rightarrow> string" where
  "overlayText w = trim (nl # unlines (overlayLines w) @ ''    '')"

fun arcs :: "canvas_op list \<Rightarrow> (real \<times> real \<times> real) list" where
  "arcs [] = []"
| "arcs (Arc cx cy r a0 a1 # ops) = (cx, cy, r) # arcs ops"
| "arcs (_ # ops) = arcs ops"

fun labels :: "canvas_op list \<Rightarrow> string list" where
  "labels [] = []"
| "labels (FillText s tx ty # ops) = s # labels ops"
| "labels (_ # ops) = labels ops"

definition readOverlay :: "string \<Rightarrow> nat \<times> nat \<times> bool \<times> bool \<times> bool \<times> nat" where
  "readOverlay s =
     (let ls = lines_of s
      in (readNat (drop 15 (ls ! 0)), readNat (drop 27 (ls ! 1)),
          drop 13 (ls ! 2) = ''AN'', drop 7 (ls ! 3) = ''AN'', drop 17 (ls ! 4) = ''AN'',
          readNat (drop 24 (ls ! 5))))"

lemmas render_defs [sim_defs] =
  BG_COLOR_def TEXT_COLOR_def draw_def paint_def onOff_def overlayLines_def overlayText_def
  readOverlay_def

subsection \<open>Paintings\<close>

lemma arcs_append [simp]: "arcs (ops @ ops') = arcs ops @ arcs ops'"
  by (induction ops rule: arcs.induct) simp_all

lemma labels_append [simp]: "labels (ops @ ops') = labels ops @ labels ops'"
  by (induction ops rule: labels.induct) simp_all

lemma draw_observed [simp]:
  "arcs (draw b) = [(x b, y b, radius b)]"
  "labels (draw b) = [showInt \<lfloor>masse b\<rfloor>]"
  "length (draw b) = 9"
  by (simp_all add: draw_def)

lemma arcs_concat_draw: "arcs (concat (map draw bs)) = map (\<lambda>b. (x b, y b, radius b)) bs"
  by (induction bs) simp_all

lemma labels_concat_draw: "labels (concat (map draw bs)) = map (\<lambda>b. showInt \<lfloor>masse b\<rfloor>) bs"
  by (induction bs) simp_all

lemma length_concat_draw: "length (concat (map draw bs)) = 9 * length bs"
  by (induction bs) simp_all

lemma arcs_paint: "arcs (paint w) = map (\<lambda>b. (x b, y b, radius b)) (bodies w)"
  by (simp add: paint_def arcs_concat_draw)

lemma labels_paint: "labels (paint w) = map (\<lambda>b. showInt \<lfloor>masse b\<rfloor>) (bodies w)"
  by (simp add: paint_def labels_concat_draw)

lemma length_paint: "length (paint w) = 2 + 9 * length (bodies w)"
  by (simp add: paint_def length_concat_draw)

lemma paint_background:
  "take 2 (paint w) = [FillStyle BG_COLOR, FillRect 0 0 (WIDTH w) (HEIGHT w)]"
  by (simp add: paint_def)

subsection \<open>The overlay text\<close>

lemma onOff_eq_AN [simp]: "onOff b = ''AN'' \<longleftrightarrow> b"
  by (simp add: onOff_def)

lemma nl_notin_onOff [simp]: "nl \<notin> set (onOff b)"
  by (simp add: onOff_def)

lemma length_overlayLines [simp]: "length (overlayLines w) = 15"
  by (simp add: overlayLines_def)

lemma nl_notin_overlayLines: "\<forall>l \<in> set (overlayLines w). nl \<notin> set l"
  by (simp add: overlayLines_def oe_def ae_def)

lemma unlines_snoc: "unlines (ls @ [l]) = unlines ls @ l @ [nl]"
  by (induction ls) simp_all

lemma lines_of_no_nl: "l \<noteq> [] \<Longrightarrow> nl \<notin> set l \<Longrightarrow> lines_of l = [l]"
  by (induction l rule: list_nonempty_induct) auto

lemma lines_of_unlines_last:
  assumes "\<forall>l \<in> set ls. nl \<notin> set l" "l \<noteq> []" "nl \<notin> set l"
  shows "lines_of (unlines ls @ l) = ls @ [l]"
  using assms by (induction ls) (simp_all add: lines_of_no_nl lines_of_line)

lemma overlayText_lines:
  "overlayText w = unlines (butlast (overlayLines w)) @ last (overlayLines w)"
proof -
  let ?s = "unlines (butlast (overlayLines w)) @ last (overlayLines w)"
  have "nl # unlines (overlayLines w) @ ''    '' = [nl] @ ?s @ (nl # ''    '')"
    by (simp add: overlayLines_def)
  moreover have "trim ([nl] @ ?s @ (nl # ''    '')) = ?s"
    by (rule trim_core) (simp_all add: whitespace_def overlayLines_def)
  ultimately show ?thesis
    by (simp only: overlayText_def)
qed

lemma lines_of_overlayText: "lines_of (overlayText w) = overlayLines w"
proof -
  have ne: "overlayLines w \<noteq> []" "last (overlayLines w) \<noteq> []"
    by (simp_all add: overlayLines_def)
  have "lines_of (overlayText w) = butlast (overlayLines w) @ [last (overlayLines w)]"
    unfolding overlayText_lines
  proof (rule lines_of_unlines_last)
    show "\<forall>l \<in> set (butlast (overlayLines w)). nl \<notin> set l"
      using nl_notin_overlayLines [of w] by (auto dest: in_set_butlastD)
    show "nl \<notin> set (last (overlayLines w))"
      using nl_notin_overlayLines [of w] ne(1) by (auto dest: last_in_set)
  qed (rule ne)
  with ne(1) show ?thesis
    by simp
qed

lemma readOverlay_overlayText:
  "readOverlay (overlayText w) =
     (length (bodies w), readNat (toFixed0 (G w)),
      COLLISION_ENABLED w, SPAWN_ENABLED w, RANDOM_VELOCITY_ENABLED w,
      readNat (toFixed0 (RANDOM_VELOCITY_STRENGTH w)))"
  by (simp add: readOverlay_def lines_of_overlayText) (simp add: overlayLines_def)

section \<open>Properties\<close>

text \<open>
  C31. The labels of a painting read back as the integer parts of the masses: for every
  body, in the order of the body array, the text passed to fillText denotes the floor of
  its mass. (The printing function describes the language for integers of magnitude
  below 10^21, which it prints in positional notation.)
\<close>

theorem labels_read_back:
  "map readInt (labels (paint w)) = map (\<lambda>b. \<lfloor>masse b\<rfloor>) (bodies w)"
  by (simp add: labels_paint)

theorem labels_read_back_witness:
  "labels (paint (demoWorld [Body 400 300 (3 / 2) 0 0, Body 10 20 32 0 0] 0)) = [''1'', ''32''] \<and>
   map readInt (labels (paint (demoWorld [Body 400 300 (3 / 2) 0 0, Body 10 20 32 0 0] 0)))
     = [1, 32]"
proof -
  have "\<lfloor>3 / 2 :: real\<rfloor> = 1"
    by linarith
  with labels_read_back [of "demoWorld [Body 400 300 (3 / 2) 0 0, Body 10 20 32 0 0] 0"]
  show ?thesis
    by (simp add: labels_paint showInt_def digits.simps digit_char_def)
qed

text \<open>
  C30. The overlay is a faithful display while G and the random-velocity strength are
  not negative and below 10^21, the range in which toFixed prints positionally: from the
  overlay text one reads back the number of bodies, the three flags, and G and the
  strength rounded to the nearest integer.
\<close>

theorem overlay_read_back:
  assumes "0 \<le> G w" "G w < 10 ^ 21"
    and "0 \<le> RANDOM_VELOCITY_STRENGTH w" "RANDOM_VELOCITY_STRENGTH w < 10 ^ 21"
  shows "readOverlay (overlayText w) =
     (length (bodies w), nat \<lfloor>G w + 1 / 2\<rfloor>,
      COLLISION_ENABLED w, SPAWN_ENABLED w, RANDOM_VELOCITY_ENABLED w,
      nat \<lfloor>RANDOM_VELOCITY_STRENGTH w + 1 / 2\<rfloor>)"
  using assms by (simp add: readOverlay_overlayText readNat_toFixed0(1))

theorem overlay_read_back_witness:
  "readOverlay (overlayText (demoWorld [Body 400 300 1 0 0] 0))
     = (1, 2000, True, False, False, 0)"
proof -
  have "\<lfloor>2000 + 1 / 2 :: real\<rfloor> = 2000" "\<lfloor>1 / 2 :: real\<rfloor> = 0"
    by linarith+
  with overlay_read_back [of "demoWorld [Body 400 300 1 0 0] 0"] show ?thesis
    by simp
qed

end
