(* ===== verification/Machine.thy ===== *)
theory Machine
  imports World
begin

text \<open>
  The page as an event machine. The browser delivers four kinds of events to the script
  of \<^verbatim>\<open>src/scipt.js\<close>: a resize of the window (lines 46--53), a key press (lines
  208--242), a mouse click on the canvas (lines 244--251) and an animation frame (lines
  254--324). \<open>handle\<close> dispatches an event to its handler of theory \<open>World\<close>; \<open>boot\<close>
  is the state in which the script leaves the globals after its top-level code has run
  (the initialisers \<open>globals\<close> of lines 32--44, 186--187 and 254, the first call of
  \<^verbatim>\<open>resize\<close> and the first call of \<^verbatim>\<open>reset\<close>); \<open>run\<close> is \<open>runs handle\<close>, the fold of a list of events over a state, and
  \<open>reachable\<close> is the inductive set of the states reached from a start state.

  The lemmas show that \<open>wf_world\<close> holds in the start state and is preserved by every
  event, hence holds in every reachable state, that the reachable states are the
  results of runs, that every event adds at most one body, that spawning makes
  progress along runs of frames, that the total mass along a run of frames stays
  within the budget of the spawner, and which events commute with a resize.
\<close>

datatype event =
    Resize real real
  | KeyDown string
  | MouseDown real real real real
  | Frame real

fun handle :: "event \<Rightarrow> world \<Rightarrow> world" where
  "handle (Resize innerWidth innerHeight) w = resize innerWidth innerHeight w"
| "handle (KeyDown key) w = keydown key w"
| "handle (MouseDown clientX clientY rectLeft rectTop) w =
     mousedown clientX clientY rectLeft rectTop w"
| "handle (Frame timestamp) w = loop timestamp w"

definition globals :: "rng \<Rightarrow> world" where
  "globals s =
     \<lparr>G = 2000, COLLISION_ENABLED = True, SPAWN_ENABLED = True,
      RANDOM_VELOCITY_ENABLED = True, RANDOM_VELOCITY_STRENGTH = 3000,
      WIDTH = 0, HEIGHT = 0, bodies = [], spawnTimer = 0, lastTimestamp = 0, rng = s\<rparr>"

definition boot :: "real \<Rightarrow> real \<Rightarrow> rng \<Rightarrow> world" where
  "boot innerWidth innerHeight s = reset (resize innerWidth innerHeight (globals s))"

abbreviation run :: "world \<Rightarrow> event list \<Rightarrow> world" where
  "run \<equiv> runs handle"

inductive reachable :: "world \<Rightarrow> bool" where
  start: "unit_draws s \<Longrightarrow> reachable (boot innerWidth innerHeight s)"
| step: "reachable w \<Longrightarrow> reachable (handle e w)"

inductive_cases reachableE: "reachable w"

fun_cases handle_FrameE: "handle (Frame timestamp) w = w'"

lemmas machine_defs [sim_defs] = globals_def boot_def

lemma wf_world_boot: "unit_draws s \<Longrightarrow> wf_world (boot innerWidth innerHeight s)"
  by (simp add: boot_def globals_def wf_world_reset resize_def)

lemma wf_world_handle: "wf_world w \<Longrightarrow> wf_world (handle e w)"
  by (cases e)
     (simp_all add: wf_world_resize wf_world_keydown wf_world_mousedown wf_world_loop)

lemma wf_world_run: "wf_world w \<Longrightarrow> wf_world (run w es)"
  by (rule runs_invariant) (simp_all add: wf_world_handle)

lemma reachable_wf_world: "reachable w \<Longrightarrow> wf_world w"
  by (induction rule: reachable.induct) (simp_all add: wf_world_boot wf_world_handle)

lemma reachable_run: "reachable w \<Longrightarrow> reachable (run w es)"
  by (rule runs_invariant) (simp_all add: reachable.step)

lemma boot_settings [simp]:
  "G (boot innerWidth innerHeight s) = 2000"
  "COLLISION_ENABLED (boot innerWidth innerHeight s)"
  "SPAWN_ENABLED (boot innerWidth innerHeight s)"
  "RANDOM_VELOCITY_ENABLED (boot innerWidth innerHeight s)"
  "RANDOM_VELOCITY_STRENGTH (boot innerWidth innerHeight s) = 3000"
  "spawnTimer (boot innerWidth innerHeight s) = 0"
  "WIDTH (boot innerWidth innerHeight s) = innerWidth"
  "HEIGHT (boot innerWidth innerHeight s) = innerHeight"
  "lastTimestamp (boot innerWidth innerHeight s) = 0"
  by (simp_all add: boot_def globals_def resize_def)

lemma length_bodies_boot: "length (bodies (boot innerWidth innerHeight s)) = START_BODIES_COUNT"
  by (simp add: boot_def length_bodies_reset)

subsection \<open>The start state\<close>

lemma bodies_boot:
  "bodies (boot innerWidth innerHeight s) =
     [Body (shd s * 300 + (innerWidth / 2 - 150)) (shd (stl s) * 300 + (innerHeight / 2 - 150))
        (shd (stl (stl s)) + 1)
        (cos (shd (stl (stl (stl s))) * 2 * pi) * (shd (stl (stl (stl (stl s)))) * 3000))
        (sin (shd (stl (stl (stl s))) * 2 * pi) * (shd (stl (stl (stl (stl s)))) * 3000))]"
  by (simp add: boot_def globals_def reset_bodies resize_def seedLoop.simps START_BODIES_COUNT_def
      run_seedBody)

lemma length_bodies_handle: "length (bodies (handle e w)) \<le> length (bodies w) + 1"
proof (cases e)
  case (KeyDown key)
  then show ?thesis
    by (simp add: keydown_def length_bodies_reset START_BODIES_COUNT_def)
next
  case (Frame timestamp)
  with length_bodies_loop_le [of timestamp w] show ?thesis
    by simp
qed (simp_all add: resize_def mousedown_bodies)

subsection \<open>Order of events\<close>

text \<open>
  The handlers run one at a time, in the order in which the browser delivers the events.
  A resize commutes with every key but the reset key and with a click, because only
  \<^verbatim>\<open>reset\<close> and the frame callback read the viewport; a reset after a resize seeds
  the bodies around the centre of the new viewport, a reset before it around the centre
  of the old one.
\<close>

lemma Resize_KeyDown_commute:
  "key \<notin> {''r'', ''R''} \<Longrightarrow>
   run w [Resize innerWidth innerHeight, KeyDown key]
     = run w [KeyDown key, Resize innerWidth innerHeight]"
  by (simp add: keydown_def resize_def)

lemma Resize_MouseDown_commute:
  "run w [Resize innerWidth innerHeight, MouseDown clientX clientY rectLeft rectTop]
     = run w [MouseDown clientX clientY rectLeft rectTop, Resize innerWidth innerHeight]"
  by (simp add: mousedown_def resize_def Let_def split: prod.splits)

lemma Resize_reset_order:
  "bodies (run (demoWorld [] 0) [Resize 400 300, KeyDown ''r'']) = [Body 200 150 (3 / 2) 0 0] \<and>
   bodies (run (demoWorld [] 0) [KeyDown ''r'', Resize 400 300]) = [Body 400 300 (3 / 2) 0 0]"
  by (simp add: keydown_def resize_def reset_bodies seedLoop.simps START_BODIES_COUNT_def
      run_seedBody)

subsection \<open>The gravitational constant has no upper bound\<close>

text \<open>
  Every \<^verbatim>\<open>ArrowUp\<close> multiplies G by 11/10 and nothing limits it: from the start state,
  480 presses take G beyond \<open>10 ^ 21\<close>, the value from which the overlay prints it in
  exponent notation.
\<close>

lemma G_run_ArrowUp:
  "G (run w (replicate n (KeyDown ''ArrowUp''))) = G w * (11 / 10) ^ n"
  by (induction n arbitrary: w) (simp_all add: keydown_def)

lemma G_leaves_positional_range:
  "10 ^ 21 \<le> G (run (boot innerWidth innerHeight s) (replicate 480 (KeyDown ''ArrowUp'')))"
proof -
  have "(2::real) \<le> (11 / 10) ^ 8"
    by (simp add: power_divide)
  then have "(2::real) ^ 60 \<le> ((11 / 10) ^ 8) ^ 60"
    by (rule power_mono) simp
  also have "\<dots> = (11 / 10) ^ 480"
    unfolding power_mult [symmetric] by simp
  finally have "(2::real) ^ 60 \<le> (11 / 10) ^ 480" .
  moreover have "(10::real) ^ 21 \<le> 2000 * 2 ^ 60"
    by simp
  ultimately have "(10::real) ^ 21 \<le> 2000 * (11 / 10) ^ 480"
    by linarith
  moreover have "G (boot innerWidth innerHeight s) = 2000"
    by (simp add: boot_def)
  ultimately show ?thesis
    by (simp only: G_run_ArrowUp)
qed

subsection \<open>Runs of frames\<close>

lemma run_Frames_settings [simp]:
  "SPAWN_ENABLED (run w (map Frame ts)) = SPAWN_ENABLED w"
  by (induction ts arbitrary: w) simp_all

lemma wf_world_run_Frames [simp]:
  "wf_world w \<Longrightarrow> wf_world (run w (map Frame ts))"
  by (rule wf_world_run)

lemma reachable_iff_run:
  "reachable w \<longleftrightarrow> (\<exists>innerWidth innerHeight s es.
      unit_draws s \<and> w = run (boot innerWidth innerHeight s) es)"
proof
  assume "reachable w"
  then show "\<exists>innerWidth innerHeight s es. unit_draws s \<and> w = run (boot innerWidth innerHeight s) es"
  proof (induction rule: reachable.induct)
    case (start s innerWidth innerHeight)
    have "boot innerWidth innerHeight s = run (boot innerWidth innerHeight s) []" by simp
    with start show ?case by blast
  next
    case (step w e)
    then obtain iw ih s es where "unit_draws s" "w = run (boot iw ih s) es" by blast
    then have "handle e w = run (boot iw ih s) (es @ [e])" by (simp add: runs_snoc)
    with \<open>unit_draws s\<close> show ?case by blast
  qed
next
  assume "\<exists>innerWidth innerHeight s es. unit_draws s \<and> w = run (boot innerWidth innerHeight s) es"
  then show "reachable w"
    by (auto intro: reachable_run reachable.start)
qed

section \<open>Properties\<close>

text \<open>
  C5. Every state the page can reach from its start by resize, key, mouse and frame
  events is well formed: G is positive, the random-velocity strength is not negative,
  the spawn timer is below the spawn interval, the random draws stay in [0, 1), and
  every body has mass at least 1 and the radius derived from its mass, which is at least
  5.
\<close>

theorem reachable_invariant:
  assumes "reachable w"
  shows "wf_world w \<and> (\<forall>b \<in> set (bodies w). 1 \<le> masse b \<and> 5 \<le> radius b \<and> radius b = calcRadius b)"
proof -
  from assms have wf: "wf_world w"
    by (rule reachable_wf_world)
  then have "wf_bodies (bodies w)"
    by (simp add: wf_world_def)
  with wf show ?thesis
    by (auto dest: wf_bodies_bounds)
qed

theorem reachable_invariant_witness:
  "reachable (run (boot 800 600 (sconst (1 / 2))) [KeyDown ''c'', Frame 16]) \<and>
   wf_world (run (boot 800 600 (sconst (1 / 2))) [KeyDown ''c'', Frame 16])"
proof -
  have r: "reachable (run (boot 800 600 (sconst (1 / 2))) [KeyDown ''c'', Frame 16])"
    by (intro reachable_run reachable.start) simp
  from r reachable_invariant [OF r] show ?thesis by simp
qed

text \<open>
  C25. The first frame after the start has dt = 0: in a viewport of at least 300 x 300
  it neither moves, spawns, merges nor removes a body, whatever its time stamp.
\<close>

theorem first_frame_is_still:
  assumes "unit_draws s" "300 \<le> innerWidth" "300 \<le> innerHeight"
  shows "bodies (handle (Frame timestamp) (boot innerWidth innerHeight s))
     = bodies (boot innerWidth innerHeight s)"
proof -
  let ?w = "boot innerWidth innerHeight s"
  obtain b where b: "bodies ?w = [b]"
    by (simp add: bodies_boot)
  have u: "0 \<le> shd s" "shd s < 1" "0 \<le> shd (stl s)" "shd (stl s) < 1"
    using unit_draws_shd [OF assms(1)] unit_draws_shd [OF unit_draws_stl [OF assms(1)]]
    by simp_all
  from b have xy: "x b = shd s * 300 + (innerWidth / 2 - 150)"
      "y b = shd (stl s) * 300 + (innerHeight / 2 - 150)"
    by (auto simp: bodies_boot)
  have "wf_world ?w"
    using assms(1) by (rule wf_world_boot)
  with b have "5 \<le> radius b"
    by (simp add: wf_world_def wf_bodies_def wf_body_radius_ge_5)
  with xy u assms(2,3) have "\<not> isOffScreen b innerWidth innerHeight"
    by (simp add: isOffScreen_def)
  with b show ?thesis
    by (simp add: loop_bodies frameTime_def spawnPhase_wait SPAWN_INTERVAL_def Let_def
        checkCollisions_single cullBodies_def)
qed

theorem first_frame_is_still_witness:
  "bodies (handle (Frame 5000) (boot 800 600 (sconst (1 / 2)))) = [Body 400 300 (3 / 2) (- 1500) 0]"
  using first_frame_is_still [of "sconst (1 / 2)" 800 600 5000]
  by (simp add: bodies_boot)

text \<open>
  C27. Every event adds at most one body: after a run of events the number of bodies
  exceeds the initial number by at most the number of events.
\<close>

theorem events_add_at_most_one_body:
  "length (bodies (run w es)) \<le> length (bodies w) + length es"
proof (induction es arbitrary: w)
  case (Cons e es)
  from Cons [of "handle e w"] length_bodies_handle [of e w] show ?case
    by simp
qed simp

theorem events_add_at_most_one_body_witness:
  "length (bodies (run (boot 800 600 (sconst (1 / 2)))
     [MouseDown 10 10 0 0, KeyDown ''c'', MouseDown 700 500 0 0])) = 3"
  using events_add_at_most_one_body
    [of "boot 800 600 (sconst (1 / 2))" "[MouseDown 10 10 0 0, KeyDown ''c'', MouseDown 700 500 0 0]"]
  by (simp add: mousedown_bodies keydown_def bodies_boot)

text \<open>
  C13. Spawning makes progress: in a run of frames with spawning enabled, after a first
  frame has set the last time stamp and with time stamps different from 0 (the value
  the program reads as no frame yet), as soon as the spawn timer plus the time elapsed
  since the last frame reaches the spawn interval, one of the frames of the run meets
  the spawn condition, so that its spawn phase appends a body, whatever the individual
  time steps are.
\<close>

theorem spawn_progress:
  assumes "SPAWN_ENABLED w" "lastTimestamp w \<noteq> 0"
    and "\<forall>t \<in> set ts. t \<noteq> 0" "ts \<noteq> []"
    and "SPAWN_INTERVAL \<le> spawnTimer w + (last ts - lastTimestamp w) / 1000"
  shows "\<exists>ts1 t ts2. ts = ts1 @ t # ts2 \<and> frameSpawns t (run w (map Frame ts1))"
  using assms
proof (induction ts arbitrary: w)
  case Nil
  then show ?case by simp
next
  case (Cons t ts)
  show ?case
  proof (cases "frameSpawns t w")
    case True
    then have "t # ts = [] @ t # ts \<and> frameSpawns t (run w (map Frame []))"
      by simp
    then show ?thesis by blast
  next
    case False
    with Cons.prems have timer:
      "spawnTimer (loop t w) = spawnTimer w + (t - lastTimestamp w) / 1000"
      by (simp add: loop_waits)
    from False Cons.prems have "ts \<noteq> []"
      by (auto simp: frameSpawns_def case_prod_beta frameTime_world frameTime_dt)
    moreover from this Cons.prems timer
    have "SPAWN_INTERVAL \<le> spawnTimer (loop t w) + (last ts - lastTimestamp (loop t w)) / 1000"
      by (simp add: field_simps)
    ultimately obtain ts1 t' ts2
      where "ts = ts1 @ t' # ts2" "frameSpawns t' (run (loop t w) (map Frame ts1))"
      using Cons.IH [of "loop t w"] Cons.prems by auto
    then have "t # ts = (t # ts1) @ t' # ts2 \<and> frameSpawns t' (run w (map Frame (t # ts1)))"
      by simp
    then show ?thesis by blast
  qed
qed

theorem spawn_progress_witness:
  "\<exists>ts1 t ts2. [1001, 1002] = ts1 @ t # ts2 \<and>
     frameSpawns t (run ((demoWorld [] 1000)\<lparr>SPAWN_ENABLED := True\<rparr>) (map Frame ts1))"
  using spawn_progress [of "(demoWorld [] 1000)\<lparr>SPAWN_ENABLED := True\<rparr>" "[1001, 1002]"]
  by (simp add: SPAWN_INTERVAL_def)

text \<open>
  C17. The mass budget of a run of frames: in a well-formed world the total mass after
  any number of frames is at most the mass before plus MASS_MAX for every frame when
  spawning is enabled, and never exceeds the mass before when it is disabled; motion and
  merging keep the mass, the cull can only remove it.
\<close>

theorem frames_mass_budget:
  assumes "wf_world w"
  shows "total_mass (bodies (run w (map Frame ts)))
     \<le> total_mass (bodies w) + (if SPAWN_ENABLED w then MASS_MAX * real (length ts) else 0)"
  using assms
proof (induction ts arbitrary: w)
  case Nil
  show ?case by simp
next
  case (Cons t ts)
  from Cons.prems have "wf_world (loop t w)"
    by (rule wf_world_loop)
  from Cons.IH [OF this] total_mass_loop [OF Cons.prems, of t] frameSpawns_enabled [of t w]
  show ?case
    by (simp add: algebra_simps MASS_MAX_def split: if_splits)
qed

theorem frames_mass_budget_witness:
  "wf_world (demoWorld [Body 0 0 1 10 0, Body 4 0 3 0 0] 1000) \<and>
   total_mass (bodies (run (demoWorld [Body 0 0 1 10 0, Body 4 0 3 0 0] 1000)
     (map Frame [1016, 1032]))) \<le> 4"
  using frames_mass_budget [of "demoWorld [Body 0 0 1 10 0, Body 4 0 3 0 0] 1000" "[1016, 1032]"]
  by (simp add: wf_world_demoWorld wf_bodies_def wf_body_def MASS_MIN_def del: runs.simps)

end
