(* ===== verification/Page.thy ===== *)
theory Page
  imports Render Machine
begin

text \<open>
  The whole page of \<^verbatim>\<open>src/scipt.js\<close>: the simulation together with what the script
  writes to the browser. The record \<open>page\<close> holds the globals of the simulation (\<open>sim\<close>),
  the size attributes of the canvas element, the drawing calls of the latest frame
  (\<open>screen\<close>), the text content of the overlay element, the event types for which the
  script has registered a listener, and the number of animation-frame callbacks that
  are requested and not yet run.

  \<open>resizePage\<close> is the function \<^verbatim>\<open>resize\<close> with its writes to the canvas (lines 46--51);
  an assignment to the width or the height of a canvas clears it, so the screen is empty
  after a resize until the next frame paints. \<open>loopPage\<close> is the whole function
  \<^verbatim>\<open>loop\<close> (lines 256--322): the simulation step of theory \<open>World\<close>, the painting and
  the overlay of theory \<open>Render\<close>, and the request of the next frame. \<open>bootPage\<close> is
  the state after the top-level code of the script, in the order of its statements,
  started from the elements as the markup creates them: a canvas without size
  attributes, which has the default size of 300 by 150, and an empty overlay.
  \<open>addEventListener\<close> and \<open>requestAnimationFrame\<close> record what the script asks of the
  browser; \<open>dispatch\<close> is the browser's side: an event reaches a
  handler only if a listener is registered for its type, and a frame runs only if a
  callback is pending, which it consumes.

  The lemmas show that the page refines the machine of theory \<open>Machine\<close> (\<open>sim\<close> commutes
  with every event), that every reachable page is well formed (exactly one frame is
  pending, the canvas has the size of the viewport, the three listeners are registered),
  and that after a frame the screen and the overlay show the state of the simulation.
\<close>

record page =
  sim :: world
  canvasWidth :: real
  canvasHeight :: real
  screen :: "canvas_op list"
  overlay :: string
  listening :: "string list"
  pending :: nat

definition addEventListener :: "string \<Rightarrow> page \<Rightarrow> page" where
  "addEventListener type p = p\<lparr>listening := listening p @ [type]\<rparr>"

definition requestAnimationFrame :: "page \<Rightarrow> page" where
  "requestAnimationFrame p = p\<lparr>pending := pending p + 1\<rparr>"

definition resizePage :: "real \<Rightarrow> real \<Rightarrow> page \<Rightarrow> page" where
  "resizePage innerWidth innerHeight p =
     (let w = resize innerWidth innerHeight (sim p)
      in p\<lparr>sim := w, canvasWidth := WIDTH w, canvasHeight := HEIGHT w, screen := []\<rparr>)"

definition loopPage :: "real \<Rightarrow> page \<Rightarrow> page" where
  "loopPage timestamp p =
     (let w = loop timestamp (sim p)
      in requestAnimationFrame (p\<lparr>sim := w, screen := paint w, overlay := overlayText w\<rparr>))"

definition bootPage :: "real \<Rightarrow> real \<Rightarrow> rng \<Rightarrow> page" where
  "bootPage innerWidth innerHeight s =
     (let p0 = \<lparr>sim = globals s, canvasWidth = 300, canvasHeight = 150, screen = [],
                overlay = [], listening = [], pending = 0\<rparr>;
          p1 = resizePage innerWidth innerHeight (addEventListener ''resize'' p0);
          p2 = p1\<lparr>sim := reset (sim p1)\<rparr>;
          p3 = addEventListener ''mousedown'' (addEventListener ''keydown'' p2)
      in requestAnimationFrame p3)"

fun dispatch :: "event \<Rightarrow> page \<Rightarrow> page" where
  "dispatch (Resize innerWidth innerHeight) p =
     (if ''resize'' \<in> set (listening p) then resizePage innerWidth innerHeight p else p)"
| "dispatch (KeyDown key) p =
     (if ''keydown'' \<in> set (listening p) then p\<lparr>sim := keydown key (sim p)\<rparr> else p)"
| "dispatch (MouseDown clientX clientY rectLeft rectTop) p =
     (if ''mousedown'' \<in> set (listening p)
      then p\<lparr>sim := mousedown clientX clientY rectLeft rectTop (sim p)\<rparr> else p)"
| "dispatch (Frame timestamp) p =
     (if 0 < pending p then loopPage timestamp (p\<lparr>pending := pending p - 1\<rparr>) else p)"

abbreviation runPage :: "page \<Rightarrow> event list \<Rightarrow> page" where
  "runPage \<equiv> runs dispatch"

inductive reachablePage :: "page \<Rightarrow> bool" where
  start: "unit_draws s \<Longrightarrow> reachablePage (bootPage innerWidth innerHeight s)"
| step: "reachablePage p \<Longrightarrow> reachablePage (dispatch e p)"

definition wf_page :: "page \<Rightarrow> bool" where
  "wf_page p \<longleftrightarrow>
     pending p = 1 \<and> canvasWidth p = WIDTH (sim p) \<and> canvasHeight p = HEIGHT (sim p) \<and>
     ''resize'' \<in> set (listening p) \<and> ''keydown'' \<in> set (listening p) \<and>
     ''mousedown'' \<in> set (listening p)"

lemmas page_defs [sim_defs] =
  addEventListener_def requestAnimationFrame_def resizePage_def loopPage_def bootPage_def
  wf_page_def

subsection \<open>The start state\<close>

lemma bootPage_sel [simp]:
  "sim (bootPage innerWidth innerHeight s) = boot innerWidth innerHeight s"
  "canvasWidth (bootPage innerWidth innerHeight s) = innerWidth"
  "canvasHeight (bootPage innerWidth innerHeight s) = innerHeight"
  "screen (bootPage innerWidth innerHeight s) = []"
  "overlay (bootPage innerWidth innerHeight s) = []"
  "listening (bootPage innerWidth innerHeight s) = [''resize'', ''keydown'', ''mousedown'']"
  "pending (bootPage innerWidth innerHeight s) = 1"
  by (simp_all add: page_defs boot_def Let_def resize_def)

lemma wf_page_bootPage: "wf_page (bootPage innerWidth innerHeight s)"
  by (simp add: wf_page_def)

subsection \<open>Commuting diagrams\<close>

lemma sim_dispatch: "wf_page p \<Longrightarrow> sim (dispatch e p) = handle e (sim p)"
  by (cases e) (simp_all add: page_defs Let_def)

lemma wf_page_dispatch: "wf_page p \<Longrightarrow> wf_page (dispatch e p)"
  by (cases e) (simp_all add: page_defs Let_def resize_def)

lemma wf_page_runPage: "wf_page p \<Longrightarrow> wf_page (runPage p es)"
  by (rule runs_invariant) (simp_all add: wf_page_dispatch)

lemma sim_runPage: "wf_page p \<Longrightarrow> sim (runPage p es) = run (sim p) es"
  by (rule runs_simulation [where I = wf_page]) (simp_all add: wf_page_dispatch sim_dispatch)

lemma reachablePage_wf_page: "reachablePage p \<Longrightarrow> wf_page p"
  by (induction rule: reachablePage.induct) (simp_all add: wf_page_bootPage wf_page_dispatch)

lemma reachablePage_reachable: "reachablePage p \<Longrightarrow> reachable (sim p)"
proof (induction rule: reachablePage.induct)
  case (start s innerWidth innerHeight)
  then show ?case by (simp add: reachable.start)
next
  case (step p e)
  then show ?case
    by (simp add: sim_dispatch reachablePage_wf_page reachable.step)
qed

lemma reachablePage_runPage: "reachablePage p \<Longrightarrow> reachablePage (runPage p es)"
  by (rule runs_invariant) (simp_all add: reachablePage.step)

subsection \<open>What the page shows\<close>

lemma dispatch_Frame:
  assumes "wf_page p"
  shows "screen (dispatch (Frame timestamp) p) = paint (loop timestamp (sim p))"
    and "overlay (dispatch (Frame timestamp) p) = overlayText (loop timestamp (sim p))"
    and "canvasWidth (dispatch (Frame timestamp) p) = WIDTH (sim p)"
    and "canvasHeight (dispatch (Frame timestamp) p) = HEIGHT (sim p)"
  using assms by (simp_all add: page_defs Let_def)

text \<open>
  Between two frames the page is stale: a key press or a click changes the simulation
  and leaves the screen and the overlay as the last frame wrote them; a resize clears
  the screen and leaves the overlay.
\<close>

lemma dispatch_stale:
  "screen (dispatch (KeyDown key) p) = screen p"
  "screen (dispatch (MouseDown clientX clientY rectLeft rectTop) p) = screen p"
  "overlay (dispatch (KeyDown key) p) = overlay p"
  "overlay (dispatch (MouseDown clientX clientY rectLeft rectTop) p) = overlay p"
  "overlay (dispatch (Resize innerWidth innerHeight) p) = overlay p"
  by (simp_all add: page_defs Let_def)

lemma dispatch_Resize_clears:
  "wf_page p \<Longrightarrow> screen (dispatch (Resize innerWidth innerHeight) p) = []"
  by (simp add: page_defs Let_def)

subsection \<open>A reference page for examples\<close>

definition demoPage :: "body list \<Rightarrow> page" where
  "demoPage bs =
     \<lparr>sim = demoWorld bs 0, canvasWidth = 800, canvasHeight = 600, screen = [], overlay = [],
      listening = [''resize'', ''keydown'', ''mousedown''], pending = 1\<rparr>"

lemma wf_page_demoPage: "wf_page (demoPage bs)"
  by (simp add: wf_page_def demoPage_def)

lemma sim_demoPage [simp]: "sim (demoPage bs) = demoWorld bs 0"
  by (simp add: demoPage_def)

section \<open>Properties\<close>

text \<open>
  C11. The page refines the machine: painting, the overlay and the bookkeeping of
  listeners and frame requests never influence the simulation. After every list of
  events, the simulation state of the page started by the top-level script is the state
  the machine of the handlers reaches from its start state by the same events.
\<close>

theorem page_refines_machine:
  "sim (runPage (bootPage innerWidth innerHeight s) es) = run (boot innerWidth innerHeight s) es"
  using sim_runPage [OF wf_page_bootPage, of innerWidth innerHeight s es] by simp

theorem page_refines_machine_witness:
  "G (sim (runPage (bootPage 800 600 (sconst (1 / 2))) [KeyDown ''ArrowUp'', Resize 640 480]))
     = 2200 \<and>
   WIDTH (sim (runPage (bootPage 800 600 (sconst (1 / 2))) [KeyDown ''ArrowUp'', Resize 640 480]))
     = 640"
  using page_refines_machine
    [of 800 600 "sconst (1 / 2)" "[KeyDown ''ArrowUp'', Resize 640 480]"]
  by (simp add: keydown_def resize_def)

text \<open>
  C12. Every reachable page is well formed: exactly one animation-frame callback is
  pending (the loop neither stops nor runs twice per frame), the canvas has the size of
  the viewport the simulation culls against, the listeners for resize, keydown and
  mousedown are registered, and the simulation state is well formed and reachable in the
  machine of the handlers.
\<close>

theorem page_invariant:
  assumes "reachablePage p"
  shows "wf_page p \<and> wf_world (sim p) \<and> reachable (sim p)"
  using assms
  by (simp add: reachablePage_wf_page reachablePage_reachable reachable_wf_world)

theorem page_invariant_witness:
  "reachablePage (runPage (bootPage 800 600 (sconst (1 / 2))) [KeyDown ''c'', Frame 16]) \<and>
   pending (runPage (bootPage 800 600 (sconst (1 / 2))) [KeyDown ''c'', Frame 16]) = 1"
proof -
  have r: "reachablePage (runPage (bootPage 800 600 (sconst (1 / 2))) [KeyDown ''c'', Frame 16])"
    by (intro reachablePage_runPage reachablePage.start) simp
  from r page_invariant [OF r] show ?thesis
    by (simp add: wf_page_def)
qed

end
