(* ===== verification/Spec2Isabelle.thy ===== *)
theory Spec2Isabelle
  imports Page
begin

text \<open>
  \<^bold>\<open>A verification library for the 2D gravity simulation of \<^verbatim>\<open>src/scipt.js\<close>.\<close>

  \<^bold>\<open>The program.\<close> The source is one web page whose script simulates point masses
  under Newtonian gravity on a canvas. It has six parts. The class \<^verbatim>\<open>Body\<close> holds the
  position, velocity, mass and derived radius of one mass and the methods that
  accelerate, move and cull it. The force field is \<^verbatim>\<open>gravForce\<close> together with the two
  nested loops of the frame function that fill the force accumulator, and the two loops
  that apply the forces and move the bodies. The collision resolver \<^verbatim>\<open>checkCollisions\<close>
  merges overlapping bodies, each body at most once per pass. The spawner
  (\<^verbatim>\<open>randomRange\<close>, \<^verbatim>\<open>randomVelocity\<close>, \<^verbatim>\<open>spawnStar\<close>) draws new bodies from
  \<^verbatim>\<open>Math.random\<close>. The world is the set of global variables of the script (the
  settings, the viewport, the body array, the spawn timer and the last time stamp) and
  the handlers that change them: \<^verbatim>\<open>resize\<close>, \<^verbatim>\<open>reset\<close>, the \<^verbatim>\<open>keydown\<close> and
  \<^verbatim>\<open>mousedown\<close> listeners, and the frame function \<^verbatim>\<open>loop\<close>, which runs spawn, forces,
  motion, collisions and cull in this order. The rendering is \<^verbatim>\<open>Body.draw\<close> and the end
  of \<^verbatim>\<open>loop\<close>, which repaints the canvas, rewrites the overlay text and requests the
  next animation frame. The browser calls the handlers one at a time; nothing runs
  concurrently.

  \<^bold>\<open>The theories.\<close>

  \<^item> \<open>Sim_Prelude\<close>: force vectors as pairs of reals with componentwise group
    operations, \<open>hypot\<close> and \<open>magnitude\<close>, the stream of random draws with the monadic
    action \<open>random\<close>, the predicate \<open>unit_draws\<close> (every draw lies in \<open>[0, 1)\<close>), the
    collections \<open>sim_defs\<close> and \<open>wf_simps\<close>, the shared lemmas on sums of vectors, and
    the runs \<open>runs\<close> of a deterministic machine over a list of events with the two
    lemmas every machine of the development uses (\<open>runs_invariant\<close>, \<open>runs_simulation\<close>).
  \<^item> \<open>Body\<close> (class \<^verbatim>\<open>Body\<close>, lines 61--108): the record \<open>body\<close>, the constructor
    \<open>Body\<close>, \<open>calcRadius\<close>, \<open>updatePosition\<close>, \<open>applyForce\<close>, \<open>isOffScreen\<close>; the
    invariant \<open>wf_body\<close>; \<open>momentum\<close> and \<open>total_mass\<close> of a list of bodies.
  \<^item> \<open>Gravity\<close> (lines 110--124 and 270--288): \<open>gravForce\<close>; the accumulator loops
    \<open>forcesInner\<close>, \<open>forcesOuter\<close>, \<open>computeForces\<close>; \<open>applyForces\<close>, \<open>updatePositions\<close>
    and their composition \<open>moveBodies\<close>; the reference definition \<open>netForce\<close>.
  \<^item> \<open>Collision\<close> (lines 126--166): the loops \<open>collideInner\<close> and \<open>collideOuter\<close> with
    the skip set and the two result arrays, \<open>checkCollisions\<close>; the executable
    specification \<open>resolvePairs\<close> and \<open>resolveSpec\<close> on lists; the declarative
    specification \<open>resolved\<close>, an inductive relation.
  \<^item> \<open>Spawner\<close> (lines 56--58 and 168--183): the generators as computations in the
    state monad over the stream of draws.
  \<^item> \<open>World\<close> (lines 24--53 and 186--294): the record \<open>world\<close> of the globals and one
    function per handler; the frame function \<open>loop\<close> is the composition of \<open>frameTime\<close>,
    \<open>spawnPhase\<close>, \<open>moveBodies\<close>, \<open>checkCollisions\<close> and \<open>cullBodies\<close>; the invariant
    \<open>wf_world\<close>.
  \<^item> \<open>Machine\<close>: the events of the page as a datatype, the dispatcher \<open>handle\<close>, the
    start state \<open>boot\<close> (the initialisers of the globals, the first \<^verbatim>\<open>resize\<close> and the
    first \<^verbatim>\<open>reset\<close>), runs of event lists and the inductive set of reachable states.
  \<^item> \<open>Number_Format\<close>: the conversions of the language that the overlay and the labels
    rely on (decimal digits of an integer, \<^verbatim>\<open>toFixed(0)\<close>, \<^verbatim>\<open>trim\<close>) with the functions that
    read the text back.
  \<^item> \<open>Render\<close> (lines 25--26, 75--86 and 296--319): the calls on the drawing context as
    the datatype \<open>canvas_op\<close>, \<open>draw\<close>, \<open>paint\<close>, \<open>overlayLines\<close> and \<open>overlayText\<close>.
  \<^item> \<open>Page\<close> (lines 40--53, 256--324): the record \<open>page\<close> of the simulation together with
    the canvas size, the latest painting, the overlay text, the registered listeners and
    the pending frame requests; \<open>resizePage\<close>, \<open>loopPage\<close> and \<open>bootPage\<close>; the browser's
    \<open>dispatch\<close> and the reachable pages.
  \<^item> \<open>Spec2Isabelle\<close> (this theory): the properties that span the components.

  \<^bold>\<open>Correspondence with the code.\<close> Every definition keeps the name of the function,
  method or variable it models. A method is a function from the receiver to the updated
  receiver; a handler is a function from the world to the updated world, and reads the
  globals from the world record. The arguments that the code reads from its environment
  are explicit: \<open>resize\<close> takes \<^verbatim>\<open>innerWidth\<close> and \<^verbatim>\<open>innerHeight\<close>, \<open>mousedown\<close> takes the
  click position and the origin of the canvas rectangle, \<open>loop\<close> takes the time stamp.
  Each \<^verbatim>\<open>for\<close> loop is a recursive function on the loop index with the loop condition as
  its guard; two arrays that the code mutates in place (\<^verbatim>\<open>forces\<close>, \<^verbatim>\<open>bodies\<close>) are
  lists updated by index, always inside their bounds because the guards of the loops
  bound the indices. \<^verbatim>\<open>continue\<close> and \<^verbatim>\<open>break\<close> in \<^verbatim>\<open>checkCollisions\<close> are the branches
  of \<open>collideInner\<close>, which returns the flag \<^verbatim>\<open>mergedThis\<close> with the updated arrays.

  \<^bold>\<open>Numbers and randomness.\<close> JavaScript numbers are modelled as mathematical reals:
  rounding, overflow to infinity and NaN are outside the model, so the theorems state
  what the program computes up to floating-point error. \<^verbatim>\<open>Math.pow(m, 0.8)\<close> is
  \<open>m powr (4 / 5)\<close>, \<^verbatim>\<open>Math.floor\<close> is the floor function, \<^verbatim>\<open>Math.hypot\<close> is the
  Euclidean norm. Division is total in HOL (\<open>x / 0 = 0\<close>), where the program would
  produce NaN or an infinity; no theorem rests on it: the divisors of \<open>gravForce\<close> are
  at least 1/2 by the distance floor (\<open>clampDist_ge_half\<close>), the lemmas on the floor
  state what it computes for distances below 1/2, and the lemmas that divide by a mass
  assume it is not zero. \<^verbatim>\<open>Math.random\<close> is the head of an infinite stream carried in the world;
  every call consumes one draw, in the order of the calls in the source, and the lemmas
  that need the range of a draw assume \<open>unit_draws\<close>.

  \<^bold>\<open>Termination.\<close> No fuel is used. All loops of the program are bounded by the length
  of a list or by \<^verbatim>\<open>START_BODIES_COUNT\<close>, and the corresponding functions are total, each
  with a termination proof by the distance of the index from its bound. The functions
  \<open>T_forcesInner\<close>, \<open>T_forcesOuter\<close> and \<open>T_computeForces\<close> mirror the recursion of the
  force loops and count the runs of the inner loop body; \<open>T_collideInner\<close>,
  \<open>T_collideOuter\<close> and \<open>T_checkCollisions\<close> in \<open>Collision\<close> do the same for the overlap
  tests of the collision pass.

  \<^bold>\<open>Bounds.\<close> The language prints numbers in positional notation below \<open>10 ^ 21\<close>
  only, while \<open>toFixed0\<close> and \<open>showInt\<close> print positionally at every magnitude: the
  overlay and the labels of the model are those of the page for worlds whose G,
  strength and masses are below \<open>10 ^ 21\<close>. \<open>overlay_read_back\<close> assumes this bound for
  G and for the strength, because G can leave the range (\<open>G_leaves_positional_range\<close>);
  \<open>labels_read_back\<close> is stated for the labels of the model, and a mass of that size
  would need as many spawns or clicks. Every character the page writes has a code below
  256 and is one \<^typ>\<open>char\<close>.

  \<^bold>\<open>What the lemmas show.\<close> \<open>Body\<close>: bounds of the radius, preservation of \<open>wf_body\<close>,
  soundness of the culling test and its gap at the corners of the viewport. \<open>Gravity\<close>:
  the loops compute \<open>netForce\<close>; the forces of a frame sum to zero; the force is
  antisymmetric, capped by \<^verbatim>\<open>MAX_FORCE\<close>, follows the inverse-square law outside the
  clamp and the cap, and inside the distance floor is linear in the displacement and
  below the cap; motion conserves momentum and uses a snapshot of the positions.
  \<open>Collision\<close>: the index loops compute \<open>resolveSpec\<close>, which coincides with the
  relation \<open>resolved\<close>; the pass conserves mass, momentum and the centre of mass, never
  increases the kinetic energy, partitions the bodies into survivors and merged pairs,
  leaves the survivors pairwise apart, and is the identity on lists without overlap.
  \<open>Spawner\<close>: range of the generated values and the number of draws consumed.
  \<open>World\<close> and \<open>Machine\<close>: every handler preserves \<open>wf_world\<close>, hence
  every reachable state satisfies it; a frame leaves no body off-screen and culls by
  the positions after the motion, every event
  adds at most one body, the first frame changes nothing, spawning makes progress
  along every run of frames, and the total mass grows by at most \<^verbatim>\<open>MASS_MAX\<close> per
  frame and not at all without spawning; the effect of every key, and which events
  commute with a resize. \<open>Render\<close>: a painting shows
  exactly the bodies, and the labels and the overlay text read back as the state they
  display. \<open>Page\<close>: the page refines the machine (the output never influences the
  simulation), and in every reachable page exactly one frame is pending, the canvas has
  the size of the viewport and the listeners are registered.

  \<^bold>\<open>Not modelled.\<close> The pixels that the browser produces from the drawing calls, the
  style sheet and the markup of the page, and the timing of the browser: the schedule of
  events is replaced by arbitrary finite lists of events in \<open>Machine\<close> and \<open>Page\<close>, with
  the time stamps of the frames as data of the events.
\<close>

text \<open>
  C22. Motion followed by collision resolution, the physics of one frame, conserves both
  the total momentum and the total mass of a well-formed list of bodies.
\<close>

theorem physics_conserves_momentum:
  assumes "wf_bodies bs"
  shows "momentum (checkCollisions (moveBodies bs g dt) enabled) = momentum bs \<and>
     total_mass (checkCollisions (moveBodies bs g dt) enabled) = total_mass bs"
proof -
  let ?bs = "moveBodies bs g dt"
  from assms have pos: "\<forall>b \<in> set bs. masse b \<noteq> 0"
    by (auto dest: wf_bodies_bounds(1))
  from assms have "wf_bodies ?bs"
    by (rule wf_bodies_moveBodies)
  then have pos': "\<forall>b \<in> set ?bs. 0 < masse b"
    by (auto dest: wf_bodies_bounds(1))
  have "momentum (checkCollisions ?bs enabled) = momentum ?bs"
    by (rule checkCollisions_transfer) (rule refl, erule resolved_momentum, rule pos')
  moreover have "total_mass (checkCollisions ?bs enabled) = total_mass ?bs"
    by (rule checkCollisions_transfer) (rule refl, erule resolved_total_mass)
  moreover have "total_mass ?bs = total_mass bs"
    by simp
  ultimately show ?thesis
    using momentum_moveBodies [OF pos] by simp
qed

theorem physics_conserves_momentum_witness:
  "wf_bodies [Body 0 0 1 10 0, Body 3 4 3 0 0] \<and>
   momentum (checkCollisions (moveBodies [Body 0 0 1 10 0, Body 3 4 3 0 0] 2000 (1 / 100)) True)
     = (10, 0) \<and>
   total_mass (checkCollisions (moveBodies [Body 0 0 1 10 0, Body 3 4 3 0 0] 2000 (1 / 100)) True)
     = 4"
proof -
  have wf: "wf_bodies [Body 0 0 1 10 0, Body 3 4 3 0 0]"
    by (simp add: wf_bodies_def wf_body_def MASS_MIN_def)
  from wf physics_conserves_momentum [OF wf, of 2000 "1 / 100" True] show ?thesis
    by simp
qed

text \<open>
  C23. The end-to-end scenario: a body of mass 1 at the centre of an 800 x 600 viewport
  and a body of mass 2 at distance 100 to its right, both at rest, G = 2000; one frame
  event with dt = 0.01 accelerates the left body to the right by 1/250 and the right
  body to the left by 1/500 (ratio 2), moves both by their new velocity, and merges or
  removes neither.
\<close>

theorem end_to_end_scenario:
  "bodies (run (demoWorld [Body 400 300 1 0 0, Body 500 300 2 0 0] 1000) [Frame 1010])
     = [Body (400 + 1 / 25000) 300 1 (1 / 250) 0, Body (500 - 1 / 50000) 300 2 (- (1 / 500)) 0]"
proof -
  let ?a = "Body 400 300 1 0 0" and ?b = "Body 500 300 2 0 0"
  let ?a' = "Body (400 + 1 / 25000) 300 1 (1 / 250) 0"
  let ?b' = "Body (500 - 1 / 50000) 300 2 (- (1 / 500)) 0"
  have mv: "moveBodies [?a, ?b] 2000 (1 / 100) = [?a', ?b']"
    by (simp add: moveBodies_def computeForces_def forcesOuter.simps forcesInner.simps
        applyForces.simps updatePositions_def gravForce_def MAX_FORCE_def Let_def
        applyForce_def updatePosition_def Body_def calcRadius_def)
  have ap: "apart [?a', ?b']"
    by (simp add: apart_def collides_def hypot_def)
  have on: "cullBodies [?a', ?b'] 800 600 = [?a', ?b']"
    by (simp add: cullBodies_def isOffScreen_def)
  have "bodies (loop 1010 (demoWorld [?a, ?b] 1000))
      = cullBodies (checkCollisions (moveBodies [?a, ?b] 2000 (1 / 100)) True) 800 600"
    by (simp add: loop_bodies frameTime_def spawnPhase_disabled Let_def)
  also have "\<dots> = [?a', ?b']"
    unfolding mv checkCollisions_cases by (simp only: resolveSpec_apart [OF ap] on if_True)
  finally show ?thesis by simp
qed

text \<open>
  C24. After a frame the page shows the state of the simulation: the circles drawn are
  exactly the bodies of the new state, in order and with their radii; none of them is
  off-screen with respect to the canvas; the count in the overlay is the number of
  circles; and the painting starts with a background fill of the whole canvas.
\<close>

theorem frame_shows_state:
  assumes "wf_page p" "p' = dispatch (Frame timestamp) p"
  shows "arcs (screen p') = map (\<lambda>b. (x b, y b, radius b)) (bodies (sim p')) \<and>
     (\<forall>b \<in> set (bodies (sim p')). \<not> isOffScreen b (canvasWidth p') (canvasHeight p')) \<and>
     fst (readOverlay (overlay p')) = length (arcs (screen p')) \<and>
     take 2 (screen p') = [FillStyle BG_COLOR, FillRect 0 0 (canvasWidth p') (canvasHeight p')]"
proof -
  let ?w = "loop timestamp (sim p)"
  from assms have s: "sim p' = ?w"
    by (simp add: sim_dispatch del: dispatch.simps)
  from assms have c: "canvasWidth p' = WIDTH ?w" "canvasHeight p' = HEIGHT ?w"
    by (simp_all add: dispatch_Frame del: dispatch.simps)
  from assms have "screen p' = paint ?w" "overlay p' = overlayText ?w"
    by (simp_all add: dispatch_Frame del: dispatch.simps)
  with loop_on_screen [of _ timestamp "sim p"] show ?thesis
    unfolding s c
    by (simp add: arcs_paint readOverlay_overlayText paint_background)
qed

theorem frame_shows_state_witness:
  "arcs (screen (dispatch (Frame 16) (demoPage [Body 400 300 1 0 0]))) = [(400, 300, 5)] \<and>
   fst (readOverlay (overlay (dispatch (Frame 16) (demoPage [Body 400 300 1 0 0])))) = 1"
proof -
  have "bodies (loop 16 (demoWorld [Body 400 300 1 0 0] 0)) = [Body 400 300 1 0 0]"
    by (simp add: loop_demoWorld_first checkCollisions_single cullBodies_def isOffScreen_def)
  with frame_shows_state [OF wf_page_demoPage refl, of 16 "[Body 400 300 1 0 0]"]
  show ?thesis
    by (simp add: sim_dispatch wf_page_demoPage del: dispatch.simps)
qed

text \<open>
  C29. The two quadratic loops of a frame terminate within one step per unordered pair
  of bodies: for n bodies the force computation evaluates gravForce exactly
  n (n - 1) / 2 times, and the collision pass evaluates the overlap test at most
  n (n - 1) / 2 times, whatever the skip set and the merges do.
\<close>

theorem frame_loops_cost:
  "2 * T_computeForces bs = length bs * (length bs - 1) \<and>
   2 * T_checkCollisions bs enabled \<le> length bs * (length bs - 1)"
  using T_computeForces_eq [of bs] T_checkCollisions_le [of bs enabled] by simp

theorem frame_loops_cost_witness:
  "T_computeForces [Body 0 0 1 0 0, Body 3 4 2 0 0, Body 6 0 5 1 1] = 3 \<and>
   T_checkCollisions [Body 0 0 1 0 0, Body 3 4 2 0 0, Body 6 0 5 1 1] True \<le> 3"
  using frame_loops_cost [of "[Body 0 0 1 0 0, Body 3 4 2 0 0, Body 6 0 5 1 1]" True]
  by simp

end
